theory Spec2Isabelle
  imports Main
begin

section \<open>The chat room server (server.js): data model\<close>

text \<open>
  The model follows \<^verbatim>\<open>src/server.js\<close>. A WebSocket object is identified by a
  natural number; its mutable fields (\<^verbatim>\<open>ws.roomId\<close>, \<^verbatim>\<open>ws.sender\<close>, \<^verbatim>\<open>ws.isAdmin\<close>,
  \<^verbatim>\<open>ws.readyState\<close>) live in a store \<open>sock\<close> indexed by that number, because the
  same object is shared by the room sets and the pending map.

  Strings are lists of 8-bit characters, the code units below 256; a message field that
  is absent, \<^verbatim>\<open>null\<close> or the empty string is the empty string (the source defaults
  all three alike with \<^verbatim>\<open>||\<close>). The handlers are given block by block, a block
  being the code between two \<^verbatim>\<open>await\<close>s. Two transition systems are built from
  them: \<open>step\<close>, in which every handler runs to its end before the next event, and
  \<open>istep\<close>, in which the handlers that wait are interleaved with the other events as
  the event loop of Node interleaves them. The database calls are assumed to succeed.
\<close>

datatype ready_state = CONNECTING | OPEN | CLOSING | CLOSED

record conn =
  ws_roomId :: "string option"
  ws_sender :: string
  ws_isAdmin :: bool
  ws_readyState :: ready_state

text \<open>A row of table \<^verbatim>\<open>rooms\<close> (the key \<^verbatim>\<open>roomId\<close> is the index of the map).\<close>

record room =
  roomPassHash :: string
  adminPassHash :: string
  enabled :: bool

datatype kind = KText | KFile

text \<open>
  The columns of table \<^verbatim>\<open>messages\<close> that \<^verbatim>\<open>getHistory\<close> selects. The table itself
  is a list of pairs (roomId, row) in insertion order: \<^verbatim>\<open>id\<close> is AUTOINCREMENT, so
  \<^verbatim>\<open>ORDER BY id ASC\<close> is the order of insertion.
\<close>

record row =
  h_sender :: string
  h_kind :: kind
  h_text :: "string option"
  h_fileUrl :: "string option"
  h_fileMime :: "string option"
  h_fileName :: "string option"
  h_ts :: nat

type_synonym message = "string \<times> row"

text \<open>A value of the map \<^verbatim>\<open>pending\<close>: \<^verbatim>\<open>{ ws, roomId, sender, createdAt }\<close>.\<close>

record pending_req =
  p_ws :: nat
  p_roomId :: string
  p_sender :: string
  p_createdAt :: nat

text \<open>The objects the server passes to \<^verbatim>\<open>send\<close>, by their \<^verbatim>\<open>type\<close> field.\<close>

datatype out_msg =
    Error string
  | AdminAttached string bool
  | PendingList "(string \<times> string \<times> nat) list"
  | History "row list"
  | System string
  | Waiting string
  | JoinRequest string string nat
  | JoinRequestClosed string
  | JoinDenied
  | Joined string
  | ChatMsg string string nat
  | FileMsg string string string string
  | RoomStatus bool
  | ChatCleared
  | Kicked string

text \<open>
  The state of the server: the two database tables, the upload directory (the names of
  the files in it), the three runtime maps, the socket store, and two logs. \<open>send_log\<close>
  records every call \<^verbatim>\<open>send(ws, obj)\<close> in order; \<open>wire\<close> records the frames that
  \<^verbatim>\<open>ws.send\<close> really wrote, which \<^verbatim>\<open>send\<close> does only on an OPEN socket.
  The maps \<^verbatim>\<open>clientsByRoom\<close> and \<^verbatim>\<open>adminsByRoom\<close> are only read by key; their
  values are JavaScript Sets, kept as duplicate-free lists in insertion order. The map
  \<^verbatim>\<open>pending\<close> is iterated, so it is an association list in insertion order.
\<close>

record state =
  rooms :: "string \<rightharpoonup> room"
  messages :: "message list"
  uploads :: "string set"
  clientsByRoom :: "string \<rightharpoonup> nat list"
  adminsByRoom :: "string \<rightharpoonup> nat list"
  pending :: "(string \<times> pending_req) list"
  sock :: "nat \<Rightarrow> conn"
  send_log :: "(nat \<times> out_msg) list"
  wire :: "(nat \<times> out_msg) list"

text \<open>
  \<^verbatim>\<open>bcryptjs\<close> is an external library: its two functions are parameters of the model.
\<close>

record bcrypt =
  bc_hash :: "string \<Rightarrow> string"
  bc_compare :: "string \<Rightarrow> string \<Rightarrow> bool"

section \<open>JavaScript primitives\<close>

text \<open>\<^verbatim>\<open>x || d\<close> on a string field: the default replaces an absent or empty value.\<close>

definition js_or :: "string \<Rightarrow> string \<Rightarrow> string" where
  "js_or x d = (if x = [] then d else x)"

text \<open>Truthiness of \<^verbatim>\<open>ws.roomId\<close>: \<^verbatim>\<open>null\<close> and the empty string are falsy.\<close>

definition truthy :: "string option \<Rightarrow> bool" where
  "truthy r = (case r of None \<Rightarrow> False | Some x \<Rightarrow> x \<noteq> [])"

text \<open>
  \<^verbatim>\<open>String.prototype.trim\<close>: white space of the 8-bit range is TAB, LF, VT, FF, CR,
  SPACE and NBSP.
\<close>

definition is_space :: "char \<Rightarrow> bool" where
  "is_space c = (of_char c \<in> {9, 10, 11, 12, 13, 32, 160 :: nat})"

definition trim :: "string \<Rightarrow> string" where
  "trim x = rev (dropWhile is_space (rev (dropWhile is_space x)))"

definition startsWith :: "string \<Rightarrow> string \<Rightarrow> bool" where
  "startsWith x p = (take (length p) x = p)"

text \<open>
  \<^verbatim>\<open>toLowerCase\<close> on the code units below 256: the letters A to Z, and the capital
  letters of Latin-1 (0xC0 to 0xDE without the multiplication sign 0xD7), each 32 below
  its small letter.
\<close>

definition lower_char :: "char \<Rightarrow> char" where
  "lower_char c =
     (let n = (of_char c :: nat)
      in if (65 \<le> n \<and> n \<le> 90) \<or> (192 \<le> n \<and> n \<le> 222 \<and> n \<noteq> 215)
         then char_of (n + 32) else c)"

definition toLowerCase :: "string \<Rightarrow> string" where
  "toLowerCase x = map lower_char x"

text \<open>
  A JavaScript Set as a list: \<^verbatim>\<open>add\<close> appends a new element, \<^verbatim>\<open>delete\<close> removes it.
\<close>

definition set_add :: "nat list \<Rightarrow> nat \<Rightarrow> nat list" where
  "set_add xs x = (if x \<in> set xs then xs else xs @ [x])"

definition set_delete :: "nat list \<Rightarrow> nat \<Rightarrow> nat list" where
  "set_delete xs x = removeAll x xs"

text \<open>
  A JavaScript Map as an association list: \<^verbatim>\<open>set\<close> on a present key replaces the
  value in place, on a new key it appends.
\<close>

definition jsmap_get :: "(string \<times> 'v) list \<Rightarrow> string \<Rightarrow> 'v option" where
  "jsmap_get m k = map_of m k"

fun jsmap_set :: "(string \<times> 'v) list \<Rightarrow> string \<Rightarrow> 'v \<Rightarrow> (string \<times> 'v) list" where
  "jsmap_set [] k v = [(k, v)]"
| "jsmap_set (e # es) k v = (if fst e = k then (k, v) # es else e # jsmap_set es k v)"

definition jsmap_delete :: "(string \<times> 'v) list \<Rightarrow> string \<Rightarrow> (string \<times> 'v) list" where
  "jsmap_delete m k = filter (\<lambda>e. fst e \<noteq> k) m"

section \<open>Database access\<close>

definition getRoom :: "state \<Rightarrow> string \<Rightarrow> room option" where
  "getRoom s roomId = rooms s roomId"

definition getHistory :: "state \<Rightarrow> string \<Rightarrow> nat \<Rightarrow> row list" where
  "getHistory s roomId limit = take limit (map snd (filter (\<lambda>m. fst m = roomId) (messages s)))"

definition addText :: "state \<Rightarrow> string \<Rightarrow> string \<Rightarrow> string \<Rightarrow> nat \<Rightarrow> state" where
  "addText s roomId sender text ts =
     s\<lparr>messages := messages s @
         [(roomId, \<lparr>h_sender = sender, h_kind = KText, h_text = Some text, h_fileUrl = None,
                    h_fileMime = None, h_fileName = None, h_ts = ts\<rparr>)]\<rparr>"

definition addFile :: "state \<Rightarrow> string \<Rightarrow> string \<Rightarrow> string \<Rightarrow> string \<Rightarrow> string \<Rightarrow> nat \<Rightarrow> state" where
  "addFile s roomId sender fileUrl fileMime fileName ts =
     s\<lparr>messages := messages s @
         [(roomId, \<lparr>h_sender = sender, h_kind = KFile, h_text = None, h_fileUrl = Some fileUrl,
                    h_fileMime = Some fileMime, h_fileName = Some fileName, h_ts = ts\<rparr>)]\<rparr>"

definition clearChat :: "state \<Rightarrow> string \<Rightarrow> state" where
  "clearChat s roomId = s\<lparr>messages := filter (\<lambda>m. fst m \<noteq> roomId) (messages s)\<rparr>"

definition setRoomEnabled :: "state \<Rightarrow> string \<Rightarrow> bool \<Rightarrow> state" where
  "setRoomEnabled s roomId en =
     (case rooms s roomId of
        None \<Rightarrow> s
      | Some r \<Rightarrow> s\<lparr>rooms := (rooms s)(roomId \<mapsto> r\<lparr>enabled := en\<rparr>)\<rparr>)"

section \<open>Runtime state\<close>

text \<open>
  \<^verbatim>\<open>send\<close>: the call is logged; the frame is written only if the socket is OPEN.
\<close>

definition send :: "state \<Rightarrow> nat \<Rightarrow> out_msg \<Rightarrow> state" where
  "send s ws obj =
     (if ws_readyState (sock s ws) = OPEN
      then s\<lparr>send_log := send_log s @ [(ws, obj)], wire := wire s @ [(ws, obj)]\<rparr>
      else s\<lparr>send_log := send_log s @ [(ws, obj)]\<rparr>)"

text \<open>
  \<^verbatim>\<open>ws.close()\<close> of the \<^verbatim>\<open>ws\<close> library: an OPEN socket starts its closing handshake;
  on any other socket the call changes nothing (the source swallows what it throws).
\<close>

definition ws_close :: "state \<Rightarrow> nat \<Rightarrow> state" where
  "ws_close s ws =
     (if ws_readyState (sock s ws) = OPEN
      then s\<lparr>sock := (sock s)(ws := (sock s ws)\<lparr>ws_readyState := CLOSING\<rparr>)\<rparr>
      else s)"

definition addTo :: "(string \<rightharpoonup> nat list) \<Rightarrow> string \<Rightarrow> nat \<Rightarrow> (string \<rightharpoonup> nat list)" where
  "addTo m key ws =
     (let m1 = (if m key = None then m(key \<mapsto> []) else m)
      in case m1 key of None \<Rightarrow> m1 | Some xs \<Rightarrow> m1(key \<mapsto> set_add xs ws))"

definition removeFrom :: "(string \<rightharpoonup> nat list) \<Rightarrow> string \<Rightarrow> nat \<Rightarrow> (string \<rightharpoonup> nat list)" where
  "removeFrom m key ws =
     (case m key of
        None \<Rightarrow> m
      | Some xs \<Rightarrow>
          (let ys = set_delete xs ws
           in if length ys = 0 then m(key := None) else m(key \<mapsto> ys)))"

text \<open>The loop \<^verbatim>\<open>for (const ws of set) send(ws, msg)\<close>.\<close>

fun send_each :: "state \<Rightarrow> nat list \<Rightarrow> out_msg \<Rightarrow> state" where
  "send_each s [] msg = s"
| "send_each s (ws # rest) msg = send_each (send s ws msg) rest msg"

definition broadcastToRoom :: "state \<Rightarrow> string \<Rightarrow> out_msg \<Rightarrow> state" where
  "broadcastToRoom s roomId msg =
     (case clientsByRoom s roomId of None \<Rightarrow> s | Some xs \<Rightarrow> send_each s xs msg)"

definition broadcastToAdmins :: "state \<Rightarrow> string \<Rightarrow> out_msg \<Rightarrow> state" where
  "broadcastToAdmins s roomId msg =
     (case adminsByRoom s roomId of None \<Rightarrow> s | Some xs \<Rightarrow> send_each s xs msg)"

text \<open>The loop of \<^verbatim>\<open>kickRoom\<close>: notify, then close, each member in turn.\<close>

fun kick_each :: "state \<Rightarrow> nat list \<Rightarrow> string \<Rightarrow> state" where
  "kick_each s [] reason = s"
| "kick_each s (ws # rest) reason = kick_each (ws_close (send s ws (Kicked reason)) ws) rest reason"

definition kickRoom :: "state \<Rightarrow> string \<Rightarrow> string \<Rightarrow> state" where
  "kickRoom s roomId reason =
     (case clientsByRoom s roomId of
        None \<Rightarrow> s
      | Some xs \<Rightarrow>
          (let s1 = kick_each s xs reason
           in s1\<lparr>clientsByRoom := (clientsByRoom s1)(roomId := None)\<rparr>))"

text \<open>
  The loop of \<^verbatim>\<open>denyPendingForRoom\<close> over the entries of \<^verbatim>\<open>pending\<close>. The loop
  deletes only the entry it is visiting, so it visits every entry present at its start.
\<close>

fun deny_each :: "state \<Rightarrow> (string \<times> pending_req) list \<Rightarrow> string \<Rightarrow> string \<Rightarrow> state" where
  "deny_each s [] roomId reason = s"
| "deny_each s (e # rest) roomId reason =
     deny_each
       (if p_roomId (snd e) = roomId
        then (let s1 = send s (p_ws (snd e)) (Error reason);
                  s2 = ws_close s1 (p_ws (snd e))
              in s2\<lparr>pending := jsmap_delete (pending s2) (fst e)\<rparr>)
        else s)
       rest roomId reason"

definition denyPendingForRoom :: "state \<Rightarrow> string \<Rightarrow> string \<Rightarrow> state" where
  "denyPendingForRoom s roomId reason = deny_each s (pending s) roomId reason"

section \<open>Handlers and their awaits\<close>

text \<open>
  The handlers are \<^verbatim>\<open>async\<close> functions. A handler runs without interruption up to an
  \<^verbatim>\<open>await\<close>; there it stops until the promise it waits for has its value, and the
  server handles other events in the meantime. Each handler is therefore given block by
  block. A block is the code between two \<^verbatim>\<open>await\<close>s: a function of the state in which
  it runs, of the local variables the handler still uses, and of the value of the promise
  the handler waited for. A block returns the value of the promise at which the handler
  stops next, or nothing when the handler has returned (for an HTTP handler: the
  response). A database statement takes effect in the block that issues it and its
  result reaches the handler when it goes on; \<^verbatim>\<open>bcrypt\<close> is a function of its arguments.

  After the blocks of a handler comes the function that bears the handler's name
  (\<open>create_room\<close>, \<open>admin_action\<close>, \<open>upload\<close>, \<open>admin_attach\<close>, \<open>request_join\<close>,
  \<open>approve_deny\<close>, \<open>chat\<close>): it runs the blocks one after the other with nothing in
  between, which is the handler when no other event is handled while it waits.
\<close>

subsection \<open>Admin HTTP APIs\<close>

text \<open>An HTTP response: the status code and the JSON body.\<close>

datatype http_body = Ok | OkUrl string | Err string

type_synonym response = "nat \<times> http_body"

text \<open>
  \<^verbatim>\<open>POST /api/admin/create-room\<close>: the block up to \<^verbatim>\<open>await getRoom\<close>, the block up to
  the first \<^verbatim>\<open>await bcrypt.hash\<close>, the \<^verbatim>\<open>INSERT\<close> (issued after the second hash; it
  fails on a room id that is in the table by then, \<^verbatim>\<open>roomId\<close> being the primary key),
  and the response, which is 500 from the \<^verbatim>\<open>catch\<close> when the statement failed.
\<close>

definition create_begin :: "state \<Rightarrow> string \<Rightarrow> string \<Rightarrow> string \<Rightarrow> response + room option" where
  "create_begin s roomId roomPassword adminPassword =
     (if roomId = [] \<or> roomPassword = [] \<or> adminPassword = []
      then Inl (400, Err ''Missing fields'')
      else Inr (getRoom s roomId))"

definition create_exists :: "bcrypt \<Rightarrow> string \<Rightarrow> room option \<Rightarrow> response + string" where
  "create_exists bc roomPassword found =
     (if found \<noteq> None then Inl (409, Err ''Room already exists'')
      else Inr (bc_hash bc roomPassword))"

definition create_insert :: "state \<Rightarrow> string \<Rightarrow> string \<Rightarrow> string \<Rightarrow> state \<times> bool" where
  "create_insert s roomId roomPassHash0 adminPassHash0 =
     (if rooms s roomId \<noteq> None then (s, False)
      else (s\<lparr>rooms := (rooms s)(roomId \<mapsto>
                 \<lparr>roomPassHash = roomPassHash0, adminPassHash = adminPassHash0,
                  enabled = True\<rparr>)\<rparr>,
            True))"

definition create_reply :: "bool \<Rightarrow> response" where
  "create_reply inserted = (if inserted then (200, Ok) else (500, Err ''Create room failed''))"

definition create_room :: "bcrypt \<Rightarrow> state \<Rightarrow> string \<Rightarrow> string \<Rightarrow> string \<Rightarrow> state \<times> response" where
  "create_room bc s roomId roomPassword adminPassword =
     (case create_begin s roomId roomPassword adminPassword of
        Inl resp \<Rightarrow> (s, resp)
      | Inr found \<Rightarrow>
          (case create_exists bc roomPassword found of
             Inl resp \<Rightarrow> (s, resp)
           | Inr roomPassHash0 \<Rightarrow>
               (let adminPassHash0 = bc_hash bc adminPassword;
                    r = create_insert s roomId roomPassHash0 adminPassHash0
                in (fst r, create_reply (snd r)))))"

text \<open>
  \<^verbatim>\<open>POST /api/admin/action\<close>: the block up to \<^verbatim>\<open>await getRoom\<close>, the block up to
  \<^verbatim>\<open>await bcrypt.compare\<close>, the block that issues the database statement of the action
  (\<open>action_write\<close>), and the block after that statement (\<open>action_finish\<close>), which
  notifies, evicts and responds.
\<close>

definition action_begin :: "state \<Rightarrow> string \<Rightarrow> string \<Rightarrow> string \<Rightarrow> response + room option" where
  "action_begin s roomId adminPassword action =
     (if roomId = [] \<or> adminPassword = [] \<or> action = []
      then Inl (400, Err ''Missing fields'')
      else Inr (getRoom s roomId))"

definition action_found :: "bcrypt \<Rightarrow> string \<Rightarrow> room option \<Rightarrow> response + bool" where
  "action_found bc adminPassword room0 =
     (case room0 of
        None \<Rightarrow> Inl (404, Err ''Room not found'')
      | Some room \<Rightarrow> Inr (bc_compare bc adminPassword (adminPassHash room)))"

definition action_write :: "state \<Rightarrow> string \<Rightarrow> string \<Rightarrow> bool \<Rightarrow> state \<times> response option" where
  "action_write s roomId action okAdmin =
     (if \<not> okAdmin then (s, Some (403, Err ''Wrong admin password''))
      else if action = ''enable'' then (setRoomEnabled s roomId True, None)
      else if action = ''disable'' then (setRoomEnabled s roomId False, None)
      else if action = ''clear'' then (clearChat s roomId, None)
      else (s, Some (400, Err ''Unknown action'')))"

definition action_finish :: "state \<Rightarrow> string \<Rightarrow> string \<Rightarrow> state \<times> response" where
  "action_finish s roomId action =
     (if action = ''enable''
      then (let s2 = broadcastToRoom s roomId (RoomStatus True);
                s3 = broadcastToAdmins s2 roomId (RoomStatus True)
            in (s3, (200, Ok)))
      else if action = ''disable''
      then (let s2 = broadcastToAdmins s roomId (RoomStatus False);
                s3 = kickRoom s2 roomId ''Room disabled by admin'';
                s4 = denyPendingForRoom s3 roomId ''Room disabled by admin''
            in (s4, (200, Ok)))
      else if action = ''clear''
      then (let s2 = broadcastToRoom s roomId ChatCleared;
                s3 = broadcastToAdmins s2 roomId ChatCleared
            in (s3, (200, Ok)))
      else (s, (400, Err ''Unknown action'')))"

definition admin_action :: "bcrypt \<Rightarrow> state \<Rightarrow> string \<Rightarrow> string \<Rightarrow> string \<Rightarrow> state \<times> response" where
  "admin_action bc s roomId adminPassword action =
     (case action_begin s roomId adminPassword action of
        Inl resp \<Rightarrow> (s, resp)
      | Inr room0 \<Rightarrow>
          (case action_found bc adminPassword room0 of
             Inl resp \<Rightarrow> (s, resp)
           | Inr okAdmin \<Rightarrow>
               (case action_write s roomId action okAdmin of
                  (s1, Some resp) \<Rightarrow> (s1, resp)
                | (s1, None) \<Rightarrow> action_finish s1 roomId action)))"

subsection \<open>Upload API\<close>

text \<open>
  \<^verbatim>\<open>req.file\<close>, with the declared media type of the file, its original name and
  the name multer stored it under. multer has already written the blob into the
  upload directory under \<^verbatim>\<open>filename\<close> when the handler starts (\<open>multer_single\<close>);
  \<^verbatim>\<open>req.file.path\<close> is that name inside the directory, so the directory is modelled
  by the set of the names in it. \<^verbatim>\<open>path.extname\<close> belongs to Node and is a parameter.
\<close>

record upfile =
  f_mimetype :: string
  f_originalname :: string
  f_filename :: string

definition multer_single :: "state \<Rightarrow> upfile option \<Rightarrow> state" where
  "multer_single s file =
     (case file of None \<Rightarrow> s | Some f \<Rightarrow> s\<lparr>uploads := insert (f_filename f) (uploads s)\<rparr>)"

definition unlinkSync :: "string set \<Rightarrow> string \<Rightarrow> string set" where
  "unlinkSync dir name = dir - {name}"

definition renameSync :: "string set \<Rightarrow> string \<Rightarrow> string \<Rightarrow> string set" where
  "renameSync dir old new = (if old \<in> dir then insert new (dir - {old}) else dir)"

text \<open>
  \<^verbatim>\<open>POST /api/upload\<close>: the block up to \<^verbatim>\<open>await getRoom\<close>, the block up to
  \<^verbatim>\<open>await bcrypt.compare\<close>, the block that tests the media type, renames the blob and
  issues the \<^verbatim>\<open>INSERT\<close> of \<^verbatim>\<open>addFile\<close> (\<open>upload_store\<close>), and the block that
  broadcasts and responds (\<open>upload_deliver\<close>).
\<close>

definition upload_begin ::
  "state \<Rightarrow> upfile option \<Rightarrow> string \<Rightarrow> string \<Rightarrow> response + (upfile \<times> room option)" where
  "upload_begin s file roomId roomPassword =
     (case file of
        None \<Rightarrow> Inl (400, Err ''No file'')
      | Some f \<Rightarrow>
          if roomId = [] \<or> roomPassword = []
          then Inl (400, Err ''Missing room/password'')
          else Inr (f, getRoom s roomId))"

definition upload_found :: "bcrypt \<Rightarrow> string \<Rightarrow> room option \<Rightarrow> response + bool" where
  "upload_found bc roomPassword room0 =
     (case room0 of
        None \<Rightarrow> Inl (404, Err ''Room not found'')
      | Some room \<Rightarrow>
          if \<not> enabled room then Inl (403, Err ''Room disabled'')
          else Inr (bc_compare bc roomPassword (roomPassHash room)))"

definition upload_store ::
  "(string \<Rightarrow> string) \<Rightarrow> state \<Rightarrow> upfile \<Rightarrow> string \<Rightarrow> string \<Rightarrow> bool \<Rightarrow> nat
     \<Rightarrow> state \<times> (response + (string \<times> string \<times> string \<times> string))" where
  "upload_store extname s f roomId sender okPass now0 =
     (if \<not> okPass then (s, Inl (403, Err ''Wrong passkey''))
      else (let mime = toLowerCase (js_or (f_mimetype f) []);
                isOk = (startsWith mime ''image/'' \<or> startsWith mime ''video/''
                        \<or> startsWith mime ''audio/'')
            in if \<not> isOk
               then (s\<lparr>uploads := unlinkSync (uploads s) (f_filename f)\<rparr>,
                     Inl (400, Err ''Only image/video/audio allowed''))
               else (let safeSender = take 20 (js_or sender ''User'');
                         original = js_or (f_originalname f) ''file'';
                         ext = js_or (take 10 (extname original)) [];
                         newName = f_filename f @ ext;
                         s1 = s\<lparr>uploads := renameSync (uploads s) (f_filename f) newName\<rparr>;
                         fileUrl = ''/uploads/'' @ newName;
                         s2 = addFile s1 roomId safeSender fileUrl mime original now0
                     in (s2, Inr (safeSender, fileUrl, mime, original)))))"

definition upload_deliver ::
  "state \<Rightarrow> string \<Rightarrow> string \<Rightarrow> string \<Rightarrow> string \<Rightarrow> string \<Rightarrow> state \<times> response" where
  "upload_deliver s roomId safeSender fileUrl mime original =
     (let payload = FileMsg safeSender fileUrl mime original;
          s3 = broadcastToRoom s roomId payload;
          s4 = broadcastToAdmins s3 roomId payload
      in (s4, (200, OkUrl fileUrl)))"

definition upload ::
  "bcrypt \<Rightarrow> (string \<Rightarrow> string) \<Rightarrow> state \<Rightarrow> upfile option \<Rightarrow> string \<Rightarrow> string \<Rightarrow> string \<Rightarrow> nat
     \<Rightarrow> state \<times> response" where
  "upload bc extname s file roomId roomPassword sender now0 =
     (case upload_begin s file roomId roomPassword of
        Inl resp \<Rightarrow> (s, resp)
      | Inr (f, room0) \<Rightarrow>
          (case upload_found bc roomPassword room0 of
             Inl resp \<Rightarrow> (s, resp)
           | Inr okPass \<Rightarrow>
               (case upload_store extname s f roomId sender okPass now0 of
                  (s2, Inl resp) \<Rightarrow> (s2, resp)
                | (s2, Inr (safeSender, fileUrl, mime, original)) \<Rightarrow>
                    upload_deliver s2 roomId safeSender fileUrl mime original)))"

subsection \<open>WebSocket handlers\<close>

text \<open>The \<^verbatim>\<open>connection\<close> handler initialises the three fields of a new socket.\<close>

definition on_connection :: "state \<Rightarrow> nat \<Rightarrow> state" where
  "on_connection s ws =
     s\<lparr>sock := (sock s)(ws :=
         \<lparr>ws_roomId = None, ws_sender = ''User'', ws_isAdmin = False, ws_readyState = OPEN\<rparr>)\<rparr>"

text \<open>
  A frame that the \<^verbatim>\<open>message\<close> handler handles without throwing, by its \<^verbatim>\<open>type\<close>;
  \<open>Unparsed\<close> is a frame that \<^verbatim>\<open>JSON.parse\<close> rejects, or a JSON value other than
  \<^verbatim>\<open>null\<close> whose \<^verbatim>\<open>type\<close> is none of the five. The fields are strings (a field
  that is an object with a \<^verbatim>\<open>toString\<close> property of its own is left out). The
  results of \<^verbatim>\<open>makeId()\<close> and of the successive calls of \<^verbatim>\<open>now()\<close> are inputs
  (\<open>mid\<close>, \<open>now0\<close>, \<open>now1\<close>, \<open>now2\<close>).
\<close>

datatype ws_msg =
    AdminAttach string string string
  | RequestJoin string string string
  | Approve string
  | Deny string
  | Chat string
  | Unparsed

definition set_roomId :: "state \<Rightarrow> nat \<Rightarrow> string \<Rightarrow> state" where
  "set_roomId s ws roomId = s\<lparr>sock := (sock s)(ws := (sock s ws)\<lparr>ws_roomId := Some roomId\<rparr>)\<rparr>"

definition set_sender :: "state \<Rightarrow> nat \<Rightarrow> string \<Rightarrow> state" where
  "set_sender s ws sender = s\<lparr>sock := (sock s)(ws := (sock s ws)\<lparr>ws_sender := sender\<rparr>)\<rparr>"

definition set_isAdmin :: "state \<Rightarrow> nat \<Rightarrow> bool \<Rightarrow> state" where
  "set_isAdmin s ws b = s\<lparr>sock := (sock s)(ws := (sock s ws)\<lparr>ws_isAdmin := b\<rparr>)\<rparr>"

definition pending_list :: "(string \<times> pending_req) list \<Rightarrow> string \<Rightarrow> (string \<times> string \<times> nat) list" where
  "pending_list m roomId =
     map (\<lambda>e. (fst e, p_sender (snd e), p_createdAt (snd e)))
         (filter (\<lambda>e. p_roomId (snd e) = roomId) m)"

text \<open>
  \<^verbatim>\<open>admin-attach\<close>: the block after \<^verbatim>\<open>await getRoom\<close> (up to
  \<^verbatim>\<open>await bcrypt.compare\<close>), the block after the comparison (up to
  \<^verbatim>\<open>await getHistory\<close>), and the block after the history. The block before
  \<^verbatim>\<open>await getRoom\<close> only computes the three local variables; it is the \<open>let\<close> of
  \<open>admin_attach\<close>.
\<close>

definition attach_checks ::
  "bcrypt \<Rightarrow> state \<Rightarrow> nat \<Rightarrow> string \<Rightarrow> room option \<Rightarrow> state \<times> (room \<times> bool) option" where
  "attach_checks bc s ws adminPassword room0 =
     (case room0 of
        None \<Rightarrow> (send s ws (Error ''Room not found''), None)
      | Some room \<Rightarrow> (s, Some (room, bc_compare bc adminPassword (adminPassHash room))))"

definition attach_enter ::
  "state \<Rightarrow> nat \<Rightarrow> string \<Rightarrow> string \<Rightarrow> room \<Rightarrow> bool \<Rightarrow> state \<times> row list option" where
  "attach_enter s ws roomId sender room okAdmin =
     (if \<not> okAdmin then (send s ws (Error ''Wrong admin password''), None)
      else (let s1 = set_isAdmin s ws True;
                s2 = set_roomId s1 ws roomId;
                s3 = set_sender s2 ws sender;
                s4 = s3\<lparr>adminsByRoom := addTo (adminsByRoom s3) roomId ws\<rparr>;
                s5 = s4\<lparr>clientsByRoom := addTo (clientsByRoom s4) roomId ws\<rparr>;
                s6 = send s5 ws (AdminAttached roomId (enabled room));
                pend = pending_list (pending s6) roomId;
                s7 = send s6 ws (PendingList pend)
            in (s7, Some (getHistory s7 roomId 200))))"

definition attach_history :: "state \<Rightarrow> nat \<Rightarrow> string \<Rightarrow> string \<Rightarrow> row list \<Rightarrow> state" where
  "attach_history s ws roomId sender history =
     (let s8 = send s ws (History history)
      in broadcastToRoom s8 roomId (System (sender @ '' (admin) joined.'')))"

definition admin_attach :: "bcrypt \<Rightarrow> state \<Rightarrow> nat \<Rightarrow> string \<Rightarrow> string \<Rightarrow> string \<Rightarrow> state" where
  "admin_attach bc s ws roomId0 adminPassword0 sender0 =
     (let roomId = trim (js_or roomId0 []);
          adminPassword = js_or adminPassword0 [];
          sender = take 20 (js_or sender0 ''Admin'')
      in case attach_checks bc s ws adminPassword (getRoom s roomId) of
           (s0, None) \<Rightarrow> s0
         | (s0, Some (room, okAdmin)) \<Rightarrow>
             (case attach_enter s0 ws roomId sender room okAdmin of
                (s7, None) \<Rightarrow> s7
              | (s7, Some history) \<Rightarrow> attach_history s7 ws roomId sender history))"

text \<open>
  \<^verbatim>\<open>request-join\<close>: the block after \<^verbatim>\<open>await getRoom\<close>, which tests the room and
  its \<^verbatim>\<open>enabled\<close> flag as they were read, and the block after
  \<^verbatim>\<open>await bcrypt.compare\<close>, which stores the request. The second block reads neither
  the room nor \<^verbatim>\<open>ws.readyState\<close> again.
\<close>

definition join_checks ::
  "bcrypt \<Rightarrow> state \<Rightarrow> nat \<Rightarrow> string \<Rightarrow> room option \<Rightarrow> state \<times> bool option" where
  "join_checks bc s ws roomPassword room0 =
     (case room0 of
        None \<Rightarrow> (send s ws (Error ''Room not found''), None)
      | Some room \<Rightarrow>
          if \<not> enabled room then (send s ws (Error ''Room disabled''), None)
          else (s, Some (bc_compare bc roomPassword (roomPassHash room))))"

definition join_commit ::
  "state \<Rightarrow> nat \<Rightarrow> string \<Rightarrow> string \<Rightarrow> bool \<Rightarrow> string \<Rightarrow> nat \<Rightarrow> nat \<Rightarrow> state" where
  "join_commit s ws roomId sender okPass mid now0 now1 =
     (if \<not> okPass then send s ws (Error ''Wrong passkey'')
      else (let s1 = set_sender s ws sender;
                requestId = mid;
                s2 = s1\<lparr>pending := jsmap_set (pending s1) requestId
                        \<lparr>p_ws = ws, p_roomId = roomId, p_sender = sender,
                         p_createdAt = now0\<rparr>\<rparr>;
                s3 = send s2 ws (Waiting requestId)
            in broadcastToAdmins s3 roomId (JoinRequest requestId sender now1)))"

definition request_join ::
  "bcrypt \<Rightarrow> state \<Rightarrow> nat \<Rightarrow> string \<Rightarrow> string \<Rightarrow> string \<Rightarrow> string \<Rightarrow> nat \<Rightarrow> nat \<Rightarrow> state" where
  "request_join bc s ws roomId0 roomPassword0 sender0 mid now0 now1 =
     (let roomId = trim (js_or roomId0 []);
          roomPassword = js_or roomPassword0 [];
          sender = take 20 (js_or sender0 ''User'')
      in case join_checks bc s ws roomPassword (getRoom s roomId) of
           (s0, None) \<Rightarrow> s0
         | (s0, Some okPass) \<Rightarrow> join_commit s0 ws roomId sender okPass mid now0 now1)"

text \<open>
  The branch for \<^verbatim>\<open>approve\<close> and \<^verbatim>\<open>deny\<close>; \<open>deny\<close> tells which type came. The first
  block runs from the start of the handler to \<^verbatim>\<open>await getHistory\<close>, which only an
  approval reaches; the second block sends the history and the notice.
\<close>

definition approve_begin ::
  "state \<Rightarrow> nat \<Rightarrow> bool \<Rightarrow> string \<Rightarrow> state \<times> (pending_req \<times> row list) option" where
  "approve_begin s ws deny requestId0 =
     (if \<not> ws_isAdmin (sock s ws) \<or> \<not> truthy (ws_roomId (sock s ws))
      then (send s ws (Error ''Not admin''), None)
      else (let requestId = js_or requestId0 []
            in case jsmap_get (pending s) requestId of
                 None \<Rightarrow> (send s ws (Error ''Request not found''), None)
               | Some req \<Rightarrow>
                   if Some (p_roomId req) \<noteq> ws_roomId (sock s ws)
                   then (send s ws (Error ''Wrong room''), None)
                   else (let s1 = s\<lparr>pending := jsmap_delete (pending s) requestId\<rparr>;
                             s2 = broadcastToAdmins s1 (p_roomId req) (JoinRequestClosed requestId)
                         in if deny
                            then (ws_close (send s2 (p_ws req) JoinDenied) (p_ws req), None)
                            else (let s3 = set_roomId s2 (p_ws req) (p_roomId req);
                                      s4 = s3\<lparr>clientsByRoom :=
                                              addTo (clientsByRoom s3) (p_roomId req) (p_ws req)\<rparr>;
                                      s5 = send s4 (p_ws req) (Joined (p_roomId req))
                                  in (s5, Some (req, getHistory s5 (p_roomId req) 200))))))"

definition approve_history :: "state \<Rightarrow> pending_req \<Rightarrow> row list \<Rightarrow> state" where
  "approve_history s req history =
     (let s6 = send s (p_ws req) (History history)
      in broadcastToRoom s6 (p_roomId req) (System (p_sender req @ '' joined.'')))"

definition approve_deny :: "state \<Rightarrow> nat \<Rightarrow> bool \<Rightarrow> string \<Rightarrow> state" where
  "approve_deny s ws deny requestId0 =
     (case approve_begin s ws deny requestId0 of
        (s5, None) \<Rightarrow> s5
      | (s5, Some (req, history)) \<Rightarrow> approve_history s5 req history)"

text \<open>
  \<^verbatim>\<open>chat\<close>: the block up to \<^verbatim>\<open>await getRoom\<close>, the block after it, which tests the
  room as it was read and issues the \<^verbatim>\<open>INSERT\<close> of \<^verbatim>\<open>addText\<close>, and the block after
  that statement, which broadcasts. The second and the third block read \<^verbatim>\<open>ws.roomId\<close>
  and \<^verbatim>\<open>ws.sender\<close> again. A \<^verbatim>\<open>null\<close> room id cannot be stored
  (\<^verbatim>\<open>roomId\<close> is \<^verbatim>\<open>NOT NULL\<close>) and has no room set.
\<close>

definition chat_begin :: "state \<Rightarrow> nat \<Rightarrow> state \<times> room option option" where
  "chat_begin s ws =
     (case ws_roomId (sock s ws) of
        None \<Rightarrow> (send s ws (Error ''Not joined''), None)
      | Some roomId \<Rightarrow>
          if roomId = [] then (send s ws (Error ''Not joined''), None)
          else (s, Some (getRoom s roomId)))"

definition chat_checks :: "state \<Rightarrow> nat \<Rightarrow> string \<Rightarrow> room option \<Rightarrow> nat \<Rightarrow> state \<times> string option" where
  "chat_checks s ws text0 room0 now0 =
     (if (case room0 of None \<Rightarrow> True | Some room \<Rightarrow> \<not> enabled room)
      then (ws_close (send s ws (Error ''Room disabled'')) ws, None)
      else (let text = trim (js_or text0 [])
            in if text = [] then (s, None)
               else (case ws_roomId (sock s ws) of
                       None \<Rightarrow> (s, None)
                     | Some roomId \<Rightarrow>
                         (addText s roomId (ws_sender (sock s ws)) text now0, Some text))))"

definition chat_deliver :: "state \<Rightarrow> nat \<Rightarrow> string \<Rightarrow> nat \<Rightarrow> nat \<Rightarrow> state" where
  "chat_deliver s ws text now1 now2 =
     (case ws_roomId (sock s ws) of
        None \<Rightarrow> s
      | Some roomId \<Rightarrow>
          (let sender = ws_sender (sock s ws);
               s2 = broadcastToRoom s roomId (ChatMsg sender text now1)
           in broadcastToAdmins s2 roomId (ChatMsg sender text now2)))"

definition chat :: "state \<Rightarrow> nat \<Rightarrow> string \<Rightarrow> nat \<Rightarrow> nat \<Rightarrow> nat \<Rightarrow> state" where
  "chat s ws text0 now0 now1 now2 =
     (case chat_begin s ws of
        (s0, None) \<Rightarrow> s0
      | (s0, Some room0) \<Rightarrow>
          (case chat_checks s0 ws text0 room0 now0 of
             (s1, None) \<Rightarrow> s1
           | (s1, Some text) \<Rightarrow> chat_deliver s1 ws text now1 now2))"

definition on_message ::
  "bcrypt \<Rightarrow> state \<Rightarrow> nat \<Rightarrow> ws_msg \<Rightarrow> string \<Rightarrow> nat \<Rightarrow> nat \<Rightarrow> nat \<Rightarrow> state" where
  "on_message bc s ws msg mid now0 now1 now2 =
     (case msg of
        AdminAttach roomId adminPassword sender \<Rightarrow> admin_attach bc s ws roomId adminPassword sender
      | RequestJoin roomId roomPassword sender \<Rightarrow>
          request_join bc s ws roomId roomPassword sender mid now0 now1
      | Approve requestId \<Rightarrow> approve_deny s ws False requestId
      | Deny requestId \<Rightarrow> approve_deny s ws True requestId
      | Chat text \<Rightarrow> chat s ws text now0 now1 now2
      | Unparsed \<Rightarrow> s)"

text \<open>
  The loop of the \<^verbatim>\<open>close\<close> handler over the entries of \<^verbatim>\<open>pending\<close>. The handler
  has no \<^verbatim>\<open>await\<close>.
\<close>

fun abandon_each :: "state \<Rightarrow> (string \<times> pending_req) list \<Rightarrow> nat \<Rightarrow> state" where
  "abandon_each s [] ws = s"
| "abandon_each s (e # rest) ws =
     abandon_each
       (if p_ws (snd e) = ws
        then broadcastToAdmins (s\<lparr>pending := jsmap_delete (pending s) (fst e)\<rparr>)
               (p_roomId (snd e)) (JoinRequestClosed (fst e))
        else s)
       rest ws"

definition on_close :: "state \<Rightarrow> nat \<Rightarrow> state" where
  "on_close s ws =
     (let s2 = (case ws_roomId (sock s ws) of
                  None \<Rightarrow> s
                | Some roomId \<Rightarrow>
                    if roomId = [] then s
                    else (let s1 = s\<lparr>clientsByRoom := removeFrom (clientsByRoom s) roomId ws\<rparr>
                          in s1\<lparr>adminsByRoom := removeFrom (adminsByRoom s1) roomId ws\<rparr>))
      in abandon_each s2 (pending s2) ws)"

section \<open>The server with uninterrupted handlers\<close>

text \<open>
  The transition system \<open>step\<close>: every event is handled to the end before the next
  one, so it has the runs of the server in which no event falls between two blocks of a
  handler. Its events carry what \<^verbatim>\<open>makeId()\<close> and \<^verbatim>\<open>now()\<close> return while they are
  handled. A socket is CONNECTING until its \<^verbatim>\<open>connection\<close> event; frames arrive while
  it is OPEN or CLOSING; its \<^verbatim>\<open>close\<close> event comes once, with \<^verbatim>\<open>readyState\<close>
  already CLOSED.
\<close>

datatype event =
    Connect nat
  | Message nat ws_msg string nat nat nat
  | Close nat
  | CreateRoom string string string
  | AdminAction string string string
  | Upload "upfile option" string string string nat

definition set_readyState :: "state \<Rightarrow> nat \<Rightarrow> ready_state \<Rightarrow> state" where
  "set_readyState s ws st = s\<lparr>sock := (sock s)(ws := (sock s ws)\<lparr>ws_readyState := st\<rparr>)\<rparr>"

definition step :: "bcrypt \<Rightarrow> (string \<Rightarrow> string) \<Rightarrow> state \<Rightarrow> event \<Rightarrow> state" where
  "step bc extname s e =
     (case e of
        Connect ws \<Rightarrow>
          if ws_readyState (sock s ws) = CONNECTING then on_connection s ws else s
      | Message ws msg mid now0 now1 now2 \<Rightarrow>
          if ws_readyState (sock s ws) = OPEN \<or> ws_readyState (sock s ws) = CLOSING
          then on_message bc s ws msg mid now0 now1 now2 else s
      | Close ws \<Rightarrow>
          if ws_readyState (sock s ws) = OPEN \<or> ws_readyState (sock s ws) = CLOSING
          then on_close (set_readyState s ws CLOSED) ws else s
      | CreateRoom roomId roomPassword adminPassword \<Rightarrow>
          fst (create_room bc s roomId roomPassword adminPassword)
      | AdminAction roomId adminPassword action \<Rightarrow>
          fst (admin_action bc s roomId adminPassword action)
      | Upload file roomId roomPassword sender now0 \<Rightarrow>
          fst (upload bc extname (multer_single s file) file roomId roomPassword sender now0))"

fun run :: "bcrypt \<Rightarrow> (string \<Rightarrow> string) \<Rightarrow> state \<Rightarrow> event list \<Rightarrow> state" where
  "run bc extname s [] = s"
| "run bc extname s (e # es) = run bc extname (step bc extname s e) es"

text \<open>
  At start the runtime maps are empty and no socket exists yet; the database and the
  upload directory hold whatever an earlier run left.
\<close>

definition initial :: "state \<Rightarrow> bool" where
  "initial s = (clientsByRoom s = Map.empty \<and> adminsByRoom s = Map.empty \<and> pending s = []
                \<and> (\<forall>ws. ws_readyState (sock s ws) = CONNECTING)
                \<and> send_log s = [] \<and> wire s = [])"

inductive reachable :: "bcrypt \<Rightarrow> (string \<Rightarrow> string) \<Rightarrow> state \<Rightarrow> bool"
  for bc :: bcrypt and extname :: "string \<Rightarrow> string" where
  reachable_initial: "initial s \<Longrightarrow> reachable bc extname s"
| reachable_step: "reachable bc extname s \<Longrightarrow> reachable bc extname (step bc extname s e)"

section \<open>The server with its handlers interleaved\<close>

text \<open>
  A handler that has stopped at an \<^verbatim>\<open>await\<close>: which one, the local variables the
  handler still uses, and the value that the promise delivers. For the handlers of a
  socket the first field is the socket; the other fields are, in this order,

  \<^item> \<open>AttachRoom\<close> (at \<^verbatim>\<open>getRoom\<close>): roomId, adminPassword, sender, the row read;
  \<^item> \<open>AttachPass\<close> (at \<^verbatim>\<open>bcrypt.compare\<close>): roomId, sender, room, okAdmin;
  \<^item> \<open>AttachHistory\<close> (at \<^verbatim>\<open>getHistory\<close>): roomId, sender, the rows read;
  \<^item> \<open>JoinRoom\<close> (at \<^verbatim>\<open>getRoom\<close>): roomId, roomPassword, sender, the row read;
  \<^item> \<open>JoinPass\<close> (at \<^verbatim>\<open>bcrypt.compare\<close>): roomId, sender, okPass;
  \<^item> \<open>ApproveHistory\<close> (at \<^verbatim>\<open>getHistory\<close>): req, the rows read;
  \<^item> \<open>ChatRoom\<close> (at \<^verbatim>\<open>getRoom\<close>): \<^verbatim>\<open>msg.text\<close>, the row read;
  \<^item> \<open>ChatStored\<close> (at \<^verbatim>\<open>addText\<close>): text;
  \<^item> \<open>CreateExists\<close> (at \<^verbatim>\<open>getRoom\<close>): roomId, roomPassword, adminPassword, the row read;
  \<^item> \<open>CreateHash\<close> (at the first \<^verbatim>\<open>bcrypt.hash\<close>): roomId, adminPassword, roomPassHash;
  \<^item> \<open>CreateHashes\<close> (at the second): roomId, roomPassHash, adminPassHash;
  \<^item> \<open>CreateInserted\<close> (at \<^verbatim>\<open>dbRun\<close>): whether the statement succeeded;
  \<^item> \<open>ActionRoom\<close> (at \<^verbatim>\<open>getRoom\<close>): roomId, adminPassword, action, the row read;
  \<^item> \<open>ActionPass\<close> (at \<^verbatim>\<open>bcrypt.compare\<close>): roomId, action, okAdmin;
  \<^item> \<open>ActionWritten\<close> (at the statement of the action): roomId, action;
  \<^item> \<open>UploadRoom\<close> (at \<^verbatim>\<open>getRoom\<close>): \<^verbatim>\<open>req.file\<close>, roomId, roomPassword, sender, the row read;
  \<^item> \<open>UploadPass\<close> (at \<^verbatim>\<open>bcrypt.compare\<close>): \<^verbatim>\<open>req.file\<close>, roomId, sender, okPass;
  \<^item> \<open>UploadStored\<close> (at \<^verbatim>\<open>addFile\<close>): roomId, safeSender, fileUrl, mime, original.
\<close>

datatype task =
    AttachRoom nat string string string "room option"
  | AttachPass nat string string room bool
  | AttachHistory nat string string "row list"
  | JoinRoom nat string string string "room option"
  | JoinPass nat string string bool
  | ApproveHistory pending_req "row list"
  | ChatRoom nat string "room option"
  | ChatStored nat string
  | CreateExists string string string "room option"
  | CreateHash string string string
  | CreateHashes string string string
  | CreateInserted bool
  | ActionRoom string string string "room option"
  | ActionPass string string bool
  | ActionWritten string string
  | UploadRoom upfile string string string "room option"
  | UploadPass upfile string string bool
  | UploadStored string string string string string

text \<open>
  What the environment delivers: the \<^verbatim>\<open>connection\<close> event of a socket, a frame, the
  \<^verbatim>\<open>close\<close> event, and the three HTTP requests (for an upload, after multer has stored
  the blob).
\<close>

datatype arrival =
    SocketOpen nat
  | SocketFrame nat ws_msg
  | SocketClose nat
  | PostCreate string string string
  | PostAction string string string
  | PostUpload "upfile option" string string string

text \<open>The first block of the \<^verbatim>\<open>message\<close> handler, up to its first \<^verbatim>\<open>await\<close>.\<close>

definition frame_begin :: "state \<Rightarrow> nat \<Rightarrow> ws_msg \<Rightarrow> state \<times> task option" where
  "frame_begin s ws msg =
     (case msg of
        AdminAttach roomId0 adminPassword0 sender0 \<Rightarrow>
          (let roomId = trim (js_or roomId0 []);
               adminPassword = js_or adminPassword0 [];
               sender = take 20 (js_or sender0 ''Admin'')
           in (s, Some (AttachRoom ws roomId adminPassword sender (getRoom s roomId))))
      | RequestJoin roomId0 roomPassword0 sender0 \<Rightarrow>
          (let roomId = trim (js_or roomId0 []);
               roomPassword = js_or roomPassword0 [];
               sender = take 20 (js_or sender0 ''User'')
           in (s, Some (JoinRoom ws roomId roomPassword sender (getRoom s roomId))))
      | Approve requestId \<Rightarrow>
          (case approve_begin s ws False requestId of
             (s5, None) \<Rightarrow> (s5, None)
           | (s5, Some (req, history)) \<Rightarrow> (s5, Some (ApproveHistory req history)))
      | Deny requestId \<Rightarrow>
          (case approve_begin s ws True requestId of
             (s5, None) \<Rightarrow> (s5, None)
           | (s5, Some (req, history)) \<Rightarrow> (s5, Some (ApproveHistory req history)))
      | Chat text0 \<Rightarrow>
          (case chat_begin s ws of
             (s0, None) \<Rightarrow> (s0, None)
           | (s0, Some room0) \<Rightarrow> (s0, Some (ChatRoom ws text0 room0)))
      | Unparsed \<Rightarrow> (s, None))"

text \<open>
  The handler of an arrival, up to its first \<^verbatim>\<open>await\<close>. As in \<open>step\<close>, a socket
  is CONNECTING until its \<^verbatim>\<open>connection\<close> event, frames arrive while it is OPEN or
  CLOSING, and its \<^verbatim>\<open>close\<close> event comes once.
\<close>

definition arrive :: "state \<Rightarrow> arrival \<Rightarrow> state \<times> task option" where
  "arrive s a =
     (case a of
        SocketOpen ws \<Rightarrow>
          (if ws_readyState (sock s ws) = CONNECTING then on_connection s ws else s, None)
      | SocketFrame ws msg \<Rightarrow>
          if ws_readyState (sock s ws) = OPEN \<or> ws_readyState (sock s ws) = CLOSING
          then frame_begin s ws msg else (s, None)
      | SocketClose ws \<Rightarrow>
          (if ws_readyState (sock s ws) = OPEN \<or> ws_readyState (sock s ws) = CLOSING
           then on_close (set_readyState s ws CLOSED) ws else s, None)
      | PostCreate roomId roomPassword adminPassword \<Rightarrow>
          (case create_begin s roomId roomPassword adminPassword of
             Inl resp \<Rightarrow> (s, None)
           | Inr found \<Rightarrow> (s, Some (CreateExists roomId roomPassword adminPassword found)))
      | PostAction roomId adminPassword action \<Rightarrow>
          (case action_begin s roomId adminPassword action of
             Inl resp \<Rightarrow> (s, None)
           | Inr room0 \<Rightarrow> (s, Some (ActionRoom roomId adminPassword action room0)))
      | PostUpload file roomId roomPassword sender \<Rightarrow>
          (let s0 = multer_single s file
           in case upload_begin s0 file roomId roomPassword of
                Inl resp \<Rightarrow> (s0, None)
              | Inr (f, room0) \<Rightarrow> (s0, Some (UploadRoom f roomId roomPassword sender room0))))"

text \<open>
  A stopped handler goes on: its next block runs in the state of that moment, up to the
  next \<^verbatim>\<open>await\<close>. \<open>mid\<close> is what \<^verbatim>\<open>makeId()\<close> returns in that block and \<open>now0\<close>,
  \<open>now1\<close> what its calls of \<^verbatim>\<open>now()\<close> return.
\<close>

fun resume ::
  "bcrypt \<Rightarrow> (string \<Rightarrow> string) \<Rightarrow> state \<Rightarrow> task \<Rightarrow> string \<Rightarrow> nat \<Rightarrow> nat \<Rightarrow> state \<times> task option" where
  "resume bc extname s (AttachRoom ws roomId adminPassword sender room0) mid now0 now1 =
     (case attach_checks bc s ws adminPassword room0 of
        (s0, None) \<Rightarrow> (s0, None)
      | (s0, Some (room, okAdmin)) \<Rightarrow> (s0, Some (AttachPass ws roomId sender room okAdmin)))"
| "resume bc extname s (AttachPass ws roomId sender room okAdmin) mid now0 now1 =
     (case attach_enter s ws roomId sender room okAdmin of
        (s7, None) \<Rightarrow> (s7, None)
      | (s7, Some history) \<Rightarrow> (s7, Some (AttachHistory ws roomId sender history)))"
| "resume bc extname s (AttachHistory ws roomId sender history) mid now0 now1 =
     (attach_history s ws roomId sender history, None)"
| "resume bc extname s (JoinRoom ws roomId roomPassword sender room0) mid now0 now1 =
     (case join_checks bc s ws roomPassword room0 of
        (s0, None) \<Rightarrow> (s0, None)
      | (s0, Some okPass) \<Rightarrow> (s0, Some (JoinPass ws roomId sender okPass)))"
| "resume bc extname s (JoinPass ws roomId sender okPass) mid now0 now1 =
     (join_commit s ws roomId sender okPass mid now0 now1, None)"
| "resume bc extname s (ApproveHistory req history) mid now0 now1 =
     (approve_history s req history, None)"
| "resume bc extname s (ChatRoom ws text0 room0) mid now0 now1 =
     (case chat_checks s ws text0 room0 now0 of
        (s1, None) \<Rightarrow> (s1, None)
      | (s1, Some text) \<Rightarrow> (s1, Some (ChatStored ws text)))"
| "resume bc extname s (ChatStored ws text) mid now0 now1 =
     (chat_deliver s ws text now0 now1, None)"
| "resume bc extname s (CreateExists roomId roomPassword adminPassword found) mid now0 now1 =
     (case create_exists bc roomPassword found of
        Inl resp \<Rightarrow> (s, None)
      | Inr roomPassHash0 \<Rightarrow> (s, Some (CreateHash roomId adminPassword roomPassHash0)))"
| "resume bc extname s (CreateHash roomId adminPassword roomPassHash0) mid now0 now1 =
     (s, Some (CreateHashes roomId roomPassHash0 (bc_hash bc adminPassword)))"
| "resume bc extname s (CreateHashes roomId roomPassHash0 adminPassHash0) mid now0 now1 =
     (case create_insert s roomId roomPassHash0 adminPassHash0 of
        (s1, inserted) \<Rightarrow> (s1, Some (CreateInserted inserted)))"
| "resume bc extname s (CreateInserted inserted) mid now0 now1 = (s, None)"
| "resume bc extname s (ActionRoom roomId adminPassword action room0) mid now0 now1 =
     (case action_found bc adminPassword room0 of
        Inl resp \<Rightarrow> (s, None)
      | Inr okAdmin \<Rightarrow> (s, Some (ActionPass roomId action okAdmin)))"
| "resume bc extname s (ActionPass roomId action okAdmin) mid now0 now1 =
     (case action_write s roomId action okAdmin of
        (s1, Some resp) \<Rightarrow> (s1, None)
      | (s1, None) \<Rightarrow> (s1, Some (ActionWritten roomId action)))"
| "resume bc extname s (ActionWritten roomId action) mid now0 now1 =
     (fst (action_finish s roomId action), None)"
| "resume bc extname s (UploadRoom f roomId roomPassword sender room0) mid now0 now1 =
     (case upload_found bc roomPassword room0 of
        Inl resp \<Rightarrow> (s, None)
      | Inr okPass \<Rightarrow> (s, Some (UploadPass f roomId sender okPass)))"
| "resume bc extname s (UploadPass f roomId sender okPass) mid now0 now1 =
     (case upload_store extname s f roomId sender okPass now0 of
        (s2, Inl resp) \<Rightarrow> (s2, None)
      | (s2, Inr (safeSender, fileUrl, mime, original)) \<Rightarrow>
          (s2, Some (UploadStored roomId safeSender fileUrl mime original)))"
| "resume bc extname s (UploadStored roomId safeSender fileUrl mime original) mid now0 now1 =
     (fst (upload_deliver s roomId safeSender fileUrl mime original), None)"

text \<open>
  The server between two events: its state, the handlers that are stopped at an
  \<^verbatim>\<open>await\<close>, and whether the process is still running.
\<close>

record server =
  cur :: state
  stopped :: "task list"
  running :: bool

text \<open>
  An event of the interleaved server: something arrives and its handler runs its first
  block; or the stopped handler at a position of the list goes on with its next block; or
  a socket delivers the frame \<^verbatim>\<open>null\<close>, on which \<^verbatim>\<open>msg.type\<close> throws: nothing
  catches the exception of the \<^verbatim>\<open>async\<close> handler and the process ends. The order
  in which stopped handlers go on is not restricted.
\<close>

datatype ievent =
    Arrive arrival
  | Resume nat string nat nat
  | Throw nat

definition opt_list :: "'a option \<Rightarrow> 'a list" where
  "opt_list x = (case x of None \<Rightarrow> [] | Some y \<Rightarrow> [y])"

definition istep :: "bcrypt \<Rightarrow> (string \<Rightarrow> string) \<Rightarrow> server \<Rightarrow> ievent \<Rightarrow> server" where
  "istep bc extname q e =
     (if \<not> running q then q
      else case e of
        Arrive a \<Rightarrow>
          (case arrive (cur q) a of
             (s1, t) \<Rightarrow> q\<lparr>cur := s1, stopped := stopped q @ opt_list t\<rparr>)
      | Resume k mid now0 now1 \<Rightarrow>
          if k < length (stopped q)
          then (case resume bc extname (cur q) (stopped q ! k) mid now0 now1 of
                  (s1, t) \<Rightarrow>
                    q\<lparr>cur := s1,
                      stopped := take k (stopped q) @ drop (Suc k) (stopped q) @ opt_list t\<rparr>)
          else q
      | Throw ws \<Rightarrow>
          if ws_readyState (sock (cur q) ws) = OPEN \<or> ws_readyState (sock (cur q) ws) = CLOSING
          then q\<lparr>running := False\<rparr> else q)"

fun irun :: "bcrypt \<Rightarrow> (string \<Rightarrow> string) \<Rightarrow> server \<Rightarrow> ievent list \<Rightarrow> server" where
  "irun bc extname q [] = q"
| "irun bc extname q (e # es) = irun bc extname (istep bc extname q e) es"

text \<open>The server with no handler stopped.\<close>

definition idle :: "state \<Rightarrow> server" where
  "idle s = \<lparr>cur = s, stopped = [], running = True\<rparr>"

inductive ireachable :: "bcrypt \<Rightarrow> (string \<Rightarrow> string) \<Rightarrow> server \<Rightarrow> bool"
  for bc :: bcrypt and extname :: "string \<Rightarrow> string" where
  ireachable_initial: "initial s \<Longrightarrow> ireachable bc extname (idle s)"
| ireachable_step: "ireachable bc extname q \<Longrightarrow> ireachable bc extname (istep bc extname q e)"

text \<open>
  An event of \<open>step\<close> as events of the interleaved server: the arrival, and then the
  handler going on, each time it has stopped, before anything else happens. \<open>k\<close> is the
  number of the handlers that were stopped before. (A position that holds no handler
  makes \<open>Resume\<close> change nothing, so the list is as long as the longest handler.)
\<close>

fun burst :: "nat \<Rightarrow> event \<Rightarrow> ievent list" where
  "burst k (Connect ws) = [Arrive (SocketOpen ws)]"
| "burst k (Message ws (Chat text0) mid now0 now1 now2) =
     [Arrive (SocketFrame ws (Chat text0)), Resume k mid now0 now0, Resume k mid now1 now2]"
| "burst k (Message ws msg mid now0 now1 now2) =
     [Arrive (SocketFrame ws msg), Resume k mid now0 now1, Resume k mid now0 now1,
      Resume k mid now0 now1]"
| "burst k (Close ws) = [Arrive (SocketClose ws)]"
| "burst k (CreateRoom roomId roomPassword adminPassword) =
     [Arrive (PostCreate roomId roomPassword adminPassword), Resume k [] 0 0, Resume k [] 0 0,
      Resume k [] 0 0, Resume k [] 0 0]"
| "burst k (AdminAction roomId adminPassword action) =
     [Arrive (PostAction roomId adminPassword action), Resume k [] 0 0, Resume k [] 0 0,
      Resume k [] 0 0]"
| "burst k (Upload file roomId roomPassword sender now0) =
     [Arrive (PostUpload file roomId roomPassword sender), Resume k [] now0 0, Resume k [] now0 0,
      Resume k [] now0 0]"

section \<open>Observations and examples\<close>

text \<open>
  The list of the connections in a room's set (empty when the map has no entry), and
  whether a socket is OPEN.
\<close>

definition membersOf :: "(string \<rightharpoonup> nat list) \<Rightarrow> string \<Rightarrow> nat list" where
  "membersOf m roomId = (case m roomId of None \<Rightarrow> [] | Some xs \<Rightarrow> xs)"

definition is_open :: "state \<Rightarrow> nat \<Rightarrow> bool" where
  "is_open s ws = (ws_readyState (sock s ws) = OPEN)"

text \<open>
  For the concrete examples only: a password checker that accepts exactly the hash it
  made, an \<^verbatim>\<open>extname\<close> that knows one file name, and the server at start with an
  empty database.
\<close>

definition toy_bcrypt :: bcrypt where
  "toy_bcrypt = \<lparr>bc_hash = (\<lambda>p. ''$2a$'' @ p), bc_compare = (\<lambda>p h. h = ''$2a$'' @ p)\<rparr>"

definition toy_extname :: "string \<Rightarrow> string" where
  "toy_extname name = (if name = ''cat.png'' then ''.png'' else [])"

definition boot :: state where
  "boot = \<lparr>rooms = Map.empty, messages = [], uploads = {}, clientsByRoom = Map.empty,
           adminsByRoom = Map.empty, pending = [],
           sock = (\<lambda>ws. \<lparr>ws_roomId = None, ws_sender = [], ws_isAdmin = False,
                          ws_readyState = CONNECTING\<rparr>),
           send_log = [], wire = []\<rparr>"

text \<open>
  A run that leaves two rooms: in \<open>r1\<close> the admin Ann (socket 1) and the member Cy
  (socket 3), with Bob (socket 2) waiting under \<open>id1\<close>; in \<open>r2\<close> the admin Dan
  (socket 4), with Eve (socket 5) waiting under \<open>id3\<close>; one message in each room.
\<close>

definition demo_events :: "event list" where
  "demo_events =
     [CreateRoom ''r1'' ''p'' ''a'', CreateRoom ''r2'' ''q'' ''b'',
      Connect 1, Message 1 (AdminAttach ''r1'' ''a'' ''Ann'') [] 0 0 0,
      Connect 2, Message 2 (RequestJoin ''r1'' ''p'' ''Bob'') ''id1'' 10 11 0,
      Connect 3, Message 3 (RequestJoin ''r1'' ''p'' ''Cy'') ''id2'' 20 21 0,
      Message 1 (Approve ''id2'') [] 0 0 0,
      Message 3 (Chat '' hi '') [] 30 31 32,
      Connect 4, Message 4 (AdminAttach ''r2'' ''b'' ''Dan'') [] 0 0 0,
      Message 4 (Chat ''yo'') [] 40 41 42,
      Connect 5, Message 5 (RequestJoin ''r2'' ''q'' ''Eve'') ''id3'' 50 51 0]"

definition demo_run :: state where
  "demo_run = run toy_bcrypt toy_extname boot demo_events"

text \<open>
  The state that this run leaves, written out: outside the two rooms and the five
  sockets it is the server at start.
\<close>

definition demo :: state where
  "demo =
     \<lparr>rooms = [''r1'' \<mapsto> \<lparr>roomPassHash = ''$2a$p'', adminPassHash = ''$2a$a'', enabled = True\<rparr>,
               ''r2'' \<mapsto> \<lparr>roomPassHash = ''$2a$q'', adminPassHash = ''$2a$b'', enabled = True\<rparr>],
      messages =
        [(''r1'', \<lparr>h_sender = ''Cy'', h_kind = KText, h_text = Some ''hi'', h_fileUrl = None,
                   h_fileMime = None, h_fileName = None, h_ts = 30\<rparr>),
         (''r2'', \<lparr>h_sender = ''Dan'', h_kind = KText, h_text = Some ''yo'', h_fileUrl = None,
                   h_fileMime = None, h_fileName = None, h_ts = 40\<rparr>)],
      uploads = {},
      clientsByRoom = [''r1'' \<mapsto> [1, 3], ''r2'' \<mapsto> [4]],
      adminsByRoom = [''r1'' \<mapsto> [1], ''r2'' \<mapsto> [4]],
      pending =
        [(''id1'', \<lparr>p_ws = 2, p_roomId = ''r1'', p_sender = ''Bob'', p_createdAt = 10\<rparr>),
         (''id3'', \<lparr>p_ws = 5, p_roomId = ''r2'', p_sender = ''Eve'', p_createdAt = 50\<rparr>)],
      sock = (sock boot)
        (1 := \<lparr>ws_roomId = Some ''r1'', ws_sender = ''Ann'', ws_isAdmin = True, ws_readyState = OPEN\<rparr>,
         2 := \<lparr>ws_roomId = None, ws_sender = ''Bob'', ws_isAdmin = False, ws_readyState = OPEN\<rparr>,
         3 := \<lparr>ws_roomId = Some ''r1'', ws_sender = ''Cy'', ws_isAdmin = False, ws_readyState = OPEN\<rparr>,
         4 := \<lparr>ws_roomId = Some ''r2'', ws_sender = ''Dan'', ws_isAdmin = True, ws_readyState = OPEN\<rparr>,
         5 := \<lparr>ws_roomId = None, ws_sender = ''Eve'', ws_isAdmin = False, ws_readyState = OPEN\<rparr>),
      send_log =
        [(1, AdminAttached ''r1'' True), (1, PendingList []), (1, History []),
         (1, System ''Ann (admin) joined.''), (2, Waiting ''id1''),
         (1, JoinRequest ''id1'' ''Bob'' 11), (3, Waiting ''id2''),
         (1, JoinRequest ''id2'' ''Cy'' 21), (1, JoinRequestClosed ''id2''),
         (3, Joined ''r1''), (3, History []), (1, System ''Cy joined.''),
         (3, System ''Cy joined.''), (1, ChatMsg ''Cy'' ''hi'' 31),
         (3, ChatMsg ''Cy'' ''hi'' 31), (1, ChatMsg ''Cy'' ''hi'' 32),
         (4, AdminAttached ''r2'' True), (4, PendingList []), (4, History []),
         (4, System ''Dan (admin) joined.''), (4, ChatMsg ''Dan'' ''yo'' 41),
         (4, ChatMsg ''Dan'' ''yo'' 42), (5, Waiting ''id3''),
         (4, JoinRequest ''id3'' ''Eve'' 51)],
      wire =
        [(1, AdminAttached ''r1'' True), (1, PendingList []), (1, History []),
         (1, System ''Ann (admin) joined.''), (2, Waiting ''id1''),
         (1, JoinRequest ''id1'' ''Bob'' 11), (3, Waiting ''id2''),
         (1, JoinRequest ''id2'' ''Cy'' 21), (1, JoinRequestClosed ''id2''),
         (3, Joined ''r1''), (3, History []), (1, System ''Cy joined.''),
         (3, System ''Cy joined.''), (1, ChatMsg ''Cy'' ''hi'' 31),
         (3, ChatMsg ''Cy'' ''hi'' 31), (1, ChatMsg ''Cy'' ''hi'' 32),
         (4, AdminAttached ''r2'' True), (4, PendingList []), (4, History []),
         (4, System ''Dan (admin) joined.''), (4, ChatMsg ''Dan'' ''yo'' 41),
         (4, ChatMsg ''Dan'' ''yo'' 42), (5, Waiting ''id3''),
         (4, JoinRequest ''id3'' ''Eve'' 51)]\<rparr>"

text \<open>
  From \<open>demo\<close>, room \<open>r2\<close> is disabled and a new socket 6 connects.
\<close>

definition demo_disabled :: state where
  "demo_disabled =
     run toy_bcrypt toy_extname demo [AdminAction ''r2'' ''b'' ''disable'', Connect 6]"

section \<open>The history as the specification words it\<close>

text \<open>
  The three statements that change table \<^verbatim>\<open>messages\<close>, as operations, and the
  table after a sequence of them (\<open>apply_ops\<close>, from the source's \<^verbatim>\<open>addText\<close>,
  \<^verbatim>\<open>addFile\<close> and \<^verbatim>\<open>clearChat\<close>).
\<close>

datatype db_op =
    OpAddText string string string nat
  | OpAddFile string string string string string nat
  | OpClear string

fun apply_op :: "state \<Rightarrow> db_op \<Rightarrow> state" where
  "apply_op s (OpAddText roomId sender text ts) = addText s roomId sender text ts"
| "apply_op s (OpAddFile roomId sender fileUrl fileMime fileName ts) =
     addFile s roomId sender fileUrl fileMime fileName ts"
| "apply_op s (OpClear roomId) = clearChat s roomId"

fun apply_ops :: "state \<Rightarrow> db_op list \<Rightarrow> state" where
  "apply_ops s [] = s"
| "apply_ops s (x # xs) = apply_ops (apply_op s x) xs"

text \<open>
  The specification's history of a room: the messages recorded for the room and not
  cleared, oldest first. A message is not cleared when it was recorded after the last
  clear of the room.
\<close>

definition after_last_clear :: "string \<Rightarrow> db_op list \<Rightarrow> db_op list" where
  "after_last_clear roomId ops = rev (takeWhile (\<lambda>x. x \<noteq> OpClear roomId) (rev ops))"

fun recorded_for :: "string \<Rightarrow> db_op \<Rightarrow> row list" where
  "recorded_for roomId (OpAddText r sender text ts) =
     (if r = roomId
      then [\<lparr>h_sender = sender, h_kind = KText, h_text = Some text, h_fileUrl = None,
             h_fileMime = None, h_fileName = None, h_ts = ts\<rparr>]
      else [])"
| "recorded_for roomId (OpAddFile r sender fileUrl fileMime fileName ts) =
     (if r = roomId
      then [\<lparr>h_sender = sender, h_kind = KFile, h_text = None, h_fileUrl = Some fileUrl,
             h_fileMime = Some fileMime, h_fileName = Some fileName, h_ts = ts\<rparr>]
      else [])"
| "recorded_for roomId (OpClear r) = []"

definition spec_history :: "string \<Rightarrow> db_op list \<Rightarrow> row list" where
  "spec_history roomId ops = concat (map (recorded_for roomId) (after_last_clear roomId ops))"

text \<open>
  An example: on the empty table, two texts for \<open>r1\<close>, a clear of \<open>r1\<close>, a file for
  \<open>r1\<close>, a text for \<open>r2\<close> and a text for \<open>r1\<close> leave the file and the last text as
  the history of \<open>r1\<close>.
\<close>

definition demo_ops :: "db_op list" where
  "demo_ops = [OpAddText ''r1'' ''Ann'' ''one'' 1, OpAddText ''r1'' ''Cy'' ''two'' 2, OpClear ''r1'',
               OpAddFile ''r1'' ''Cy'' ''/uploads/f.png'' ''image/png'' ''cat.png'' 3,
               OpAddText ''r2'' ''Dan'' ''three'' 4, OpAddText ''r1'' ''Ann'' ''four'' 5]"

text \<open>The test \<^verbatim>\<open>isOk\<close> of the upload handler, on the declared media type.\<close>

definition isOk :: "string \<Rightarrow> bool" where
  "isOk mimetype =
     (let mime = toLowerCase (js_or mimetype [])
      in startsWith mime ''image/'' \<or> startsWith mime ''video/'' \<or> startsWith mime ''audio/'')"

text \<open>
  Three uploaded files for the examples: a PDF, a PNG image, and a PNG image whose media
  type was declared in upper case.
\<close>

definition demo_pdf :: upfile where
  "demo_pdf = \<lparr>f_mimetype = ''application/pdf'', f_originalname = ''doc.pdf'', f_filename = ''0a1b''\<rparr>"

definition demo_png :: upfile where
  "demo_png = \<lparr>f_mimetype = ''image/png'', f_originalname = ''cat.png'', f_filename = ''2c3d''\<rparr>"

definition demo_PNG :: upfile where
  "demo_PNG = \<lparr>f_mimetype = ''IMAGE/PNG'', f_originalname = ''cat.png'', f_filename = ''4e5f''\<rparr>"

text \<open>A room that exists and is disabled.\<close>

definition room_disabled :: "state \<Rightarrow> string \<Rightarrow> bool" where
  "room_disabled s roomId = (case getRoom s roomId of None \<Rightarrow> False | Some room \<Rightarrow> \<not> enabled room)"


section \<open>Invariants of the reachable states\<close>

text \<open>
  An admin of a room whose socket is OPEN is also a member of that room.
\<close>

definition inv_admin_member :: "state \<Rightarrow> bool" where
  "inv_admin_member s =
     (\<forall>r c. c \<in> set (membersOf (adminsByRoom s) r) \<and> is_open s c
            \<longrightarrow> c \<in> set (membersOf (clientsByRoom s) r))"

text \<open>
  A socket in a member set or an admin set has had its \<^verbatim>\<open>connection\<close> event and has
  a room affiliation.
\<close>

definition inv_known :: "state \<Rightarrow> bool" where
  "inv_known s =
     (\<forall>r c. c \<in> set (membersOf (clientsByRoom s) r) \<or> c \<in> set (membersOf (adminsByRoom s) r)
            \<longrightarrow> ws_readyState (sock s c) \<noteq> CONNECTING \<and> ws_roomId (sock s c) \<noteq> None)"

text \<open>The owner of a pending request has had its \<^verbatim>\<open>connection\<close> event.\<close>

definition inv_pending :: "state \<Rightarrow> bool" where
  "inv_pending s = (\<forall>e \<in> set (pending s). ws_readyState (sock s (p_ws (snd e))) \<noteq> CONNECTING)"

definition server_inv :: "state \<Rightarrow> bool" where
  "server_inv s = (inv_admin_member s \<and> inv_known s \<and> inv_pending s)"

text \<open>
  A third run: Ann (socket 1) attaches to room \<open>r1\<close> as admin and then asks to join
  it herself; Bob (socket 2) asks twice and Ann approves his first request.
\<close>

definition demo_self :: state where
  "demo_self = run toy_bcrypt toy_extname boot
     [CreateRoom ''r1'' ''p'' ''a'',
      Connect 1, Message 1 (AdminAttach ''r1'' ''a'' ''Ann'') [] 0 0 0,
      Message 1 (RequestJoin ''r1'' ''p'' ''Ann'') ''idA'' 10 11 0,
      Connect 2, Message 2 (RequestJoin ''r1'' ''p'' ''Bob'') ''idB'' 20 21 0,
      Message 2 (RequestJoin ''r1'' ''p'' ''Bob'') ''idC'' 30 31 0,
      Message 1 (Approve ''idB'') [] 0 0 0]"

text \<open>
  The calls of \<^verbatim>\<open>addText\<close>, \<^verbatim>\<open>addFile\<close> and \<^verbatim>\<open>clearChat\<close> that the handler of an
  event makes, read off the source: the chat handler calls \<^verbatim>\<open>addText\<close> after its
  three checks, the upload handler calls \<^verbatim>\<open>addFile\<close> after its checks, and the admin
  action \<^verbatim>\<open>clear\<close> calls \<^verbatim>\<open>clearChat\<close> after the password check. \<open>db_trace\<close>
  collects the calls along a run.
\<close>

definition chat_ops :: "state \<Rightarrow> nat \<Rightarrow> string \<Rightarrow> nat \<Rightarrow> db_op list" where
  "chat_ops s ws text0 now0 =
     (case ws_roomId (sock s ws) of
        None \<Rightarrow> []
      | Some roomId \<Rightarrow>
          if roomId = [] then []
          else if (case getRoom s roomId of None \<Rightarrow> True | Some room \<Rightarrow> \<not> enabled room) then []
          else if trim (js_or text0 []) = [] then []
          else [OpAddText roomId (ws_sender (sock s ws)) (trim (js_or text0 [])) now0])"

definition admin_ops :: "bcrypt \<Rightarrow> state \<Rightarrow> string \<Rightarrow> string \<Rightarrow> string \<Rightarrow> db_op list" where
  "admin_ops bc s roomId adminPassword action =
     (if roomId = [] \<or> adminPassword = [] \<or> action = [] then []
      else case getRoom s roomId of
        None \<Rightarrow> []
      | Some room \<Rightarrow>
          if bc_compare bc adminPassword (adminPassHash room) \<and> action = ''clear''
          then [OpClear roomId] else [])"

definition upload_ops ::
  "bcrypt \<Rightarrow> (string \<Rightarrow> string) \<Rightarrow> state \<Rightarrow> upfile option \<Rightarrow> string \<Rightarrow> string \<Rightarrow> string \<Rightarrow> nat
     \<Rightarrow> db_op list" where
  "upload_ops bc extname s file roomId roomPassword sender now0 =
     (case file of
        None \<Rightarrow> []
      | Some f \<Rightarrow>
          if roomId = [] \<or> roomPassword = [] then []
          else (case getRoom s roomId of
            None \<Rightarrow> []
          | Some room \<Rightarrow>
              if enabled room \<and> bc_compare bc roomPassword (roomPassHash room) \<and> isOk (f_mimetype f)
              then [OpAddFile roomId (take 20 (js_or sender ''User''))
                      (''/uploads/'' @ f_filename f @ take 10 (extname (js_or (f_originalname f) ''file'')))
                      (toLowerCase (f_mimetype f)) (js_or (f_originalname f) ''file'') now0]
              else []))"

definition db_ops_of :: "bcrypt \<Rightarrow> (string \<Rightarrow> string) \<Rightarrow> state \<Rightarrow> event \<Rightarrow> db_op list" where
  "db_ops_of bc extname s e =
     (case e of
        Message ws msg mid now0 now1 now2 \<Rightarrow>
          (case msg of
             Chat text0 \<Rightarrow>
               if ws_readyState (sock s ws) = OPEN \<or> ws_readyState (sock s ws) = CLOSING
               then chat_ops s ws text0 now0 else []
           | _ \<Rightarrow> [])
      | AdminAction roomId adminPassword action \<Rightarrow> admin_ops bc s roomId adminPassword action
      | Upload file roomId roomPassword sender now0 \<Rightarrow>
          upload_ops bc extname s file roomId roomPassword sender now0
      | _ \<Rightarrow> [])"

fun db_trace :: "bcrypt \<Rightarrow> (string \<Rightarrow> string) \<Rightarrow> state \<Rightarrow> event list \<Rightarrow> db_op list" where
  "db_trace bc extname s [] = []"
| "db_trace bc extname s (e # es) =
     db_ops_of bc extname s e @ db_trace bc extname (step bc extname s e) es"

text \<open>
  The events in which \<^verbatim>\<open>makeId\<close> can return a given identifier: a handler that goes
  on and is given that identifier.
\<close>

fun gives_id :: "string \<Rightarrow> ievent \<Rightarrow> bool" where
  "gives_id rid (Resume k mid now0 now1) = (mid = rid)"
| "gives_id rid e = False"



text \<open>
  A handler with the next thing for it to do: it goes on if it is stopped, and stays as
  it is once it has returned. \<open>hold\<close> puts the state and the stopped handler, if any,
  back into the server.
\<close>

definition proceed ::
  "bcrypt \<Rightarrow> (string \<Rightarrow> string) \<Rightarrow> string \<Rightarrow> nat \<Rightarrow> nat \<Rightarrow> state \<times> task option \<Rightarrow> state \<times> task option" where
  "proceed bc extname mid now0 now1 r =
     (case snd r of None \<Rightarrow> r | Some t \<Rightarrow> resume bc extname (fst r) t mid now0 now1)"

definition hold :: "server \<Rightarrow> state \<times> task option \<Rightarrow> server" where
  "hold q r = q\<lparr>cur := fst r, stopped := stopped q @ opt_list (snd r)\<rparr>"

text \<open>
  The socket to which a stopped handler will add a room membership or a pending request,
  and the invariant that such a socket has had its \<^verbatim>\<open>connection\<close> event.
\<close>

fun task_sock :: "task \<Rightarrow> nat option" where
  "task_sock (AttachRoom ws roomId adminPassword sender room0) = Some ws"
| "task_sock (AttachPass ws roomId sender room okAdmin) = Some ws"
| "task_sock (JoinRoom ws roomId roomPassword sender room0) = Some ws"
| "task_sock (JoinPass ws roomId sender okPass) = Some ws"
| "task_sock t = None"

definition inv_stopped :: "server \<Rightarrow> bool" where
  "inv_stopped q =
     (\<forall>t \<in> set (stopped q). \<forall>ws. task_sock t = Some ws
          \<longrightarrow> ws_readyState (sock (cur q) ws) \<noteq> CONNECTING)"

text \<open>
  A run of the interleaved server from the empty server. Room \<open>r2\<close> is created, Dan
  (socket 4) attaches as its admin and Eve (socket 5) asks to join. Then the admin's
  \<^verbatim>\<open>disable\<close> request arrives and its password check starts; Fay (socket 6) sends
  \<^verbatim>\<open>request-join\<close> and her handler reads the room, which is enabled, and starts its
  password check; Dan sends a chat message, whose handler reads the room likewise; then
  the \<^verbatim>\<open>disable\<close> handler goes on and sets the flag (\<open>race_written\<close>). In
  \<open>race_rest\<close> the chat handler goes on and stores the message, the \<^verbatim>\<open>disable\<close>
  handler evicts and denies, the chat handler broadcasts, and Fay's handler stores her
  request (\<open>race_end\<close>).
\<close>

definition race_events :: "ievent list" where
  "race_events =
     [Arrive (PostCreate ''r2'' ''q'' ''b''), Resume 0 [] 0 0, Resume 0 [] 0 0, Resume 0 [] 0 0,
      Resume 0 [] 0 0,
      Arrive (SocketOpen 4), Arrive (SocketFrame 4 (AdminAttach ''r2'' ''b'' ''Dan'')),
      Resume 0 [] 0 0, Resume 0 [] 0 0, Resume 0 [] 0 0,
      Arrive (SocketOpen 5), Arrive (SocketFrame 5 (RequestJoin ''r2'' ''q'' ''Eve'')),
      Resume 0 [] 0 0, Resume 0 ''id3'' 50 51,
      Arrive (SocketOpen 6),
      Arrive (PostAction ''r2'' ''b'' ''disable''), Resume 0 [] 0 0,
      Arrive (SocketFrame 6 (RequestJoin ''r2'' ''q'' ''Fay'')), Resume 1 [] 0 0,
      Arrive (SocketFrame 4 (Chat ''late'')),
      Resume 0 [] 0 0]"


definition race_written :: server where
  "race_written = irun toy_bcrypt toy_extname (idle boot) race_events"


text \<open>
  Another run from the empty server: Fay (socket 6) sends \<^verbatim>\<open>request-join\<close> for room
  \<open>r2\<close>; while her handler waits for the password check her socket closes, and the
  handler goes on afterwards (\<open>orphan_end\<close>). Then the admin approves her request
  (\<open>orphan_approved\<close>).
\<close>

definition orphan_events :: "ievent list" where
  "orphan_events =
     [Arrive (PostCreate ''r2'' ''q'' ''b''), Resume 0 [] 0 0, Resume 0 [] 0 0, Resume 0 [] 0 0,
      Resume 0 [] 0 0,
      Arrive (SocketOpen 4), Arrive (SocketFrame 4 (AdminAttach ''r2'' ''b'' ''Dan'')),
      Resume 0 [] 0 0, Resume 0 [] 0 0, Resume 0 [] 0 0,
      Arrive (SocketOpen 6), Arrive (SocketFrame 6 (RequestJoin ''r2'' ''q'' ''Fay'')),
      Resume 0 [] 0 0, Arrive (SocketClose 6), Resume 0 ''id4'' 60 61]"

definition orphan_end :: server where
  "orphan_end = irun toy_bcrypt toy_extname (idle boot) orphan_events"

definition orphan_approved :: server where
  "orphan_approved = irun toy_bcrypt toy_extname orphan_end
     [Arrive (SocketClose 6), Arrive (SocketFrame 4 (Approve ''id4'')), Resume 0 [] 0 0]"

section \<open>Frame lemmas\<close>

lemmas demo_simps = demo_def boot_def toy_bcrypt_def getRoom_def jsmap_get_def membersOf_def
  is_open_def truthy_def getHistory_def pending_list_def

text \<open>
  Each handler run without interruption, written out as one function of the state in
  which it starts.
\<close>

lemma create_room_eq:
  "create_room bc s roomId roomPassword adminPassword =
     (if roomId = [] \<or> roomPassword = [] \<or> adminPassword = []
      then (s, (400, Err ''Missing fields''))
      else if getRoom s roomId \<noteq> None
      then (s, (409, Err ''Room already exists''))
      else (s\<lparr>rooms := (rooms s)(roomId \<mapsto>
                 \<lparr>roomPassHash = bc_hash bc roomPassword,
                  adminPassHash = bc_hash bc adminPassword,
                  enabled = True\<rparr>)\<rparr>,
            (200, Ok)))"
  by (simp add: create_room_def create_begin_def create_exists_def create_insert_def create_reply_def getRoom_def Let_def split: option.split)

lemma admin_action_eq:
  "admin_action bc s roomId adminPassword action =
     (if roomId = [] \<or> adminPassword = [] \<or> action = []
      then (s, (400, Err ''Missing fields''))
      else case getRoom s roomId of
        None \<Rightarrow> (s, (404, Err ''Room not found''))
      | Some room \<Rightarrow>
          if \<not> bc_compare bc adminPassword (adminPassHash room)
          then (s, (403, Err ''Wrong admin password''))
          else if action = ''enable''
          then (let s1 = setRoomEnabled s roomId True;
                    s2 = broadcastToRoom s1 roomId (RoomStatus True);
                    s3 = broadcastToAdmins s2 roomId (RoomStatus True)
                in (s3, (200, Ok)))
          else if action = ''disable''
          then (let s1 = setRoomEnabled s roomId False;
                    s2 = broadcastToAdmins s1 roomId (RoomStatus False);
                    s3 = kickRoom s2 roomId ''Room disabled by admin'';
                    s4 = denyPendingForRoom s3 roomId ''Room disabled by admin''
                in (s4, (200, Ok)))
          else if action = ''clear''
          then (let s1 = clearChat s roomId;
                    s2 = broadcastToRoom s1 roomId ChatCleared;
                    s3 = broadcastToAdmins s2 roomId ChatCleared
                in (s3, (200, Ok)))
          else (s, (400, Err ''Unknown action'')))"
  by (simp add: admin_action_def action_begin_def action_found_def action_write_def action_finish_def Let_def split: option.split)

lemma upload_eq:
  "upload bc extname s file roomId roomPassword sender now0 =
     (case file of
        None \<Rightarrow> (s, (400, Err ''No file''))
      | Some f \<Rightarrow>
          if roomId = [] \<or> roomPassword = []
          then (s, (400, Err ''Missing room/password''))
          else (case getRoom s roomId of
            None \<Rightarrow> (s, (404, Err ''Room not found''))
          | Some room \<Rightarrow>
              if \<not> enabled room then (s, (403, Err ''Room disabled''))
              else if \<not> bc_compare bc roomPassword (roomPassHash room)
              then (s, (403, Err ''Wrong passkey''))
              else (let mime = toLowerCase (js_or (f_mimetype f) []);
                        isOk = (startsWith mime ''image/'' \<or> startsWith mime ''video/''
                                \<or> startsWith mime ''audio/'')
                    in if \<not> isOk
                       then (s\<lparr>uploads := unlinkSync (uploads s) (f_filename f)\<rparr>,
                             (400, Err ''Only image/video/audio allowed''))
                       else (let safeSender = take 20 (js_or sender ''User'');
                                 original = js_or (f_originalname f) ''file'';
                                 ext = js_or (take 10 (extname original)) [];
                                 newName = f_filename f @ ext;
                                 s1 = s\<lparr>uploads := renameSync (uploads s) (f_filename f) newName\<rparr>;
                                 fileUrl = ''/uploads/'' @ newName;
                                 s2 = addFile s1 roomId safeSender fileUrl mime original now0;
                                 payload = FileMsg safeSender fileUrl mime original;
                                 s3 = broadcastToRoom s2 roomId payload;
                                 s4 = broadcastToAdmins s3 roomId payload
                             in (s4, (200, OkUrl fileUrl))))))"
  by (simp add: upload_def upload_begin_def upload_found_def upload_store_def upload_deliver_def Let_def split: option.split)

lemma admin_attach_eq:
  "admin_attach bc s ws roomId0 adminPassword0 sender0 =
     (let roomId = trim (js_or roomId0 []);
          adminPassword = js_or adminPassword0 [];
          sender = take 20 (js_or sender0 ''Admin'')
      in case getRoom s roomId of
           None \<Rightarrow> send s ws (Error ''Room not found'')
         | Some room \<Rightarrow>
             if \<not> bc_compare bc adminPassword (adminPassHash room)
             then send s ws (Error ''Wrong admin password'')
             else (let s1 = set_isAdmin s ws True;
                       s2 = set_roomId s1 ws roomId;
                       s3 = set_sender s2 ws sender;
                       s4 = s3\<lparr>adminsByRoom := addTo (adminsByRoom s3) roomId ws\<rparr>;
                       s5 = s4\<lparr>clientsByRoom := addTo (clientsByRoom s4) roomId ws\<rparr>;
                       s6 = send s5 ws (AdminAttached roomId (enabled room));
                       pend = pending_list (pending s6) roomId;
                       s7 = send s6 ws (PendingList pend);
                       history = getHistory s7 roomId 200;
                       s8 = send s7 ws (History history)
                   in broadcastToRoom s8 roomId (System (sender @ '' (admin) joined.''))))"
  by (simp add: admin_attach_def attach_checks_def attach_enter_def attach_history_def Let_def split: option.split)

lemma request_join_eq:
  "request_join bc s ws roomId0 roomPassword0 sender0 mid now0 now1 =
     (let roomId = trim (js_or roomId0 []);
          roomPassword = js_or roomPassword0 [];
          sender = take 20 (js_or sender0 ''User'')
      in case getRoom s roomId of
           None \<Rightarrow> send s ws (Error ''Room not found'')
         | Some room \<Rightarrow>
             if \<not> enabled room then send s ws (Error ''Room disabled'')
             else if \<not> bc_compare bc roomPassword (roomPassHash room)
             then send s ws (Error ''Wrong passkey'')
             else (let s1 = set_sender s ws sender;
                       requestId = mid;
                       s2 = s1\<lparr>pending := jsmap_set (pending s1) requestId
                               \<lparr>p_ws = ws, p_roomId = roomId, p_sender = sender,
                                p_createdAt = now0\<rparr>\<rparr>;
                       s3 = send s2 ws (Waiting requestId)
                   in broadcastToAdmins s3 roomId (JoinRequest requestId sender now1)))"
  by (simp add: request_join_def join_checks_def join_commit_def Let_def split: option.split)

lemma approve_deny_eq:
  "approve_deny s ws deny requestId0 =
     (if \<not> ws_isAdmin (sock s ws) \<or> \<not> truthy (ws_roomId (sock s ws))
      then send s ws (Error ''Not admin'')
      else (let requestId = js_or requestId0 []
            in case jsmap_get (pending s) requestId of
                 None \<Rightarrow> send s ws (Error ''Request not found'')
               | Some req \<Rightarrow>
                   if Some (p_roomId req) \<noteq> ws_roomId (sock s ws)
                   then send s ws (Error ''Wrong room'')
                   else (let s1 = s\<lparr>pending := jsmap_delete (pending s) requestId\<rparr>;
                             s2 = broadcastToAdmins s1 (p_roomId req) (JoinRequestClosed requestId)
                         in if deny
                            then ws_close (send s2 (p_ws req) JoinDenied) (p_ws req)
                            else (let s3 = set_roomId s2 (p_ws req) (p_roomId req);
                                      s4 = s3\<lparr>clientsByRoom :=
                                              addTo (clientsByRoom s3) (p_roomId req) (p_ws req)\<rparr>;
                                      s5 = send s4 (p_ws req) (Joined (p_roomId req));
                                      history = getHistory s5 (p_roomId req) 200;
                                      s6 = send s5 (p_ws req) (History history)
                                  in broadcastToRoom s6 (p_roomId req)
                                       (System (p_sender req @ '' joined.''))))))"
  by (simp add: approve_deny_def approve_begin_def approve_history_def Let_def split: option.split)

lemma chat_eq:
  "chat s ws text0 now0 now1 now2 =
     (case ws_roomId (sock s ws) of
        None \<Rightarrow> send s ws (Error ''Not joined'')
      | Some roomId \<Rightarrow>
          if roomId = [] then send s ws (Error ''Not joined'')
          else if (case getRoom s roomId of None \<Rightarrow> True | Some room \<Rightarrow> \<not> enabled room)
          then ws_close (send s ws (Error ''Room disabled'')) ws
          else (let text = trim (js_or text0 [])
                in if text = [] then s
                   else (let sender = ws_sender (sock s ws);
                             s1 = addText s roomId sender text now0;
                             s2 = broadcastToRoom s1 roomId (ChatMsg sender text now1)
                         in broadcastToAdmins s2 roomId (ChatMsg sender text now2))))"
  by (simp add: chat_def chat_begin_def chat_checks_def chat_deliver_def addText_def Let_def
      split: option.split)

lemma js_or_Nil [simp]: "js_or x [] = x"
  by (simp add: js_or_def)

lemma send_frame [simp]:
  "rooms (send s c m) = rooms s"
  "messages (send s c m) = messages s"
  "uploads (send s c m) = uploads s"
  "clientsByRoom (send s c m) = clientsByRoom s"
  "adminsByRoom (send s c m) = adminsByRoom s"
  "pending (send s c m) = pending s"
  "sock (send s c m) = sock s"
  by (simp_all add: send_def)

lemma send_log_send [simp]: "send_log (send s c m) = send_log s @ [(c, m)]"
  by (simp add: send_def)

lemma wire_send [simp]:
  "wire (send s c m) = wire s @ (if is_open s c then [(c, m)] else [])"
  by (simp add: send_def is_open_def)

lemma is_open_send [simp]: "is_open (send s c m) = is_open s"
  by (rule ext) (simp add: is_open_def)

lemma send_each_frame [simp]:
  "rooms (send_each s xs m) = rooms s"
  "messages (send_each s xs m) = messages s"
  "uploads (send_each s xs m) = uploads s"
  "clientsByRoom (send_each s xs m) = clientsByRoom s"
  "adminsByRoom (send_each s xs m) = adminsByRoom s"
  "pending (send_each s xs m) = pending s"
  "sock (send_each s xs m) = sock s"
  by (induction xs arbitrary: s; simp)+

lemma is_open_send_each [simp]: "is_open (send_each s xs m) = is_open s"
  by (rule ext) (simp add: is_open_def)

lemma send_log_send_each [simp]:
  "send_log (send_each s xs m) = send_log s @ map (\<lambda>c. (c, m)) xs"
  by (induction xs arbitrary: s) simp_all

lemma wire_send_each [simp]:
  "wire (send_each s xs m) = wire s @ map (\<lambda>c. (c, m)) (filter (is_open s) xs)"
  by (induction xs arbitrary: s) simp_all

lemma broadcastToRoom_frame [simp]:
  "rooms (broadcastToRoom s r m) = rooms s"
  "messages (broadcastToRoom s r m) = messages s"
  "uploads (broadcastToRoom s r m) = uploads s"
  "clientsByRoom (broadcastToRoom s r m) = clientsByRoom s"
  "adminsByRoom (broadcastToRoom s r m) = adminsByRoom s"
  "pending (broadcastToRoom s r m) = pending s"
  "sock (broadcastToRoom s r m) = sock s"
  by (simp_all add: broadcastToRoom_def split: option.split)

lemma broadcastToAdmins_frame [simp]:
  "rooms (broadcastToAdmins s r m) = rooms s"
  "messages (broadcastToAdmins s r m) = messages s"
  "uploads (broadcastToAdmins s r m) = uploads s"
  "clientsByRoom (broadcastToAdmins s r m) = clientsByRoom s"
  "adminsByRoom (broadcastToAdmins s r m) = adminsByRoom s"
  "pending (broadcastToAdmins s r m) = pending s"
  "sock (broadcastToAdmins s r m) = sock s"
  by (simp_all add: broadcastToAdmins_def split: option.split)

lemma is_open_broadcast [simp]:
  "is_open (broadcastToRoom s r m) = is_open s"
  "is_open (broadcastToAdmins s r m) = is_open s"
  by (rule ext, simp add: is_open_def)+

lemma send_log_broadcastToRoom [simp]:
  "send_log (broadcastToRoom s r m) = send_log s @ map (\<lambda>c. (c, m)) (membersOf (clientsByRoom s) r)"
  by (simp add: broadcastToRoom_def membersOf_def split: option.split)

lemma send_log_broadcastToAdmins [simp]:
  "send_log (broadcastToAdmins s r m) = send_log s @ map (\<lambda>c. (c, m)) (membersOf (adminsByRoom s) r)"
  by (simp add: broadcastToAdmins_def membersOf_def split: option.split)

lemma wire_broadcastToRoom [simp]:
  "wire (broadcastToRoom s r m) =
     wire s @ map (\<lambda>c. (c, m)) (filter (is_open s) (membersOf (clientsByRoom s) r))"
  by (simp add: broadcastToRoom_def membersOf_def split: option.split)

lemma wire_broadcastToAdmins [simp]:
  "wire (broadcastToAdmins s r m) =
     wire s @ map (\<lambda>c. (c, m)) (filter (is_open s) (membersOf (adminsByRoom s) r))"
  by (simp add: broadcastToAdmins_def membersOf_def split: option.split)

lemma ws_close_frame [simp]:
  "rooms (ws_close s c) = rooms s"
  "messages (ws_close s c) = messages s"
  "uploads (ws_close s c) = uploads s"
  "clientsByRoom (ws_close s c) = clientsByRoom s"
  "adminsByRoom (ws_close s c) = adminsByRoom s"
  "pending (ws_close s c) = pending s"
  "send_log (ws_close s c) = send_log s"
  "wire (ws_close s c) = wire s"
  by (simp_all add: ws_close_def)

lemma sock_ws_close [simp]:
  "ws_roomId (sock (ws_close s c) c') = ws_roomId (sock s c')"
  "ws_sender (sock (ws_close s c) c') = ws_sender (sock s c')"
  "ws_isAdmin (sock (ws_close s c) c') = ws_isAdmin (sock s c')"
  "ws_readyState (sock (ws_close s c) c') =
     (if c' = c \<and> ws_readyState (sock s c) = OPEN then CLOSING else ws_readyState (sock s c'))"
  by (simp_all add: ws_close_def)

lemma is_open_ws_close [simp]: "is_open (ws_close s c) c' = (c' \<noteq> c \<and> is_open s c')"
  by (auto simp add: is_open_def)

lemma is_open_upd [simp]:
  "is_open (s\<lparr>pending := p\<rparr>) = is_open s"
  "is_open (s\<lparr>clientsByRoom := m\<rparr>) = is_open s"
  "is_open (s\<lparr>adminsByRoom := m\<rparr>) = is_open s"
  "is_open (s\<lparr>messages := ms\<rparr>) = is_open s"
  "is_open (s\<lparr>rooms := rs\<rparr>) = is_open s"
  "is_open (s\<lparr>uploads := u\<rparr>) = is_open s"
  by (rule ext, simp add: is_open_def)+

lemma set_roomId_frame [simp]:
  "rooms (set_roomId s c r) = rooms s"
  "messages (set_roomId s c r) = messages s"
  "uploads (set_roomId s c r) = uploads s"
  "clientsByRoom (set_roomId s c r) = clientsByRoom s"
  "adminsByRoom (set_roomId s c r) = adminsByRoom s"
  "pending (set_roomId s c r) = pending s"
  "send_log (set_roomId s c r) = send_log s"
  "wire (set_roomId s c r) = wire s"
  "is_open (set_roomId s c r) = is_open s"
  by (simp_all add: set_roomId_def is_open_def fun_eq_iff)

lemma sock_set_roomId [simp]:
  "sock (set_roomId s c r) c' = (if c' = c then (sock s c)\<lparr>ws_roomId := Some r\<rparr> else sock s c')"
  by (simp add: set_roomId_def)

lemma set_sender_frame [simp]:
  "rooms (set_sender s c r) = rooms s"
  "messages (set_sender s c r) = messages s"
  "uploads (set_sender s c r) = uploads s"
  "clientsByRoom (set_sender s c r) = clientsByRoom s"
  "adminsByRoom (set_sender s c r) = adminsByRoom s"
  "pending (set_sender s c r) = pending s"
  "send_log (set_sender s c r) = send_log s"
  "wire (set_sender s c r) = wire s"
  "is_open (set_sender s c r) = is_open s"
  by (simp_all add: set_sender_def is_open_def fun_eq_iff)

lemma sock_set_sender [simp]:
  "sock (set_sender s c r) c' = (if c' = c then (sock s c)\<lparr>ws_sender := r\<rparr> else sock s c')"
  by (simp add: set_sender_def)

lemma set_isAdmin_frame [simp]:
  "rooms (set_isAdmin s c r) = rooms s"
  "messages (set_isAdmin s c r) = messages s"
  "uploads (set_isAdmin s c r) = uploads s"
  "clientsByRoom (set_isAdmin s c r) = clientsByRoom s"
  "adminsByRoom (set_isAdmin s c r) = adminsByRoom s"
  "pending (set_isAdmin s c r) = pending s"
  "send_log (set_isAdmin s c r) = send_log s"
  "wire (set_isAdmin s c r) = wire s"
  "is_open (set_isAdmin s c r) = is_open s"
  by (simp_all add: set_isAdmin_def is_open_def fun_eq_iff)

lemma sock_set_isAdmin [simp]:
  "sock (set_isAdmin s c r) c' = (if c' = c then (sock s c)\<lparr>ws_isAdmin := r\<rparr> else sock s c')"
  by (simp add: set_isAdmin_def)

lemma membersOf_addTo:
  "membersOf (addTo m k c) r = (if r = k then set_add (membersOf m k) c else membersOf m r)"
  by (simp add: membersOf_def addTo_def Let_def split: option.split)

lemma set_set_add [simp]: "set (set_add xs x) = insert x (set xs)"
  by (auto simp add: set_add_def)

section \<open>The clear action\<close>

text \<open>
  Claim C7. For a request that names an existing room with its admin password, the
  \<^verbatim>\<open>clear\<close> action answers 200, deletes exactly the message records of that room
  (the records of every other room stay, in order), calls \<^verbatim>\<open>send\<close> with
  \<^verbatim>\<open>chat-cleared\<close> for each member and then each admin of the room (the frame is
  written on the OPEN sockets), and leaves the member sets, the admin sets, the rooms
  table with its enabled flags, the pending map, the sockets and the upload directory
  unchanged.
\<close>

theorem clear_only_deletes_room_messages:
  assumes "roomId \<noteq> []" and "adminPassword \<noteq> []"
    and "getRoom s roomId = Some room"
    and "bc_compare bc adminPassword (adminPassHash room)"
    and "admin_action bc s roomId adminPassword ''clear'' = (s', resp)"
  shows "resp = (200, Ok)
    \<and> messages s' = filter (\<lambda>m. fst m \<noteq> roomId) (messages s)
    \<and> filter (\<lambda>m. fst m = roomId) (messages s') = []
    \<and> filter (\<lambda>m. fst m \<noteq> roomId) (messages s') = filter (\<lambda>m. fst m \<noteq> roomId) (messages s)
    \<and> send_log s' = send_log s
         @ map (\<lambda>c. (c, ChatCleared)) (membersOf (clientsByRoom s) roomId)
         @ map (\<lambda>c. (c, ChatCleared)) (membersOf (adminsByRoom s) roomId)
    \<and> wire s' = wire s
         @ map (\<lambda>c. (c, ChatCleared)) (filter (is_open s) (membersOf (clientsByRoom s) roomId))
         @ map (\<lambda>c. (c, ChatCleared)) (filter (is_open s) (membersOf (adminsByRoom s) roomId))
    \<and> clientsByRoom s' = clientsByRoom s
    \<and> adminsByRoom s' = adminsByRoom s
    \<and> rooms s' = rooms s
    \<and> pending s' = pending s
    \<and> sock s' = sock s
    \<and> uploads s' = uploads s"
  using assms by (auto simp add: admin_action_eq clearChat_def Let_def)

theorem clear_only_deletes_room_messages_witness:
  "admin_action toy_bcrypt demo ''r1'' ''a'' ''clear'' =
     (fst (admin_action toy_bcrypt demo ''r1'' ''a'' ''clear''), (200, Ok))
   \<and> messages demo = [(''r1'', \<lparr>h_sender = ''Cy'', h_kind = KText, h_text = Some ''hi'', h_fileUrl = None,
         h_fileMime = None, h_fileName = None, h_ts = 30\<rparr>),
        (''r2'', \<lparr>h_sender = ''Dan'', h_kind = KText, h_text = Some ''yo'', h_fileUrl = None,
         h_fileMime = None, h_fileName = None, h_ts = 40\<rparr>)]
   \<and> messages (fst (admin_action toy_bcrypt demo ''r1'' ''a'' ''clear'')) =
        [(''r2'', \<lparr>h_sender = ''Dan'', h_kind = KText, h_text = Some ''yo'', h_fileUrl = None,
         h_fileMime = None, h_fileName = None, h_ts = 40\<rparr>)]
   \<and> send_log (fst (admin_action toy_bcrypt demo ''r1'' ''a'' ''clear'')) =
        send_log demo @ [(1, ChatCleared), (3, ChatCleared), (1, ChatCleared)]"
proof -
  let ?room = "\<lparr>roomPassHash = ''$2a$p'', adminPassHash = ''$2a$a'', enabled = True\<rparr>"
  let ?s' = "fst (admin_action toy_bcrypt demo ''r1'' ''a'' ''clear'')"
  have h1: "''r1'' \<noteq> []" and h2: "''a'' \<noteq> []" by simp_all
  have h3: "getRoom demo ''r1'' = Some ?room" by (simp add: demo_simps)
  have h4: "bc_compare toy_bcrypt ''a'' (adminPassHash ?room)" by (simp add: demo_simps)
  have h5: "admin_action toy_bcrypt demo ''r1'' ''a'' ''clear'' = (?s', snd (admin_action toy_bcrypt demo ''r1'' ''a'' ''clear''))"
    by simp
  note t = clear_only_deletes_room_messages [OF h1 h2 h3 h4 h5]
  have m: "messages demo = [(''r1'', \<lparr>h_sender = ''Cy'', h_kind = KText, h_text = Some ''hi'', h_fileUrl = None,
         h_fileMime = None, h_fileName = None, h_ts = 30\<rparr>),
        (''r2'', \<lparr>h_sender = ''Dan'', h_kind = KText, h_text = Some ''yo'', h_fileUrl = None,
         h_fileMime = None, h_fileName = None, h_ts = 40\<rparr>)]" by (simp add: demo_simps)
  have c: "membersOf (clientsByRoom demo) ''r1'' = [1, 3]" by (simp add: demo_simps)
  have a: "membersOf (adminsByRoom demo) ''r1'' = [1]" by (simp add: demo_simps)
  from t m c a show ?thesis by (simp add: prod_eq_iff)
qed


section \<open>History\<close>

lemma apply_ops_snoc: "apply_ops s (xs @ [x]) = apply_op (apply_ops s xs) x"
  by (induction xs arbitrary: s) simp_all

lemma after_last_clear_snoc:
  "after_last_clear r (xs @ [x]) = (if x = OpClear r then [] else after_last_clear r xs @ [x])"
  by (simp add: after_last_clear_def)

lemma room_rows_apply_ops:
  "messages s = [] \<Longrightarrow>
   map snd (filter (\<lambda>m. fst m = r) (messages (apply_ops s xs))) = spec_history r xs"
proof (induction xs rule: rev_induct)
  case Nil
  then show ?case by (simp add: spec_history_def after_last_clear_def)
next
  case (snoc x xs)
  then have ih: "map snd (filter (\<lambda>m. fst m = r) (messages (apply_ops s xs))) = spec_history r xs"
    by simp
  show ?case
  proof (cases x)
    case (OpAddText r2 sender body ts)
    with ih show ?thesis
      by (simp add: apply_ops_snoc spec_history_def after_last_clear_snoc addText_def)
  next
    case (OpAddFile r2 sender fileUrl fileMime fileName ts)
    with ih show ?thesis
      by (simp add: apply_ops_snoc spec_history_def after_last_clear_snoc addFile_def)
  next
    case (OpClear r')
    show ?thesis
    proof (cases "r' = r")
      case True
      with OpClear show ?thesis
        by (simp add: apply_ops_snoc spec_history_def after_last_clear_snoc clearChat_def)
    next
      case False
      have "filter (\<lambda>m. fst m = r) (filter (\<lambda>m. fst m \<noteq> r') ms) = filter (\<lambda>m. fst m = r) ms" for ms :: "message list"
        using False by (induction ms) auto
      with OpClear False ih show ?thesis
        by (simp add: apply_ops_snoc spec_history_def after_last_clear_snoc clearChat_def)
    qed
  qed
qed

lemma getHistory_apply_ops:
  "messages s = [] \<Longrightarrow> getHistory (apply_ops s xs) r n = take n (spec_history r xs)"
  by (simp add: getHistory_def room_rows_apply_ops)

lemma length_getHistory: "length (getHistory s r n) \<le> n"
  by (simp add: getHistory_def)

section \<open>approve / deny\<close>

lemma approve_deny_not_admin:
  "\<not> ws_isAdmin (sock s ws) \<or> \<not> truthy (ws_roomId (sock s ws)) \<Longrightarrow>
   approve_deny s ws d rid = send s ws (Error ''Not admin'')"
  by (simp add: approve_deny_eq)

lemma approve_deny_not_found:
  "ws_isAdmin (sock s ws) \<Longrightarrow> truthy (ws_roomId (sock s ws)) \<Longrightarrow>
   jsmap_get (pending s) rid = None \<Longrightarrow>
   approve_deny s ws d rid = send s ws (Error ''Request not found'')"
  by (simp add: approve_deny_eq)

lemma approve_deny_wrong_room:
  "ws_isAdmin (sock s ws) \<Longrightarrow> truthy (ws_roomId (sock s ws)) \<Longrightarrow>
   jsmap_get (pending s) rid = Some req \<Longrightarrow> Some (p_roomId req) \<noteq> ws_roomId (sock s ws) \<Longrightarrow>
   approve_deny s ws d rid = send s ws (Error ''Wrong room'')"
  by (simp add: approve_deny_eq)

lemma jsmap_get_delete [simp]: "jsmap_get (jsmap_delete m k) k = None"
  by (induction m) (auto simp add: jsmap_get_def jsmap_delete_def)

lemma jsmap_get_delete_other: "k' \<noteq> k \<Longrightarrow> jsmap_get (jsmap_delete m k) k' = jsmap_get m k'"
  by (induction m) (auto simp add: jsmap_get_def jsmap_delete_def)

lemma approve_state:
  assumes "ws_isAdmin (sock s ws)" and "ws_roomId (sock s ws) = Some roomId" and "roomId \<noteq> []"
    and "jsmap_get (pending s) rid = Some req" and "p_roomId req = roomId"
  shows "approve_deny s ws False rid =
     broadcastToRoom
       (send (send
          ((set_roomId (broadcastToAdmins (s\<lparr>pending := jsmap_delete (pending s) rid\<rparr>) roomId
               (JoinRequestClosed rid)) (p_ws req) roomId)
             \<lparr>clientsByRoom := addTo (clientsByRoom s) roomId (p_ws req)\<rparr>)
          (p_ws req) (Joined roomId))
          (p_ws req) (History (getHistory s roomId 200)))
       roomId (System (p_sender req @ '' joined.''))"
  using assms by (simp add: approve_deny_eq truthy_def Let_def getHistory_def)

lemma approve_effect:
  assumes "ws_isAdmin (sock s ws)" and "ws_roomId (sock s ws) = Some roomId" and "roomId \<noteq> []"
    and "jsmap_get (pending s) rid = Some req" and "p_roomId req = roomId"
    and "s' = approve_deny s ws False rid"
  shows "pending s' = jsmap_delete (pending s) rid"
    and "jsmap_get (pending s') rid = None"
    and "sock s' = (sock s)(p_ws req := (sock s (p_ws req))\<lparr>ws_roomId := Some roomId\<rparr>)"
    and "clientsByRoom s' = addTo (clientsByRoom s) roomId (p_ws req)"
    and "membersOf (clientsByRoom s') roomId = set_add (membersOf (clientsByRoom s) roomId) (p_ws req)"
    and "p_ws req \<in> set (membersOf (clientsByRoom s') roomId)"
    and "adminsByRoom s' = adminsByRoom s"
    and "rooms s' = rooms s" and "messages s' = messages s"
    and "send_log s' = send_log s
           @ map (\<lambda>a. (a, JoinRequestClosed rid)) (membersOf (adminsByRoom s) roomId)
           @ [(p_ws req, Joined roomId), (p_ws req, History (getHistory s roomId 200))]
           @ map (\<lambda>c. (c, System (p_sender req @ '' joined.'')))
               (set_add (membersOf (clientsByRoom s) roomId) (p_ws req))"
    and "wire s' = wire s
           @ map (\<lambda>a. (a, JoinRequestClosed rid)) (filter (is_open s) (membersOf (adminsByRoom s) roomId))
           @ (if is_open s (p_ws req)
              then [(p_ws req, Joined roomId), (p_ws req, History (getHistory s roomId 200))] else [])
           @ map (\<lambda>c. (c, System (p_sender req @ '' joined.'')))
               (filter (is_open s) (set_add (membersOf (clientsByRoom s) roomId) (p_ws req)))"
  unfolding assms(6) approve_state [OF assms(1-5)]
  by (simp_all add: membersOf_addTo fun_eq_iff)

section \<open>Approval of a join request\<close>

text \<open>
  Claim C1. The \<^verbatim>\<open>approve\<close> handler checks, in this order, that the caller is an admin
  with a room (else \<open>Not admin\<close>), that the request id is in the pending map (else
  \<open>Request not found\<close>) and that the request's room is the caller's room (else
  \<open>Wrong room\<close>); each failure only sends the error to the caller. Otherwise the
  request leaves the pending map, \<^verbatim>\<open>join-request-closed\<close> with the request id is
  sent to every admin of the room, the requester's \<^verbatim>\<open>roomId\<close> becomes the room, the
  requester is added to the room's member set, it is sent \<^verbatim>\<open>joined\<close> and then the
  history of the room, and \<open>name joined.\<close> is sent to every member of the room, the
  requester included. \<open>send_log\<close> lists the calls of \<^verbatim>\<open>send\<close>, \<open>wire\<close> the frames
  written on the sockets that are OPEN.
\<close>

theorem approve_admits_requester:
  "(\<not> ws_isAdmin (sock s ws) \<or> \<not> truthy (ws_roomId (sock s ws)) \<longrightarrow>
      approve_deny s ws False rid = send s ws (Error ''Not admin''))
   \<and> (ws_isAdmin (sock s ws) \<and> truthy (ws_roomId (sock s ws)) \<and> jsmap_get (pending s) rid = None \<longrightarrow>
      approve_deny s ws False rid = send s ws (Error ''Request not found''))
   \<and> (ws_isAdmin (sock s ws) \<and> truthy (ws_roomId (sock s ws)) \<and> jsmap_get (pending s) rid = Some req
       \<and> Some (p_roomId req) \<noteq> ws_roomId (sock s ws) \<longrightarrow>
      approve_deny s ws False rid = send s ws (Error ''Wrong room''))
   \<and> (ws_isAdmin (sock s ws) \<and> ws_roomId (sock s ws) = Some roomId \<and> roomId \<noteq> []
       \<and> jsmap_get (pending s) rid = Some req \<and> p_roomId req = roomId \<longrightarrow>
      (let s' = approve_deny s ws False rid in
         pending s' = jsmap_delete (pending s) rid
       \<and> jsmap_get (pending s') rid = None
       \<and> sock s' = (sock s)(p_ws req := (sock s (p_ws req))\<lparr>ws_roomId := Some roomId\<rparr>)
       \<and> membersOf (clientsByRoom s') roomId = set_add (membersOf (clientsByRoom s) roomId) (p_ws req)
       \<and> p_ws req \<in> set (membersOf (clientsByRoom s') roomId)
       \<and> adminsByRoom s' = adminsByRoom s
       \<and> send_log s' = send_log s
           @ map (\<lambda>a. (a, JoinRequestClosed rid)) (membersOf (adminsByRoom s) roomId)
           @ [(p_ws req, Joined roomId), (p_ws req, History (getHistory s roomId 200))]
           @ map (\<lambda>c. (c, System (p_sender req @ '' joined.'')))
               (set_add (membersOf (clientsByRoom s) roomId) (p_ws req))
       \<and> wire s' = wire s
           @ map (\<lambda>a. (a, JoinRequestClosed rid)) (filter (is_open s) (membersOf (adminsByRoom s) roomId))
           @ (if is_open s (p_ws req)
              then [(p_ws req, Joined roomId), (p_ws req, History (getHistory s roomId 200))] else [])
           @ map (\<lambda>c. (c, System (p_sender req @ '' joined.'')))
               (filter (is_open s) (set_add (membersOf (clientsByRoom s) roomId) (p_ws req)))))"
proof (intro conjI impI)
  assume "ws_isAdmin (sock s ws) \<and> ws_roomId (sock s ws) = Some roomId \<and> roomId \<noteq> []
       \<and> jsmap_get (pending s) rid = Some req \<and> p_roomId req = roomId"
  then have a: "ws_isAdmin (sock s ws)" "ws_roomId (sock s ws) = Some roomId" "roomId \<noteq> []"
    "jsmap_get (pending s) rid = Some req" "p_roomId req = roomId" by simp_all
  note e = approve_effect [OF a refl]
  show "let s' = approve_deny s ws False rid in
         pending s' = jsmap_delete (pending s) rid
       \<and> jsmap_get (pending s') rid = None
       \<and> sock s' = (sock s)(p_ws req := (sock s (p_ws req))\<lparr>ws_roomId := Some roomId\<rparr>)
       \<and> membersOf (clientsByRoom s') roomId = set_add (membersOf (clientsByRoom s) roomId) (p_ws req)
       \<and> p_ws req \<in> set (membersOf (clientsByRoom s') roomId)
       \<and> adminsByRoom s' = adminsByRoom s
       \<and> send_log s' = send_log s
           @ map (\<lambda>a. (a, JoinRequestClosed rid)) (membersOf (adminsByRoom s) roomId)
           @ [(p_ws req, Joined roomId), (p_ws req, History (getHistory s roomId 200))]
           @ map (\<lambda>c. (c, System (p_sender req @ '' joined.'')))
               (set_add (membersOf (clientsByRoom s) roomId) (p_ws req))
       \<and> wire s' = wire s
           @ map (\<lambda>a. (a, JoinRequestClosed rid)) (filter (is_open s) (membersOf (adminsByRoom s) roomId))
           @ (if is_open s (p_ws req)
              then [(p_ws req, Joined roomId), (p_ws req, History (getHistory s roomId 200))] else [])
           @ map (\<lambda>c. (c, System (p_sender req @ '' joined.'')))
               (filter (is_open s) (set_add (membersOf (clientsByRoom s) roomId) (p_ws req)))"
    unfolding Let_def
    by (intro conjI) (rule e)+
qed (simp_all add: approve_deny_not_admin approve_deny_not_found approve_deny_wrong_room)

theorem approve_admits_requester_witness:
  "approve_deny demo 3 False ''id1'' = send demo 3 (Error ''Not admin'')
   \<and> approve_deny demo 1 False ''zz'' = send demo 1 (Error ''Request not found'')
   \<and> approve_deny demo 1 False ''id3'' = send demo 1 (Error ''Wrong room'')
   \<and> pending demo = [(''id1'', \<lparr>p_ws = 2, p_roomId = ''r1'', p_sender = ''Bob'', p_createdAt = 10\<rparr>),
                      (''id3'', \<lparr>p_ws = 5, p_roomId = ''r2'', p_sender = ''Eve'', p_createdAt = 50\<rparr>)]
   \<and> pending (approve_deny demo 1 False ''id1'') =
        [(''id3'', \<lparr>p_ws = 5, p_roomId = ''r2'', p_sender = ''Eve'', p_createdAt = 50\<rparr>)]
   \<and> ws_roomId (sock (approve_deny demo 1 False ''id1'') 2) = Some ''r1''
   \<and> membersOf (clientsByRoom (approve_deny demo 1 False ''id1'')) ''r1'' = [1, 3, 2]
   \<and> send_log (approve_deny demo 1 False ''id1'') = send_log demo @
        [(1, JoinRequestClosed ''id1''), (2, Joined ''r1''),
         (2, History [\<lparr>h_sender = ''Cy'', h_kind = KText, h_text = Some ''hi'', h_fileUrl = None,
                       h_fileMime = None, h_fileName = None, h_ts = 30\<rparr>]),
         (1, System ''Bob joined.''), (3, System ''Bob joined.''), (2, System ''Bob joined.'')]
   \<and> wire (approve_deny demo 1 False ''id1'') = wire demo @
        [(1, JoinRequestClosed ''id1''), (2, Joined ''r1''),
         (2, History [\<lparr>h_sender = ''Cy'', h_kind = KText, h_text = Some ''hi'', h_fileUrl = None,
                       h_fileMime = None, h_fileName = None, h_ts = 30\<rparr>]),
         (1, System ''Bob joined.''), (3, System ''Bob joined.''), (2, System ''Bob joined.'')]"
proof -
  let ?bob = "\<lparr>p_ws = 2, p_roomId = ''r1'', p_sender = ''Bob'', p_createdAt = 10\<rparr>"
  let ?eve = "\<lparr>p_ws = 5, p_roomId = ''r2'', p_sender = ''Eve'', p_createdAt = 50\<rparr>"
  have n3: "\<not> ws_isAdmin (sock demo 3)" by (simp add: demo_simps)
  have a1: "ws_isAdmin (sock demo 1)" by (simp add: demo_simps)
  have r1: "ws_roomId (sock demo 1) = Some ''r1''" by (simp add: demo_simps)
  have t1: "truthy (ws_roomId (sock demo 1))" by (simp add: demo_simps)
  have p: "pending demo = [(''id1'', ?bob), (''id3'', ?eve)]" by (simp add: demo_simps)
  have zz: "jsmap_get (pending demo) ''zz'' = None" by (simp add: demo_simps)
  have id3: "jsmap_get (pending demo) ''id3'' = Some ?eve" by (simp add: demo_simps)
  have id1: "jsmap_get (pending demo) ''id1'' = Some ?bob" by (simp add: demo_simps)
  have ad: "membersOf (adminsByRoom demo) ''r1'' = [1]" by (simp add: demo_simps)
  have cl: "membersOf (clientsByRoom demo) ''r1'' = [1, 3]" by (simp add: demo_simps)
  have h: "getHistory demo ''r1'' 200 = [\<lparr>h_sender = ''Cy'', h_kind = KText, h_text = Some ''hi'',
      h_fileUrl = None, h_fileMime = None, h_fileName = None, h_ts = 30\<rparr>]" by (simp add: demo_simps)
  have o: "is_open demo 1" "is_open demo 2" "is_open demo 3" by (simp_all add: demo_simps)
  have w1: "approve_deny demo 3 False ''id1'' = send demo 3 (Error ''Not admin'')"
    using approve_admits_requester [of demo 3 "''id1''"] n3 by simp
  have w2: "approve_deny demo 1 False ''zz'' = send demo 1 (Error ''Request not found'')"
    using approve_admits_requester [of demo 1 "''zz''"] a1 t1 zz by simp
  have w3: "approve_deny demo 1 False ''id3'' = send demo 1 (Error ''Wrong room'')"
    using approve_admits_requester [of demo 1 "''id3''" ?eve] a1 t1 r1 id3 by simp
  have w4: "pending (approve_deny demo 1 False ''id1'') = [(''id3'', ?eve)]
    \<and> ws_roomId (sock (approve_deny demo 1 False ''id1'') 2) = Some ''r1''
    \<and> membersOf (clientsByRoom (approve_deny demo 1 False ''id1'')) ''r1'' = [1, 3, 2]
    \<and> send_log (approve_deny demo 1 False ''id1'') = send_log demo @
        [(1, JoinRequestClosed ''id1''), (2, Joined ''r1''),
         (2, History [\<lparr>h_sender = ''Cy'', h_kind = KText, h_text = Some ''hi'', h_fileUrl = None,
                       h_fileMime = None, h_fileName = None, h_ts = 30\<rparr>]),
         (1, System ''Bob joined.''), (3, System ''Bob joined.''), (2, System ''Bob joined.'')]
    \<and> wire (approve_deny demo 1 False ''id1'') = wire demo @
        [(1, JoinRequestClosed ''id1''), (2, Joined ''r1''),
         (2, History [\<lparr>h_sender = ''Cy'', h_kind = KText, h_text = Some ''hi'', h_fileUrl = None,
                       h_fileMime = None, h_fileName = None, h_ts = 30\<rparr>]),
         (1, System ''Bob joined.''), (3, System ''Bob joined.''), (2, System ''Bob joined.'')]"
    using approve_admits_requester [of demo 1 "''id1''" ?bob "''r1''"] a1 r1 id1 p ad cl h o
    by (simp add: Let_def jsmap_delete_def set_add_def)
  from w1 w2 w3 w4 p show ?thesis by blast
qed

section \<open>The history sent on join and on attach\<close>

lemma admin_attach_ok:
  assumes "getRoom s (trim roomId0) = Some room"
    and "bc_compare bc adminPassword (adminPassHash room)"
  shows "admin_attach bc s ws roomId0 adminPassword sender0 =
     broadcastToRoom
       (send (send (send
          ((set_sender (set_roomId (set_isAdmin s ws True) ws (trim roomId0)) ws
              (take 20 (js_or sender0 ''Admin'')))
             \<lparr>adminsByRoom := addTo (adminsByRoom s) (trim roomId0) ws,
              clientsByRoom := addTo (clientsByRoom s) (trim roomId0) ws\<rparr>)
          ws (AdminAttached (trim roomId0) (enabled room)))
          ws (PendingList (pending_list (pending s) (trim roomId0))))
          ws (History (getHistory s (trim roomId0) 200)))
       (trim roomId0) (System (take 20 (js_or sender0 ''Admin'') @ '' (admin) joined.''))"
  using assms by (simp add: admin_attach_eq Let_def getHistory_def)

lemma admin_attach_send_log:
  assumes "getRoom s (trim roomId0) = Some room"
    and "bc_compare bc adminPassword (adminPassHash room)"
  shows "send_log (admin_attach bc s ws roomId0 adminPassword sender0) = send_log s
     @ [(ws, AdminAttached (trim roomId0) (enabled room)),
        (ws, PendingList (pending_list (pending s) (trim roomId0))),
        (ws, History (getHistory s (trim roomId0) 200))]
     @ map (\<lambda>c. (c, System (take 20 (js_or sender0 ''Admin'') @ '' (admin) joined.'')))
         (set_add (membersOf (clientsByRoom s) (trim roomId0)) ws)"
  by (simp add: admin_attach_ok [OF assms] membersOf_addTo)

section \<open>Join requests\<close>

lemma jsmap_get_set [simp]: "jsmap_get (jsmap_set m k v) k = Some v"
  by (induction m) (auto simp add: jsmap_get_def)

lemma jsmap_get_set_other: "k' \<noteq> k \<Longrightarrow> jsmap_get (jsmap_set m k v) k' = jsmap_get m k'"
  by (induction m) (auto simp add: jsmap_get_def)

lemma jsmap_set_fresh: "jsmap_get m k = None \<Longrightarrow> jsmap_set m k v = m @ [(k, v)]"
  by (induction m) (auto simp add: jsmap_get_def split: if_splits)

lemma request_join_ok:
  assumes "getRoom s (trim roomId0) = Some room" and "enabled room"
    and "bc_compare bc pw (roomPassHash room)"
  shows "request_join bc s ws roomId0 pw sender0 mid now0 now1 =
     broadcastToAdmins
       (send ((set_sender s ws (take 20 (js_or sender0 ''User'')))
                \<lparr>pending := jsmap_set (pending s) mid
                    \<lparr>p_ws = ws, p_roomId = trim roomId0, p_sender = take 20 (js_or sender0 ''User''),
                     p_createdAt = now0\<rparr>\<rparr>)
             ws (Waiting mid))
       (trim roomId0) (JoinRequest mid (take 20 (js_or sender0 ''User'')) now1)"
  using assms by (simp add: request_join_eq Let_def)

text \<open>
  Claim C4. \<^verbatim>\<open>request-join\<close> looks the trimmed room id up and fails with
  \<open>Room not found\<close> when there is no such room; else with \<open>Room disabled\<close> when the
  room is disabled, whatever the passphrase; else with \<open>Wrong passkey\<close> when the
  passphrase does not verify; each failure only sends the error to the requester.
  Otherwise the request is stored in the pending map under the identifier \<open>mid\<close> that
  \<^verbatim>\<open>makeId\<close> returned (appended as a new entry when the identifier is fresh), the
  requester is sent \<^verbatim>\<open>waiting\<close>, then \<^verbatim>\<open>join-request\<close> is sent to every admin of
  the room; the room sets and the requester's \<^verbatim>\<open>roomId\<close> do not change.
\<close>

theorem request_join_checks_in_order:
  "(getRoom s (trim roomId0) = None \<longrightarrow>
      request_join bc s ws roomId0 pw sender0 mid now0 now1 = send s ws (Error ''Room not found''))
   \<and> (getRoom s (trim roomId0) = Some room \<and> \<not> enabled room \<longrightarrow>
      request_join bc s ws roomId0 pw sender0 mid now0 now1 = send s ws (Error ''Room disabled''))
   \<and> (getRoom s (trim roomId0) = Some room \<and> enabled room \<and> \<not> bc_compare bc pw (roomPassHash room) \<longrightarrow>
      request_join bc s ws roomId0 pw sender0 mid now0 now1 = send s ws (Error ''Wrong passkey''))
   \<and> (getRoom s (trim roomId0) = Some room \<and> enabled room \<and> bc_compare bc pw (roomPassHash room) \<longrightarrow>
      (let s' = request_join bc s ws roomId0 pw sender0 mid now0 now1;
           sender = take 20 (js_or sender0 ''User'');
           req = \<lparr>p_ws = ws, p_roomId = trim roomId0, p_sender = sender, p_createdAt = now0\<rparr>
       in pending s' = jsmap_set (pending s) mid req
        \<and> jsmap_get (pending s') mid = Some req
        \<and> (jsmap_get (pending s) mid = None \<longrightarrow> pending s' = pending s @ [(mid, req)])
        \<and> send_log s' = send_log s @ [(ws, Waiting mid)]
             @ map (\<lambda>a. (a, JoinRequest mid sender now1)) (membersOf (adminsByRoom s) (trim roomId0))
        \<and> wire s' = wire s @ (if is_open s ws then [(ws, Waiting mid)] else [])
             @ map (\<lambda>a. (a, JoinRequest mid sender now1))
                 (filter (is_open s) (membersOf (adminsByRoom s) (trim roomId0)))
        \<and> sock s' = (sock s)(ws := (sock s ws)\<lparr>ws_sender := sender\<rparr>)
        \<and> ws_roomId (sock s' ws) = ws_roomId (sock s ws)
        \<and> clientsByRoom s' = clientsByRoom s \<and> adminsByRoom s' = adminsByRoom s
        \<and> rooms s' = rooms s \<and> messages s' = messages s))"
proof (intro conjI impI)
  assume "getRoom s (trim roomId0) = Some room \<and> enabled room \<and> bc_compare bc pw (roomPassHash room)"
  then have a: "getRoom s (trim roomId0) = Some room" "enabled room"
    "bc_compare bc pw (roomPassHash room)" by simp_all
  show "let s' = request_join bc s ws roomId0 pw sender0 mid now0 now1;
           sender = take 20 (js_or sender0 ''User'');
           req = \<lparr>p_ws = ws, p_roomId = trim roomId0, p_sender = sender, p_createdAt = now0\<rparr>
       in pending s' = jsmap_set (pending s) mid req
        \<and> jsmap_get (pending s') mid = Some req
        \<and> (jsmap_get (pending s) mid = None \<longrightarrow> pending s' = pending s @ [(mid, req)])
        \<and> send_log s' = send_log s @ [(ws, Waiting mid)]
             @ map (\<lambda>a. (a, JoinRequest mid sender now1)) (membersOf (adminsByRoom s) (trim roomId0))
        \<and> wire s' = wire s @ (if is_open s ws then [(ws, Waiting mid)] else [])
             @ map (\<lambda>a. (a, JoinRequest mid sender now1))
                 (filter (is_open s) (membersOf (adminsByRoom s) (trim roomId0)))
        \<and> sock s' = (sock s)(ws := (sock s ws)\<lparr>ws_sender := sender\<rparr>)
        \<and> ws_roomId (sock s' ws) = ws_roomId (sock s ws)
        \<and> clientsByRoom s' = clientsByRoom s \<and> adminsByRoom s' = adminsByRoom s
        \<and> rooms s' = rooms s \<and> messages s' = messages s"
    unfolding Let_def request_join_ok [OF a]
    by (simp add: jsmap_set_fresh fun_eq_iff)
qed (simp_all add: request_join_eq Let_def)

theorem request_join_checks_in_order_witness:
  "request_join toy_bcrypt demo_disabled 6 ''zz'' ''p'' ''Fay'' ''id4'' 60 61
     = send demo_disabled 6 (Error ''Room not found'')
   \<and> request_join toy_bcrypt demo_disabled 6 ''r2'' ''wrong'' ''Fay'' ''id4'' 60 61
     = send demo_disabled 6 (Error ''Room disabled'')
   \<and> request_join toy_bcrypt demo_disabled 6 ''r1'' ''wrong'' ''Fay'' ''id4'' 60 61
     = send demo_disabled 6 (Error ''Wrong passkey'')
   \<and> pending demo_disabled =
       [(''id1'', \<lparr>p_ws = 2, p_roomId = ''r1'', p_sender = ''Bob'', p_createdAt = 10\<rparr>)]
   \<and> pending (request_join toy_bcrypt demo_disabled 6 '' r1'' ''p'' ''Fay'' ''id4'' 60 61) =
       [(''id1'', \<lparr>p_ws = 2, p_roomId = ''r1'', p_sender = ''Bob'', p_createdAt = 10\<rparr>),
        (''id4'', \<lparr>p_ws = 6, p_roomId = ''r1'', p_sender = ''Fay'', p_createdAt = 60\<rparr>)]
   \<and> send_log (request_join toy_bcrypt demo_disabled 6 '' r1'' ''p'' ''Fay'' ''id4'' 60 61) =
       send_log demo_disabled @ [(6, Waiting ''id4''), (1, JoinRequest ''id4'' ''Fay'' 61)]
   \<and> wire (request_join toy_bcrypt demo_disabled 6 '' r1'' ''p'' ''Fay'' ''id4'' 60 61) =
       wire demo_disabled @ [(6, Waiting ''id4''), (1, JoinRequest ''id4'' ''Fay'' 61)]
   \<and> ws_roomId (sock (request_join toy_bcrypt demo_disabled 6 '' r1'' ''p'' ''Fay'' ''id4'' 60 61) 6) = None"
proof -
  let ?r1 = "\<lparr>roomPassHash = ''$2a$p'', adminPassHash = ''$2a$a'', enabled = True\<rparr>"
  let ?r2 = "\<lparr>roomPassHash = ''$2a$q'', adminPassHash = ''$2a$b'', enabled = False\<rparr>"
  note t = request_join_checks_in_order [where s = demo_disabled and bc = toy_bcrypt and ws = 6
      and ?sender0.0 = "''Fay''" and mid = "''id4''" and ?now0.0 = 60 and ?now1.0 = 61]
  have zz: "getRoom demo_disabled (trim ''zz'') = None" by code_simp
  have r2: "getRoom demo_disabled (trim ''r2'') = Some ?r2" by code_simp
  have r1: "getRoom demo_disabled (trim ''r1'') = Some ?r1" by code_simp
  have r1': "getRoom demo_disabled (trim '' r1'') = Some ?r1" by code_simp
  have tr: "trim '' r1'' = ''r1''" by code_simp
  have bad: "\<not> bc_compare toy_bcrypt ''wrong'' (roomPassHash ?r1)" by (simp add: demo_simps)
  have good: "bc_compare toy_bcrypt ''p'' (roomPassHash ?r1)" by (simp add: demo_simps)
  have p: "pending demo_disabled =
       [(''id1'', \<lparr>p_ws = 2, p_roomId = ''r1'', p_sender = ''Bob'', p_createdAt = 10\<rparr>)]" by code_simp
  have fresh: "jsmap_get (pending demo_disabled) ''id4'' = None" by code_simp
  have ad: "membersOf (adminsByRoom demo_disabled) ''r1'' = [1]" by code_simp
  have o: "is_open demo_disabled 1" "is_open demo_disabled 6" by code_simp+
  from o have o': "is_open demo_disabled (Suc 0)" by simp
  have rid: "ws_roomId (sock demo_disabled 6) = None" by code_simp
  have w1: "request_join toy_bcrypt demo_disabled 6 ''zz'' ''p'' ''Fay'' ''id4'' 60 61
     = send demo_disabled 6 (Error ''Room not found'')"
    using t [where ?roomId0.0 = "''zz''" and pw = "''p''"] zz by blast
  have w2: "request_join toy_bcrypt demo_disabled 6 ''r2'' ''wrong'' ''Fay'' ''id4'' 60 61
     = send demo_disabled 6 (Error ''Room disabled'')"
    using t [where ?roomId0.0 = "''r2''" and pw = "''wrong''" and room = ?r2] r2 by simp
  have w3: "request_join toy_bcrypt demo_disabled 6 ''r1'' ''wrong'' ''Fay'' ''id4'' 60 61
     = send demo_disabled 6 (Error ''Wrong passkey'')"
    using t [where ?roomId0.0 = "''r1''" and pw = "''wrong''" and room = ?r1] r1 bad by simp
  have w4: "pending (request_join toy_bcrypt demo_disabled 6 '' r1'' ''p'' ''Fay'' ''id4'' 60 61) =
       [(''id1'', \<lparr>p_ws = 2, p_roomId = ''r1'', p_sender = ''Bob'', p_createdAt = 10\<rparr>),
        (''id4'', \<lparr>p_ws = 6, p_roomId = ''r1'', p_sender = ''Fay'', p_createdAt = 60\<rparr>)]
   \<and> send_log (request_join toy_bcrypt demo_disabled 6 '' r1'' ''p'' ''Fay'' ''id4'' 60 61) =
       send_log demo_disabled @ [(6, Waiting ''id4''), (1, JoinRequest ''id4'' ''Fay'' 61)]
   \<and> wire (request_join toy_bcrypt demo_disabled 6 '' r1'' ''p'' ''Fay'' ''id4'' 60 61) =
       wire demo_disabled @ [(6, Waiting ''id4''), (1, JoinRequest ''id4'' ''Fay'' 61)]
   \<and> ws_roomId (sock (request_join toy_bcrypt demo_disabled 6 '' r1'' ''p'' ''Fay'' ''id4'' 60 61) 6) = None"
    using t [where ?roomId0.0 = "'' r1''" and pw = "''p''" and room = ?r1] r1' good fresh
    by (simp add: Let_def tr p ad o o' rid js_or_def)
  from w1 w2 w3 w4 p show ?thesis by blast
qed

section \<open>Chat messages\<close>





lemma addText_frame [simp]:
  "rooms (addText s r a b t) = rooms s"
  "uploads (addText s r a b t) = uploads s"
  "clientsByRoom (addText s r a b t) = clientsByRoom s"
  "adminsByRoom (addText s r a b t) = adminsByRoom s"
  "pending (addText s r a b t) = pending s"
  "sock (addText s r a b t) = sock s"
  "send_log (addText s r a b t) = send_log s"
  "wire (addText s r a b t) = wire s"
  "is_open (addText s r a b t) = is_open s"
  by (simp_all add: addText_def is_open_def fun_eq_iff)

lemma addFile_frame [simp]:
  "rooms (addFile s r a b c d t) = rooms s"
  "uploads (addFile s r a b c d t) = uploads s"
  "clientsByRoom (addFile s r a b c d t) = clientsByRoom s"
  "adminsByRoom (addFile s r a b c d t) = adminsByRoom s"
  "pending (addFile s r a b c d t) = pending s"
  "sock (addFile s r a b c d t) = sock s"
  "send_log (addFile s r a b c d t) = send_log s"
  "wire (addFile s r a b c d t) = wire s"
  "is_open (addFile s r a b c d t) = is_open s"
  by (simp_all add: addFile_def is_open_def fun_eq_iff)




section \<open>Uploads\<close>

lemma upload_rejects_without_record:
  "\<not> isOk (f_mimetype f) \<Longrightarrow>
   messages (fst (upload bc extname s (Some f) roomId pw sender now0)) = messages s
   \<and> send_log (fst (upload bc extname s (Some f) roomId pw sender now0)) = send_log s
   \<and> fst (snd (upload bc extname s (Some f) roomId pw sender now0)) \<noteq> 200"
  by (simp add: upload_eq isOk_def Let_def split: option.split)

lemma upload_bad_type:
  "roomId \<noteq> [] \<Longrightarrow> pw \<noteq> [] \<Longrightarrow> getRoom s roomId = Some room \<Longrightarrow> enabled room \<Longrightarrow>
   bc_compare bc pw (roomPassHash room) \<Longrightarrow> \<not> isOk (f_mimetype f) \<Longrightarrow>
   upload bc extname s (Some f) roomId pw sender now0 =
     (s\<lparr>uploads := uploads s - {f_filename f}\<rparr>, (400, Err ''Only image/video/audio allowed''))"
  by (simp add: upload_eq isOk_def Let_def unlinkSync_def)

lemma upload_ok:
  "roomId \<noteq> [] \<Longrightarrow> pw \<noteq> [] \<Longrightarrow> getRoom s roomId = Some room \<Longrightarrow> enabled room \<Longrightarrow>
   bc_compare bc pw (roomPassHash room) \<Longrightarrow> isOk (f_mimetype f) \<Longrightarrow>
   upload bc extname s (Some f) roomId pw sender now0 =
     (broadcastToAdmins
        (broadcastToRoom
           (addFile (s\<lparr>uploads := renameSync (uploads s) (f_filename f)
                                    (f_filename f @ take 10 (extname (js_or (f_originalname f) ''file'')))\<rparr>)
              roomId (take 20 (js_or sender ''User''))
              (''/uploads/'' @ f_filename f @ take 10 (extname (js_or (f_originalname f) ''file'')))
              (toLowerCase (f_mimetype f)) (js_or (f_originalname f) ''file'') now0)
           roomId
           (FileMsg (take 20 (js_or sender ''User''))
              (''/uploads/'' @ f_filename f @ take 10 (extname (js_or (f_originalname f) ''file'')))
              (toLowerCase (f_mimetype f)) (js_or (f_originalname f) ''file'')))
        roomId
        (FileMsg (take 20 (js_or sender ''User''))
           (''/uploads/'' @ f_filename f @ take 10 (extname (js_or (f_originalname f) ''file'')))
           (toLowerCase (f_mimetype f)) (js_or (f_originalname f) ''file'')),
      (200, OkUrl (''/uploads/'' @ f_filename f @ take 10 (extname (js_or (f_originalname f) ''file'')))))"
  by (simp add: upload_eq isOk_def Let_def)

text \<open>
  Claim C9, as stated, fails: the handler compares the lower-cased media type. An upload
  into room \<open>r1\<close> with the right passphrase and the declared type \<open>IMAGE/PNG\<close>, which
  begins with none of the three prefixes, is accepted and recorded.
\<close>

theorem upload_upper_case_type_accepted:
  "\<not> startsWith (f_mimetype demo_PNG) ''image/'' \<and> \<not> startsWith (f_mimetype demo_PNG) ''video/''
   \<and> \<not> startsWith (f_mimetype demo_PNG) ''audio/''
   \<and> snd (upload toy_bcrypt toy_extname (multer_single demo (Some demo_PNG)) (Some demo_PNG)
             ''r1'' ''p'' ''Bob'' 80) = (200, OkUrl ''/uploads/4e5f.png'')
   \<and> messages (fst (upload toy_bcrypt toy_extname (multer_single demo (Some demo_PNG)) (Some demo_PNG)
             ''r1'' ''p'' ''Bob'' 80)) = messages demo @
        [(''r1'', \<lparr>h_sender = ''Bob'', h_kind = KFile, h_text = None,
                   h_fileUrl = Some ''/uploads/4e5f.png'', h_fileMime = Some ''image/png'',
                   h_fileName = Some ''cat.png'', h_ts = 80\<rparr>)]"
  by code_simp

text \<open>
  Claim C9, amended. An upload whose lower-cased media type begins with none of
  \<open>image/\<close>, \<open>video/\<close> and \<open>audio/\<close> never creates a message record, sends nothing
  and is not answered 200. When it has passed the checks that come first (room id and
  passphrase present, room found and enabled, passphrase verified) it is answered 400
  \<open>Only image/video/audio allowed\<close> and its blob is deleted from the upload directory,
  nothing else changing. An upload that passes the checks and the media type test is
  recorded and broadcast, to the members and then the admins of the room, under the
  sender name cut to its first 20 characters (\<open>User\<close> when none is given).
\<close>

theorem upload_media_type_check:
  "(\<not> isOk (f_mimetype f) \<longrightarrow>
      messages (fst (upload bc extname s (Some f) roomId pw sender now0)) = messages s
      \<and> send_log (fst (upload bc extname s (Some f) roomId pw sender now0)) = send_log s
      \<and> fst (snd (upload bc extname s (Some f) roomId pw sender now0)) \<noteq> 200)
   \<and> (roomId \<noteq> [] \<and> pw \<noteq> [] \<and> getRoom s roomId = Some room \<and> enabled room
       \<and> bc_compare bc pw (roomPassHash room) \<and> \<not> isOk (f_mimetype f) \<longrightarrow>
      upload bc extname s (Some f) roomId pw sender now0 =
        (s\<lparr>uploads := uploads s - {f_filename f}\<rparr>, (400, Err ''Only image/video/audio allowed''))
      \<and> f_filename f \<notin> uploads (fst (upload bc extname s (Some f) roomId pw sender now0)))
   \<and> (roomId \<noteq> [] \<and> pw \<noteq> [] \<and> getRoom s roomId = Some room \<and> enabled room
       \<and> bc_compare bc pw (roomPassHash room) \<and> isOk (f_mimetype f) \<longrightarrow>
      (let res = upload bc extname s (Some f) roomId pw sender now0;
           safeSender = take 20 (js_or sender ''User'');
           original = js_or (f_originalname f) ''file'';
           fileUrl = ''/uploads/'' @ f_filename f @ take 10 (extname original);
           mime = toLowerCase (f_mimetype f)
       in snd res = (200, OkUrl fileUrl)
        \<and> length safeSender \<le> 20
        \<and> messages (fst res) = messages s @
            [(roomId, \<lparr>h_sender = safeSender, h_kind = KFile, h_text = None,
                       h_fileUrl = Some fileUrl, h_fileMime = Some mime,
                       h_fileName = Some original, h_ts = now0\<rparr>)]
        \<and> send_log (fst res) = send_log s
             @ map (\<lambda>c. (c, FileMsg safeSender fileUrl mime original)) (membersOf (clientsByRoom s) roomId)
             @ map (\<lambda>a. (a, FileMsg safeSender fileUrl mime original)) (membersOf (adminsByRoom s) roomId)
        \<and> wire (fst res) = wire s
             @ map (\<lambda>c. (c, FileMsg safeSender fileUrl mime original))
                 (filter (is_open s) (membersOf (clientsByRoom s) roomId))
             @ map (\<lambda>a. (a, FileMsg safeSender fileUrl mime original))
                 (filter (is_open s) (membersOf (adminsByRoom s) roomId))))"
proof (intro conjI impI)
  assume "\<not> isOk (f_mimetype f)"
  note r = upload_rejects_without_record [OF this]
  from r show "messages (fst (upload bc extname s (Some f) roomId pw sender now0)) = messages s"
    by blast
  from r show "send_log (fst (upload bc extname s (Some f) roomId pw sender now0)) = send_log s"
    by blast
  from r show "fst (snd (upload bc extname s (Some f) roomId pw sender now0)) \<noteq> 200"
    by blast
next
  assume "roomId \<noteq> [] \<and> pw \<noteq> [] \<and> getRoom s roomId = Some room \<and> enabled room
       \<and> bc_compare bc pw (roomPassHash room) \<and> \<not> isOk (f_mimetype f)"
  then have a: "roomId \<noteq> []" "pw \<noteq> []" "getRoom s roomId = Some room" "enabled room"
    "bc_compare bc pw (roomPassHash room)" "\<not> isOk (f_mimetype f)" by simp_all
  show "upload bc extname s (Some f) roomId pw sender now0 =
        (s\<lparr>uploads := uploads s - {f_filename f}\<rparr>, (400, Err ''Only image/video/audio allowed''))"
    by (rule upload_bad_type [OF a])
  show "f_filename f \<notin> uploads (fst (upload bc extname s (Some f) roomId pw sender now0))"
    by (simp add: upload_bad_type [OF a])
next
  assume "roomId \<noteq> [] \<and> pw \<noteq> [] \<and> getRoom s roomId = Some room \<and> enabled room
       \<and> bc_compare bc pw (roomPassHash room) \<and> isOk (f_mimetype f)"
  then have a: "roomId \<noteq> []" "pw \<noteq> []" "getRoom s roomId = Some room" "enabled room"
    "bc_compare bc pw (roomPassHash room)" "isOk (f_mimetype f)" by simp_all
  show "let res = upload bc extname s (Some f) roomId pw sender now0;
           safeSender = take 20 (js_or sender ''User'');
           original = js_or (f_originalname f) ''file'';
           fileUrl = ''/uploads/'' @ f_filename f @ take 10 (extname original);
           mime = toLowerCase (f_mimetype f)
       in snd res = (200, OkUrl fileUrl)
        \<and> length safeSender \<le> 20
        \<and> messages (fst res) = messages s @
            [(roomId, \<lparr>h_sender = safeSender, h_kind = KFile, h_text = None,
                       h_fileUrl = Some fileUrl, h_fileMime = Some mime,
                       h_fileName = Some original, h_ts = now0\<rparr>)]
        \<and> send_log (fst res) = send_log s
             @ map (\<lambda>c. (c, FileMsg safeSender fileUrl mime original)) (membersOf (clientsByRoom s) roomId)
             @ map (\<lambda>a. (a, FileMsg safeSender fileUrl mime original)) (membersOf (adminsByRoom s) roomId)
        \<and> wire (fst res) = wire s
             @ map (\<lambda>c. (c, FileMsg safeSender fileUrl mime original))
                 (filter (is_open s) (membersOf (clientsByRoom s) roomId))
             @ map (\<lambda>a. (a, FileMsg safeSender fileUrl mime original))
                 (filter (is_open s) (membersOf (adminsByRoom s) roomId))"
    unfolding Let_def upload_ok [OF a]
    by (simp add: addFile_def)
qed

theorem upload_media_type_check_witness:
  "\<not> isOk (f_mimetype demo_pdf)
   \<and> fst (snd (upload toy_bcrypt toy_extname (multer_single demo (Some demo_pdf)) (Some demo_pdf)
                 ''r1'' ''wrong'' ''Bob'' 80)) \<noteq> 200
   \<and> messages (fst (upload toy_bcrypt toy_extname (multer_single demo (Some demo_pdf)) (Some demo_pdf)
                 ''r1'' ''wrong'' ''Bob'' 80)) = messages demo
   \<and> f_filename demo_pdf \<in> uploads (multer_single demo (Some demo_pdf))
   \<and> snd (upload toy_bcrypt toy_extname (multer_single demo (Some demo_pdf)) (Some demo_pdf)
                 ''r1'' ''p'' ''Bob'' 80) = (400, Err ''Only image/video/audio allowed'')
   \<and> f_filename demo_pdf \<notin> uploads (fst (upload toy_bcrypt toy_extname
                 (multer_single demo (Some demo_pdf)) (Some demo_pdf) ''r1'' ''p'' ''Bob'' 80))
   \<and> messages (fst (upload toy_bcrypt toy_extname (multer_single demo (Some demo_pdf)) (Some demo_pdf)
                 ''r1'' ''p'' ''Bob'' 80)) = messages demo
   \<and> isOk (f_mimetype demo_png)
   \<and> snd (upload toy_bcrypt toy_extname (multer_single demo (Some demo_png)) (Some demo_png)
             ''r1'' ''p'' ''A name of more than twenty characters'' 80)
       = (200, OkUrl ''/uploads/2c3d.png'')
   \<and> messages (fst (upload toy_bcrypt toy_extname (multer_single demo (Some demo_png)) (Some demo_png)
             ''r1'' ''p'' ''A name of more than twenty characters'' 80)) = messages demo @
        [(''r1'', \<lparr>h_sender = ''A name of more than '', h_kind = KFile, h_text = None,
                   h_fileUrl = Some ''/uploads/2c3d.png'', h_fileMime = Some ''image/png'',
                   h_fileName = Some ''cat.png'', h_ts = 80\<rparr>)]
   \<and> send_log (fst (upload toy_bcrypt toy_extname (multer_single demo (Some demo_png)) (Some demo_png)
             ''r1'' ''p'' ''A name of more than twenty characters'' 80)) = send_log demo @
        [(1, FileMsg ''A name of more than '' ''/uploads/2c3d.png'' ''image/png'' ''cat.png''),
         (3, FileMsg ''A name of more than '' ''/uploads/2c3d.png'' ''image/png'' ''cat.png''),
         (1, FileMsg ''A name of more than '' ''/uploads/2c3d.png'' ''image/png'' ''cat.png'')]"
proof -
  let ?r1 = "\<lparr>roomPassHash = ''$2a$p'', adminPassHash = ''$2a$a'', enabled = True\<rparr>"
  let ?s1 = "multer_single demo (Some demo_pdf)"
  let ?s2 = "multer_single demo (Some demo_png)"
  let ?long = "''A name of more than twenty characters''"
  have bad: "\<not> isOk (f_mimetype demo_pdf)" by code_simp
  have good: "isOk (f_mimetype demo_png)" by code_simp
  have g1: "getRoom ?s1 ''r1'' = Some ?r1" by code_simp
  have g2: "getRoom ?s2 ''r1'' = Some ?r1" by code_simp
  have cmp: "bc_compare toy_bcrypt ''p'' (roomPassHash ?r1)" by (simp add: demo_simps)
  have m1: "messages ?s1 = messages demo" by (simp add: multer_single_def)
  have m2: "messages ?s2 = messages demo" by (simp add: multer_single_def)
  have l2: "send_log ?s2 = send_log demo" by (simp add: multer_single_def)
  have c2: "membersOf (clientsByRoom ?s2) ''r1'' = [1, 3]" by code_simp
  have a2: "membersOf (adminsByRoom ?s2) ''r1'' = [1]" by code_simp
  have stored: "f_filename demo_pdf \<in> uploads ?s1" by (simp add: multer_single_def)
  have nm: "take 20 (js_or ?long ''User'') = ''A name of more than ''" by code_simp
  have url: "f_filename demo_png = ''2c3d''" "take 10 (toy_extname ''cat.png'') = ''.png''"
    by code_simp+
  have orig: "js_or (f_originalname demo_png) ''file'' = ''cat.png''" by code_simp
  have low: "toLowerCase (f_mimetype demo_png) = ''image/png''" by code_simp
  have w1: "fst (snd (upload toy_bcrypt toy_extname ?s1 (Some demo_pdf) ''r1'' ''wrong'' ''Bob'' 80)) \<noteq> 200
     \<and> messages (fst (upload toy_bcrypt toy_extname ?s1 (Some demo_pdf) ''r1'' ''wrong'' ''Bob'' 80))
         = messages demo"
    using upload_media_type_check [where f = demo_pdf and s = ?s1 and bc = toy_bcrypt
        and extname = toy_extname and roomId = "''r1''" and pw = "''wrong''" and sender = "''Bob''"
        and ?now0.0 = 80] bad m1
    by simp
  have w2: "snd (upload toy_bcrypt toy_extname ?s1 (Some demo_pdf) ''r1'' ''p'' ''Bob'' 80)
       = (400, Err ''Only image/video/audio allowed'')
     \<and> f_filename demo_pdf \<notin> uploads (fst (upload toy_bcrypt toy_extname ?s1 (Some demo_pdf)
           ''r1'' ''p'' ''Bob'' 80))
     \<and> messages (fst (upload toy_bcrypt toy_extname ?s1 (Some demo_pdf) ''r1'' ''p'' ''Bob'' 80))
         = messages demo"
    using upload_media_type_check [where f = demo_pdf and s = ?s1 and bc = toy_bcrypt
        and extname = toy_extname and roomId = "''r1''" and pw = "''p''" and sender = "''Bob''"
        and ?now0.0 = 80 and room = ?r1] bad g1 cmp m1
    by simp
  have w3: "snd (upload toy_bcrypt toy_extname ?s2 (Some demo_png) ''r1'' ''p'' ?long 80)
       = (200, OkUrl ''/uploads/2c3d.png'')
   \<and> messages (fst (upload toy_bcrypt toy_extname ?s2 (Some demo_png) ''r1'' ''p'' ?long 80))
       = messages demo @
        [(''r1'', \<lparr>h_sender = ''A name of more than '', h_kind = KFile, h_text = None,
                   h_fileUrl = Some ''/uploads/2c3d.png'', h_fileMime = Some ''image/png'',
                   h_fileName = Some ''cat.png'', h_ts = 80\<rparr>)]
   \<and> send_log (fst (upload toy_bcrypt toy_extname ?s2 (Some demo_png) ''r1'' ''p'' ?long 80))
       = send_log demo @
        [(1, FileMsg ''A name of more than '' ''/uploads/2c3d.png'' ''image/png'' ''cat.png''),
         (3, FileMsg ''A name of more than '' ''/uploads/2c3d.png'' ''image/png'' ''cat.png''),
         (1, FileMsg ''A name of more than '' ''/uploads/2c3d.png'' ''image/png'' ''cat.png'')]"
    using upload_media_type_check [where f = demo_png and s = ?s2 and bc = toy_bcrypt
        and extname = toy_extname and roomId = "''r1''" and pw = "''p''" and sender = ?long
        and ?now0.0 = 80 and room = ?r1] good g2 cmp
    by (simp add: Let_def m2 l2 c2 a2 nm url orig low)
  from bad good stored w1 w2 w3 show ?thesis by blast
qed

section \<open>Kicking a room and denying its pending requests\<close>

lemma kick_each_frame [simp]:
  "rooms (kick_each s xs reason) = rooms s"
  "messages (kick_each s xs reason) = messages s"
  "uploads (kick_each s xs reason) = uploads s"
  "clientsByRoom (kick_each s xs reason) = clientsByRoom s"
  "adminsByRoom (kick_each s xs reason) = adminsByRoom s"
  "pending (kick_each s xs reason) = pending s"
  by (induction xs arbitrary: s; simp)+

lemma send_log_kick_each [simp]:
  "send_log (kick_each s xs reason) = send_log s @ map (\<lambda>c. (c, Kicked reason)) xs"
  by (induction xs arbitrary: s) simp_all

lemma sock_kick_each [simp]:
  "ws_roomId (sock (kick_each s xs reason) c) = ws_roomId (sock s c)"
  "ws_sender (sock (kick_each s xs reason) c) = ws_sender (sock s c)"
  "ws_isAdmin (sock (kick_each s xs reason) c) = ws_isAdmin (sock s c)"
  by (induction xs arbitrary: s; simp)+

lemma readyState_kick_each:
  "ws_readyState (sock (kick_each s xs reason) c) =
     (if c \<in> set xs \<and> ws_readyState (sock s c) = OPEN then CLOSING else ws_readyState (sock s c))"
  by (induction xs arbitrary: s) auto

lemma is_open_kick_each [simp]:
  "is_open (kick_each s xs reason) c = (c \<notin> set xs \<and> is_open s c)"
  by (auto simp add: is_open_def readyState_kick_each)

lemma wire_kick_each:
  "distinct xs \<Longrightarrow>
   wire (kick_each s xs reason) = wire s @ map (\<lambda>c. (c, Kicked reason)) (filter (is_open s) xs)"
proof (induction xs arbitrary: s)
  case Nil
  then show ?case by simp
next
  case (Cons x xs)
  have "filter (is_open (ws_close (send s x (Kicked reason)) x)) xs = filter (is_open s) xs"
    using Cons.prems by (intro filter_cong) auto
  with Cons show ?case by simp
qed

lemma wire_mono_kick_each: "set (wire s) \<subseteq> set (wire (kick_each s xs reason))"
proof (induction xs arbitrary: s)
  case Nil
  then show ?case by simp
next
  case (Cons x xs)
  have "set (wire s) \<subseteq> set (wire (ws_close (send s x (Kicked reason)) x))" by auto
  also have "\<dots> \<subseteq> set (wire (kick_each (ws_close (send s x (Kicked reason)) x) xs reason))"
    by (rule Cons.IH)
  finally show ?case by simp
qed

lemma kicked_on_wire:
  "c \<in> set xs \<Longrightarrow> is_open s c \<Longrightarrow> (c, Kicked reason) \<in> set (wire (kick_each s xs reason))"
proof (induction xs arbitrary: s)
  case Nil
  then show ?case by simp
next
  case (Cons x xs)
  show ?case
  proof (cases "x = c")
    case True
    with Cons.prems have "(c, Kicked reason) \<in> set (wire (ws_close (send s x (Kicked reason)) x))"
      by simp
    with wire_mono_kick_each show ?thesis by fastforce
  next
    case False
    with Cons.prems have "c \<in> set xs" "is_open (ws_close (send s x (Kicked reason)) x) c"
      by auto
    from Cons.IH [OF this] show ?thesis by simp
  qed
qed

lemma kickRoom_frame [simp]:
  "rooms (kickRoom s r reason) = rooms s"
  "messages (kickRoom s r reason) = messages s"
  "uploads (kickRoom s r reason) = uploads s"
  "adminsByRoom (kickRoom s r reason) = adminsByRoom s"
  "pending (kickRoom s r reason) = pending s"
  by (simp_all add: kickRoom_def Let_def split: option.split)

lemma clientsByRoom_kickRoom [simp]:
  "clientsByRoom (kickRoom s r reason) = (clientsByRoom s)(r := None)"
  by (auto simp add: kickRoom_def Let_def fun_eq_iff split: option.split)

lemma send_log_kickRoom [simp]:
  "send_log (kickRoom s r reason) =
     send_log s @ map (\<lambda>c. (c, Kicked reason)) (membersOf (clientsByRoom s) r)"
  by (simp add: kickRoom_def Let_def membersOf_def split: option.split)

lemma sock_kickRoom [simp]:
  "ws_roomId (sock (kickRoom s r reason) c) = ws_roomId (sock s c)"
  "ws_sender (sock (kickRoom s r reason) c) = ws_sender (sock s c)"
  "ws_isAdmin (sock (kickRoom s r reason) c) = ws_isAdmin (sock s c)"
  by (simp_all add: kickRoom_def Let_def split: option.split)

lemma readyState_kickRoom:
  "ws_readyState (sock (kickRoom s r reason) c) =
     (if c \<in> set (membersOf (clientsByRoom s) r) \<and> ws_readyState (sock s c) = OPEN
      then CLOSING else ws_readyState (sock s c))"
  by (simp add: kickRoom_def Let_def membersOf_def readyState_kick_each split: option.split)

lemma is_open_kickRoom [simp]:
  "is_open (kickRoom s r reason) c = (c \<notin> set (membersOf (clientsByRoom s) r) \<and> is_open s c)"
  by (auto simp add: is_open_def readyState_kickRoom)

lemma wire_mono_kickRoom: "set (wire s) \<subseteq> set (wire (kickRoom s r reason))"
  using wire_mono_kick_each by (simp add: kickRoom_def Let_def split: option.split)

lemma kicked_on_wire_kickRoom:
  "c \<in> set (membersOf (clientsByRoom s) r) \<Longrightarrow> is_open s c \<Longrightarrow>
   (c, Kicked reason) \<in> set (wire (kickRoom s r reason))"
  by (auto simp add: kickRoom_def Let_def membersOf_def kicked_on_wire split: option.splits)

text \<open>The loop over the pending entries.\<close>

lemma deny_each_frame [simp]:
  "rooms (deny_each s es r reason) = rooms s"
  "messages (deny_each s es r reason) = messages s"
  "uploads (deny_each s es r reason) = uploads s"
  "clientsByRoom (deny_each s es r reason) = clientsByRoom s"
  "adminsByRoom (deny_each s es r reason) = adminsByRoom s"
  by (induction es arbitrary: s; simp add: Let_def)+

lemma sock_deny_each [simp]:
  "ws_roomId (sock (deny_each s es r reason) c) = ws_roomId (sock s c)"
  "ws_sender (sock (deny_each s es r reason) c) = ws_sender (sock s c)"
  "ws_isAdmin (sock (deny_each s es r reason) c) = ws_isAdmin (sock s c)"
  by (induction es arbitrary: s; simp add: Let_def)+

lemma send_log_deny_each [simp]:
  "send_log (deny_each s es r reason) =
     send_log s @ map (\<lambda>e. (p_ws (snd e), Error reason)) (filter (\<lambda>e. p_roomId (snd e) = r) es)"
  by (induction es arbitrary: s) (simp_all add: Let_def)

lemma pending_deny_each:
  "pending (deny_each s es r reason) =
     filter (\<lambda>e. fst e \<notin> fst ` {x \<in> set es. p_roomId (snd x) = r}) (pending s)"
proof (induction es arbitrary: s)
  case Nil
  then show ?case by simp
next
  case (Cons e es)
  show ?case
    apply (simp add: Cons.IH Let_def jsmap_delete_def)
    apply (intro conjI impI filter_cong refl)
     apply auto
    done
qed

lemma readyState_deny_each:
  "ws_readyState (sock (deny_each s es r reason) c) =
     (if c \<in> p_ws ` snd ` {x \<in> set es. p_roomId (snd x) = r} \<and> ws_readyState (sock s c) = OPEN
      then CLOSING else ws_readyState (sock s c))"
  by (induction es arbitrary: s) (auto simp add: Let_def)

lemma is_open_deny_each [simp]:
  "is_open (deny_each s es r reason) c =
     (c \<notin> p_ws ` snd ` {x \<in> set es. p_roomId (snd x) = r} \<and> is_open s c)"
  by (auto simp add: is_open_def readyState_deny_each)

lemma wire_mono_deny_each: "set (wire s) \<subseteq> set (wire (deny_each s es r reason))"
proof (induction es arbitrary: s)
  case Nil
  then show ?case by simp
next
  case (Cons x es)
  let ?s1 = "if p_roomId (snd x) = r
        then (let s1 = send s (p_ws (snd x)) (Error reason);
                  s2 = ws_close s1 (p_ws (snd x))
              in s2\<lparr>pending := jsmap_delete (pending s2) (fst x)\<rparr>)
        else s"
  have "set (wire s) \<subseteq> set (wire ?s1)" by (auto simp add: Let_def)
  also have "\<dots> \<subseteq> set (wire (deny_each ?s1 es r reason))"
    by (rule Cons.IH)
  finally show ?case by simp
qed

lemma denied_on_wire:
  "e \<in> set es \<Longrightarrow> p_roomId (snd e) = r \<Longrightarrow> is_open s (p_ws (snd e)) \<Longrightarrow>
   (p_ws (snd e), Error reason) \<in> set (wire (deny_each s es r reason))"
proof (induction es arbitrary: s)
  case Nil
  then show ?case by simp
next
  case (Cons x es)
  let ?s1 = "if p_roomId (snd x) = r
        then (let s1 = send s (p_ws (snd x)) (Error reason);
                  s2 = ws_close s1 (p_ws (snd x))
              in s2\<lparr>pending := jsmap_delete (pending s2) (fst x)\<rparr>)
        else s"
  show ?case
  proof (cases "p_roomId (snd x) = r \<and> p_ws (snd x) = p_ws (snd e)")
    case True
    with Cons.prems have "(p_ws (snd e), Error reason) \<in> set (wire ?s1)"
      by (simp add: Let_def)
    with wire_mono_deny_each [of ?s1 es r reason] show ?thesis by auto
  next
    case False
    with Cons.prems have "e \<in> set es" by auto
    moreover from False Cons.prems have "is_open ?s1 (p_ws (snd e))"
      by (auto simp add: Let_def)
    ultimately show ?thesis using Cons.IH [of ?s1] Cons.prems by simp
  qed
qed

section \<open>What the handlers leave alone\<close>

lemma abandon_each_frame [simp]:
  "rooms (abandon_each s es ws) = rooms s"
  "messages (abandon_each s es ws) = messages s"
  "uploads (abandon_each s es ws) = uploads s"
  "clientsByRoom (abandon_each s es ws) = clientsByRoom s"
  "adminsByRoom (abandon_each s es ws) = adminsByRoom s"
  "sock (abandon_each s es ws) = sock s"
  by (induction es arbitrary: s; simp)+

lemma is_open_abandon_each [simp]: "is_open (abandon_each s es ws) = is_open s"
  by (rule ext) (simp add: is_open_def)

lemma pending_abandon_each:
  "pending (abandon_each s es ws) =
     filter (\<lambda>e. fst e \<notin> fst ` {x \<in> set es. p_ws (snd x) = ws}) (pending s)"
proof (induction es arbitrary: s)
  case Nil
  then show ?case by simp
next
  case (Cons e es)
  show ?case
    apply (simp add: Cons.IH jsmap_delete_def)
    apply (intro conjI impI filter_cong refl)
     apply auto
    done
qed

lemma rooms_setRoomEnabled:
  "rooms (setRoomEnabled s r en) r' =
     (if r' = r then map_option (\<lambda>room. room\<lparr>enabled := en\<rparr>) (rooms s r) else rooms s r')"
  by (simp add: setRoomEnabled_def split: option.split)

lemma setRoomEnabled_frame [simp]:
  "messages (setRoomEnabled s r en) = messages s"
  "uploads (setRoomEnabled s r en) = uploads s"
  "clientsByRoom (setRoomEnabled s r en) = clientsByRoom s"
  "adminsByRoom (setRoomEnabled s r en) = adminsByRoom s"
  "pending (setRoomEnabled s r en) = pending s"
  "sock (setRoomEnabled s r en) = sock s"
  "send_log (setRoomEnabled s r en) = send_log s"
  "wire (setRoomEnabled s r en) = wire s"
  "is_open (setRoomEnabled s r en) = is_open s"
  by (simp_all add: setRoomEnabled_def is_open_def fun_eq_iff split: option.split)

lemma clearChat_frame [simp]:
  "rooms (clearChat s r) = rooms s"
  "uploads (clearChat s r) = uploads s"
  "clientsByRoom (clearChat s r) = clientsByRoom s"
  "adminsByRoom (clearChat s r) = adminsByRoom s"
  "pending (clearChat s r) = pending s"
  "sock (clearChat s r) = sock s"
  "send_log (clearChat s r) = send_log s"
  "wire (clearChat s r) = wire s"
  "is_open (clearChat s r) = is_open s"
  by (simp_all add: clearChat_def is_open_def fun_eq_iff)

lemma rooms_admin_attach [simp]: "rooms (admin_attach bc s ws a b c) = rooms s"
  by (simp add: admin_attach_eq Let_def split: option.split)

lemma rooms_request_join [simp]: "rooms (request_join bc s ws a b c mid n0 n1) = rooms s"
  by (simp add: request_join_eq Let_def split: option.split)

lemma rooms_approve_deny [simp]: "rooms (approve_deny s ws d rid) = rooms s"
  by (simp add: approve_deny_eq Let_def split: option.split)

lemma rooms_chat [simp]: "rooms (chat s ws t n0 n1 n2) = rooms s"
  by (simp add: chat_eq Let_def split: option.split)

lemma rooms_on_message [simp]: "rooms (on_message bc s ws msg mid n0 n1 n2) = rooms s"
  by (simp add: on_message_def split: ws_msg.split)

lemma rooms_on_close [simp]: "rooms (on_close s ws) = rooms s"
  by (simp add: on_close_def Let_def split: option.split)

lemma rooms_on_connection [simp]: "rooms (on_connection s ws) = rooms s"
  by (simp add: on_connection_def)

lemma rooms_set_readyState [simp]: "rooms (set_readyState s ws st) = rooms s"
  by (simp add: set_readyState_def)

lemma rooms_upload [simp]: "rooms (fst (upload bc ex s file r pw sender n0)) = rooms s"
  by (simp add: upload_eq Let_def split: option.split)

lemma rooms_multer_single [simp]: "rooms (multer_single s file) = rooms s"
  by (simp add: multer_single_def split: option.split)

lemma rooms_denyPendingForRoom [simp]: "rooms (denyPendingForRoom s r reason) = rooms s"
  by (simp add: denyPendingForRoom_def)

section \<open>The disable action\<close>

lemma disable_state:
  assumes "roomId \<noteq> []" and "adminPassword \<noteq> []" and "getRoom s roomId = Some room"
    and "bc_compare bc adminPassword (adminPassHash room)"
  shows "admin_action bc s roomId adminPassword ''disable'' =
     (denyPendingForRoom
        (kickRoom (broadcastToAdmins (setRoomEnabled s roomId False) roomId (RoomStatus False))
           roomId ''Room disabled by admin'')
        roomId ''Room disabled by admin'', (200, Ok))"
  using assms by (simp add: admin_action_eq Let_def)

lemma pending_denyPendingForRoom:
  "pending (denyPendingForRoom s r reason) =
     filter (\<lambda>e. fst e \<notin> fst ` {x \<in> set (pending s). p_roomId (snd x) = r}) (pending s)"
  by (simp add: denyPendingForRoom_def pending_deny_each)

lemma disable_effect:
  assumes "roomId \<noteq> []" and "adminPassword \<noteq> []" and "getRoom s roomId = Some room"
    and "bc_compare bc adminPassword (adminPassHash room)"
    and "admin_action bc s roomId adminPassword ''disable'' = (s', resp)"
  shows "resp = (200, Ok)"
    and "getRoom s' roomId = Some (room\<lparr>enabled := False\<rparr>)"
    and "room_disabled s' roomId"
    and "send_log s' = send_log s
           @ map (\<lambda>a. (a, RoomStatus False)) (membersOf (adminsByRoom s) roomId)
           @ map (\<lambda>c. (c, Kicked ''Room disabled by admin'')) (membersOf (clientsByRoom s) roomId)
           @ map (\<lambda>e. (p_ws (snd e), Error ''Room disabled by admin''))
               (filter (\<lambda>e. p_roomId (snd e) = roomId) (pending s))"
    and "membersOf (clientsByRoom s') roomId = []"
    and "adminsByRoom s' = adminsByRoom s"
    and "messages s' = messages s"
    and "set (pending s') \<subseteq> set (pending s)"
    and "\<And>e. e \<in> set (pending s') \<Longrightarrow> p_roomId (snd e) \<noteq> roomId"
    and "\<And>c. c \<in> set (membersOf (clientsByRoom s) roomId) \<Longrightarrow> \<not> is_open s' c"
    and "\<And>c. c \<in> set (membersOf (clientsByRoom s) roomId) \<Longrightarrow> is_open s c \<Longrightarrow>
           (c, Kicked ''Room disabled by admin'') \<in> set (wire s')"
    and "\<And>e. e \<in> set (pending s) \<Longrightarrow> p_roomId (snd e) = roomId \<Longrightarrow>
           \<not> is_open s' (p_ws (snd e)) \<and> jsmap_get (pending s') (fst e) = None"
    and "\<And>e. e \<in> set (pending s) \<Longrightarrow> p_roomId (snd e) = roomId \<Longrightarrow> is_open s (p_ws (snd e)) \<Longrightarrow>
           p_ws (snd e) \<notin> set (membersOf (clientsByRoom s) roomId) \<Longrightarrow>
           (p_ws (snd e), Error ''Room disabled by admin'') \<in> set (wire s')"
proof -
  let ?s1 = "broadcastToAdmins (setRoomEnabled s roomId False) roomId (RoomStatus False)"
  let ?s2 = "kickRoom ?s1 roomId ''Room disabled by admin''"
  have s': "s' = denyPendingForRoom ?s2 roomId ''Room disabled by admin''" and r: "resp = (200, Ok)"
    using disable_state [OF assms(1-4)] assms(5) by simp_all
  show "resp = (200, Ok)" by (rule r)
  show g: "getRoom s' roomId = Some (room\<lparr>enabled := False\<rparr>)"
    using assms(3) by (simp add: s' getRoom_def rooms_setRoomEnabled)
  then show "room_disabled s' roomId" by (simp add: room_disabled_def)
  show "send_log s' = send_log s
           @ map (\<lambda>a. (a, RoomStatus False)) (membersOf (adminsByRoom s) roomId)
           @ map (\<lambda>c. (c, Kicked ''Room disabled by admin'')) (membersOf (clientsByRoom s) roomId)
           @ map (\<lambda>e. (p_ws (snd e), Error ''Room disabled by admin''))
               (filter (\<lambda>e. p_roomId (snd e) = roomId) (pending s))"
    by (simp add: s' denyPendingForRoom_def)
  show "membersOf (clientsByRoom s') roomId = []"
    by (simp add: s' denyPendingForRoom_def membersOf_def)
  show "adminsByRoom s' = adminsByRoom s" by (simp add: s' denyPendingForRoom_def)
  show "messages s' = messages s" by (simp add: s' denyPendingForRoom_def)
  have p: "pending s' = filter (\<lambda>e. fst e \<notin> fst ` {x \<in> set (pending s). p_roomId (snd x) = roomId}) (pending s)"
    by (simp add: s' pending_denyPendingForRoom)
  show "set (pending s') \<subseteq> set (pending s)" by (auto simp add: p)
  show "p_roomId (snd e) \<noteq> roomId" if "e \<in> set (pending s')" for e
    using that by (auto simp add: p)
  show "\<not> is_open s' c" if "c \<in> set (membersOf (clientsByRoom s) roomId)" for c
    using that by (simp add: s' denyPendingForRoom_def)
  show "(c, Kicked ''Room disabled by admin'') \<in> set (wire s')"
    if "c \<in> set (membersOf (clientsByRoom s) roomId)" "is_open s c" for c
  proof -
    from that have "(c, Kicked ''Room disabled by admin'') \<in> set (wire ?s2)"
      by (intro kicked_on_wire_kickRoom) simp_all
    with wire_mono_deny_each show ?thesis unfolding s' denyPendingForRoom_def by blast
  qed
  show "\<not> is_open s' (p_ws (snd e)) \<and> jsmap_get (pending s') (fst e) = None"
    if "e \<in> set (pending s)" "p_roomId (snd e) = roomId" for e
  proof
    from that show "\<not> is_open s' (p_ws (snd e))"
      by (auto simp add: s' denyPendingForRoom_def)
    from that have "fst e \<notin> fst ` set (pending s')" by (auto simp add: p)
    then show "jsmap_get (pending s') (fst e) = None"
      by (simp add: jsmap_get_def map_of_eq_None_iff)
  qed
  show "(p_ws (snd e), Error ''Room disabled by admin'') \<in> set (wire s')"
    if "e \<in> set (pending s)" "p_roomId (snd e) = roomId" "is_open s (p_ws (snd e))"
      "p_ws (snd e) \<notin> set (membersOf (clientsByRoom s) roomId)" for e
    unfolding s' denyPendingForRoom_def
    using that by (intro denied_on_wire) simp_all
qed

section \<open>The pending map along the handlers\<close>

lemma set_jsmap_set: "set (jsmap_set m k v) \<subseteq> insert (k, v) (set m)"
  by (induction m) auto

lemma set_jsmap_delete: "set (jsmap_delete m k) \<subseteq> set m"
  by (auto simp add: jsmap_delete_def)

lemma jsmap_get_None_iff: "jsmap_get m k = None \<longleftrightarrow> k \<notin> fst ` set m"
  by (simp add: jsmap_get_def map_of_eq_None_iff)

lemma pending_admin_attach [simp]: "pending (admin_attach bc s ws a b c) = pending s"
  by (simp add: admin_attach_eq Let_def split: option.split)

lemma pending_chat [simp]: "pending (chat s ws t n0 n1 n2) = pending s"
  by (simp add: chat_eq Let_def split: option.split)

lemma pending_on_connection [simp]: "pending (on_connection s ws) = pending s"
  by (simp add: on_connection_def)

lemma pending_set_readyState [simp]: "pending (set_readyState s ws st) = pending s"
  by (simp add: set_readyState_def)

lemma pending_upload [simp]: "pending (fst (upload bc ex s file r pw sender n0)) = pending s"
  by (simp add: upload_eq Let_def split: option.split)

lemma pending_multer_single [simp]: "pending (multer_single s file) = pending s"
  by (simp add: multer_single_def split: option.split)

lemma pending_create_room [simp]: "pending (fst (create_room bc s r a b)) = pending s"
  by (simp add: create_room_eq)

lemma pending_request_join:
  "pending (request_join bc s ws a b c mid n0 n1) = pending s
   \<or> pending (request_join bc s ws a b c mid n0 n1) =
        jsmap_set (pending s) mid
          \<lparr>p_ws = ws, p_roomId = trim a, p_sender = take 20 (js_or c ''User''), p_createdAt = n0\<rparr>"
  by (simp add: request_join_eq Let_def split: option.split)

lemma set_pending_request_join:
  "set (pending (request_join bc s ws a b c mid n0 n1)) \<subseteq>
     insert (mid, \<lparr>p_ws = ws, p_roomId = trim a, p_sender = take 20 (js_or c ''User''),
                   p_createdAt = n0\<rparr>) (set (pending s))"
  using pending_request_join [of bc s ws a b c mid n0 n1]
    set_jsmap_set [of "pending s" mid "\<lparr>p_ws = ws, p_roomId = trim a,
      p_sender = take 20 (js_or c ''User''), p_createdAt = n0\<rparr>"]
  by auto

lemma pending_approve_deny:
  "pending (approve_deny s ws d rid) = pending s
   \<or> pending (approve_deny s ws d rid) = jsmap_delete (pending s) rid"
  by (simp add: approve_deny_eq Let_def split: option.split)

lemma set_pending_approve_deny:
  "set (pending (approve_deny s ws d rid)) \<subseteq> set (pending s)"
  using pending_approve_deny [of s ws d rid] set_jsmap_delete [of "pending s" rid]
  by auto

lemma pending_on_close:
  "pending (on_close s ws) =
     filter (\<lambda>e. fst e \<notin> fst ` {x \<in> set (pending s). p_ws (snd x) = ws}) (pending s)"
  by (simp add: on_close_def Let_def pending_abandon_each split: option.split)

lemma pending_admin_action:
  "set (pending (fst (admin_action bc s r pw action))) \<subseteq> set (pending s)"
  by (auto simp add: admin_action_eq Let_def pending_denyPendingForRoom split: option.split)

lemma send_log_abandon_each:
  "send_log (abandon_each s es ws) = send_log s
     @ concat (map (\<lambda>e. map (\<lambda>a. (a, JoinRequestClosed (fst e)))
                            (membersOf (adminsByRoom s) (p_roomId (snd e))))
                   (filter (\<lambda>e. p_ws (snd e) = ws) es))"
  by (induction es arbitrary: s) simp_all

lemma deny_state:
  assumes "ws_isAdmin (sock s ws)" and "ws_roomId (sock s ws) = Some roomId" and "roomId \<noteq> []"
    and "jsmap_get (pending s) rid = Some req" and "p_roomId req = roomId"
  shows "approve_deny s ws True rid =
     ws_close
       (send (broadcastToAdmins (s\<lparr>pending := jsmap_delete (pending s) rid\<rparr>) roomId
                (JoinRequestClosed rid))
          (p_ws req) JoinDenied)
       (p_ws req)"
  using assms by (simp add: approve_deny_eq truthy_def Let_def)

lemma adminsByRoom_on_close:
  "adminsByRoom (on_close s ws) =
     (case ws_roomId (sock s ws) of
        None \<Rightarrow> adminsByRoom s
      | Some r \<Rightarrow> if r = [] then adminsByRoom s else removeFrom (adminsByRoom s) r ws)"
  by (simp add: on_close_def Let_def split: option.split)

lemma send_log_on_close:
  "send_log (on_close s ws) = send_log s
     @ concat (map (\<lambda>e. map (\<lambda>a. (a, JoinRequestClosed (fst e)))
                            (membersOf (adminsByRoom (on_close s ws)) (p_roomId (snd e))))
                   (filter (\<lambda>e. p_ws (snd e) = ws) (pending s)))"
  by (simp add: adminsByRoom_on_close) (simp add: on_close_def Let_def send_log_abandon_each split: option.split)


lemma filtered_key_gone:
  assumes "e \<in> set m" and "P e"
  shows "fst e \<notin> fst ` set (filter (\<lambda>x. fst x \<notin> fst ` {y \<in> set m. P y}) m)"
proof
  assume "fst e \<in> fst ` set (filter (\<lambda>x. fst x \<notin> fst ` {y \<in> set m. P y}) m)"
  then obtain x where "fst x \<notin> fst ` {y \<in> set m. P y}" and "fst x = fst e" by auto
  moreover from assms have "fst e \<in> fst ` {y \<in> set m. P y}" by blast
  ultimately show False by simp
qed

section \<open>The room sets along the handlers\<close>

lemma membersOf_removeFrom:
  "set (membersOf (removeFrom m k c) r) =
     (if r = k then set (membersOf m k) - {c} else set (membersOf m r))"
proof (cases "m k")
  case None
  then show ?thesis by (simp add: membersOf_def removeFrom_def)
next
  case (Some xs)
  show ?thesis
  proof (cases "removeAll c xs = []")
    case True
    then have "set xs - {c} = {}" by (metis set_removeAll set_empty)
    with Some True show ?thesis
      by (simp add: membersOf_def removeFrom_def set_delete_def)
  next
    case False
    with Some show ?thesis
      by (auto simp add: membersOf_def removeFrom_def set_delete_def)
  qed
qed

lemma membersOf_upd_None:
  "membersOf (m(k := None)) r = (if r = k then [] else membersOf m r)"
  by (simp add: membersOf_def)

lemma set_membersOf_addTo:
  "set (membersOf (addTo m k c) r) =
     (if r = k then insert c (set (membersOf m k)) else set (membersOf m r))"
  by (simp add: membersOf_addTo)

text \<open>Log-only changes do not touch the invariants.\<close>

lemmas inv_defs = server_inv_def inv_admin_member_def inv_known_def inv_pending_def is_open_def

lemma inv_cong:
  assumes "clientsByRoom s' = clientsByRoom s" and "adminsByRoom s' = adminsByRoom s"
    and "pending s' = pending s" and "sock s' = sock s"
  shows "server_inv s' = server_inv s"
  using assms by (simp add: inv_defs)

lemma inv_send [simp]: "server_inv (send s c m) = server_inv s"
  by (rule inv_cong) simp_all

lemma inv_broadcastToRoom [simp]: "server_inv (broadcastToRoom s r m) = server_inv s"
  by (rule inv_cong) simp_all

lemma inv_broadcastToAdmins [simp]: "server_inv (broadcastToAdmins s r m) = server_inv s"
  by (rule inv_cong) simp_all

lemma inv_cong_sock:
  assumes "clientsByRoom s' = clientsByRoom s" and "adminsByRoom s' = adminsByRoom s"
    and "pending s' = pending s"
    and "\<And>c. ws_readyState (sock s' c) = ws_readyState (sock s c)"
    and "\<And>c. ws_roomId (sock s' c) = ws_roomId (sock s c)"
  shows "server_inv s' = server_inv s"
  using assms by (simp add: inv_defs)

lemma inv_set_sender [simp]: "server_inv (set_sender s c x) = server_inv s"
  by (rule inv_cong_sock) simp_all

lemma inv_set_isAdmin [simp]: "server_inv (set_isAdmin s c x) = server_inv s"
  by (rule inv_cong_sock) simp_all

lemma inv_messages [simp]: "server_inv (s\<lparr>messages := x\<rparr>) = server_inv s"
  by (rule inv_cong) simp_all

lemma inv_rooms [simp]: "server_inv (s\<lparr>rooms := x\<rparr>) = server_inv s"
  by (rule inv_cong) simp_all

lemma inv_uploads [simp]: "server_inv (s\<lparr>uploads := x\<rparr>) = server_inv s"
  by (rule inv_cong) simp_all

lemma inv_ws_close: "server_inv s \<Longrightarrow> server_inv (ws_close s c)"
  by (auto simp add: inv_defs)

lemma inv_pending_subset:
  "server_inv s \<Longrightarrow> set p \<subseteq> set (pending s) \<Longrightarrow> server_inv (s\<lparr>pending := p\<rparr>)"
  by (auto simp add: inv_defs)

lemma inv_pending_insert:
  "server_inv s \<Longrightarrow> set p \<subseteq> insert (k, req) (set (pending s)) \<Longrightarrow>
   ws_readyState (sock s (p_ws req)) \<noteq> CONNECTING \<Longrightarrow> server_inv (s\<lparr>pending := p\<rparr>)"
  by (auto simp add: inv_defs)

lemma inv_initial: "initial s \<Longrightarrow> server_inv s"
  by (simp add: initial_def inv_defs membersOf_def)

lemma inv_on_connection:
  "server_inv s \<Longrightarrow> ws_readyState (sock s ws) = CONNECTING \<Longrightarrow> server_inv (on_connection s ws)"
  by (auto simp add: inv_defs on_connection_def)

lemma inv_join:
  "server_inv s \<Longrightarrow> ws_readyState (sock s c) \<noteq> CONNECTING \<Longrightarrow>
   server_inv ((set_roomId s c r)\<lparr>clientsByRoom := addTo (clientsByRoom s) r c\<rparr>)"
  by (auto simp add: inv_defs set_membersOf_addTo)

lemma inv_attach:
  "server_inv s \<Longrightarrow> ws_readyState (sock s c) \<noteq> CONNECTING \<Longrightarrow>
   server_inv ((set_roomId s c r)\<lparr>adminsByRoom := addTo (adminsByRoom s) r c,
                            clientsByRoom := addTo (clientsByRoom s) r c\<rparr>)"
  by (auto simp add: inv_defs set_membersOf_addTo)

lemma inv_kickRoom: "server_inv s \<Longrightarrow> server_inv (kickRoom s r reason)"
  by (auto simp add: inv_defs membersOf_upd_None readyState_kickRoom)

lemma inv_deny_each: "server_inv s \<Longrightarrow> server_inv (deny_each s es r reason)"
proof (induction es arbitrary: s)
  case Nil
  then show ?case by simp
next
  case (Cons e es)
  have a: "server_inv (ws_close (send s (p_ws (snd e)) (Error reason)) (p_ws (snd e)))"
    using Cons.prems by (simp add: inv_ws_close)
  have "server_inv ((ws_close (send s (p_ws (snd e)) (Error reason)) (p_ws (snd e)))
          \<lparr>pending := jsmap_delete (pending s) (fst e)\<rparr>)"
    by (rule inv_pending_subset [OF a]) (simp add: set_jsmap_delete)
  with Cons.prems show ?case by (simp add: Let_def Cons.IH)
qed

lemma inv_abandon_each: "server_inv s \<Longrightarrow> server_inv (abandon_each s es ws)"
proof (induction es arbitrary: s)
  case Nil
  then show ?case by simp
next
  case (Cons e es)
  have "server_inv (s\<lparr>pending := jsmap_delete (pending s) (fst e)\<rparr>)"
    by (rule inv_pending_subset [OF Cons.prems]) (simp add: set_jsmap_delete)
  with Cons.prems show ?case by (simp add: Cons.IH)
qed

lemma inv_closed_removed:
  "server_inv s \<Longrightarrow> ws_readyState (sock s ws) \<noteq> CONNECTING \<Longrightarrow>
   server_inv ((set_readyState s ws CLOSED)
          \<lparr>clientsByRoom := removeFrom (clientsByRoom s) r ws,
           adminsByRoom := removeFrom (adminsByRoom s) r ws\<rparr>)"
  by (auto simp add: inv_defs set_readyState_def membersOf_removeFrom split: if_splits)

lemma inv_closed:
  "server_inv s \<Longrightarrow> ws_readyState (sock s ws) \<noteq> CONNECTING \<Longrightarrow> server_inv (set_readyState s ws CLOSED)"
  by (auto simp add: inv_defs set_readyState_def)


section \<open>Every handler keeps the invariants\<close>

lemma set_readyState_frame [simp]:
  "messages (set_readyState s ws st) = messages s"
  "uploads (set_readyState s ws st) = uploads s"
  "clientsByRoom (set_readyState s ws st) = clientsByRoom s"
  "adminsByRoom (set_readyState s ws st) = adminsByRoom s"
  "send_log (set_readyState s ws st) = send_log s"
  "wire (set_readyState s ws st) = wire s"
  by (simp_all add: set_readyState_def)

lemma sock_set_readyState [simp]:
  "sock (set_readyState s ws st) c = (if c = ws then (sock s ws)\<lparr>ws_readyState := st\<rparr> else sock s c)"
  by (simp add: set_readyState_def)

lemma inv_admin_attach:
  assumes "server_inv s" and "ws_readyState (sock s ws) \<noteq> CONNECTING"
  shows "server_inv (admin_attach bc s ws a b c)"
proof (cases "getRoom s (trim a)")
  case None
  with assms show ?thesis by (simp add: admin_attach_eq Let_def)
next
  case (Some room)
  show ?thesis
  proof (cases "bc_compare bc b (adminPassHash room)")
    case False
    with Some assms show ?thesis by (simp add: admin_attach_eq Let_def)
  next
    case True
    let ?t = "(set_sender (set_roomId (set_isAdmin s ws True) ws (trim a)) ws
              (take 20 (js_or c ''Admin'')))
             \<lparr>adminsByRoom := addTo (adminsByRoom s) (trim a) ws,
              clientsByRoom := addTo (clientsByRoom s) (trim a) ws\<rparr>"
    let ?u = "(set_roomId s ws (trim a))
             \<lparr>adminsByRoom := addTo (adminsByRoom s) (trim a) ws,
              clientsByRoom := addTo (clientsByRoom s) (trim a) ws\<rparr>"
    have "server_inv ?t = server_inv ?u" by (rule inv_cong_sock) simp_all
    moreover have "server_inv ?u" using assms by (rule inv_attach)
    ultimately show ?thesis by (simp add: admin_attach_ok [OF Some True])
  qed
qed

lemma inv_request_join:
  assumes "server_inv s" and "ws_readyState (sock s ws) \<noteq> CONNECTING"
  shows "server_inv (request_join bc s ws a b c mid n0 n1)"
proof (cases "\<exists>room. getRoom s (trim a) = Some room \<and> enabled room \<and> bc_compare bc b (roomPassHash room)")
  case True
  then obtain room where r: "getRoom s (trim a) = Some room" "enabled room"
    "bc_compare bc b (roomPassHash room)" by blast
  let ?req = "\<lparr>p_ws = ws, p_roomId = trim a, p_sender = take 20 (js_or c ''User''), p_createdAt = n0\<rparr>"
  let ?s1 = "set_sender s ws (take 20 (js_or c ''User''))"
  have i: "server_inv ?s1" using assms by simp
  have "server_inv (?s1\<lparr>pending := jsmap_set (pending s) mid ?req\<rparr>)"
    by (rule inv_pending_insert [OF i, where k = mid and req = ?req])
      (use assms set_jsmap_set [of "pending s" mid ?req] in simp_all)
  then show ?thesis by (simp add: request_join_ok [OF r])
next
  case False
  with assms show ?thesis
    by (auto simp add: request_join_eq Let_def split: option.split)
qed

lemma inv_approve_deny:
  assumes "server_inv s"
  shows "server_inv (approve_deny s ws d rid)"
proof (cases "\<not> ws_isAdmin (sock s ws) \<or> \<not> truthy (ws_roomId (sock s ws))")
  case True
  with assms show ?thesis by (simp add: approve_deny_not_admin)
next
  case False
  then have adm: "ws_isAdmin (sock s ws)" "truthy (ws_roomId (sock s ws))" by simp_all
  then obtain roomId where rm: "ws_roomId (sock s ws) = Some roomId" "roomId \<noteq> []"
    by (auto simp add: truthy_def split: option.splits)
  show ?thesis
  proof (cases "jsmap_get (pending s) rid")
    case None
    with adm assms show ?thesis by (simp add: approve_deny_not_found)
  next
    case (Some req)
    show ?thesis
    proof (cases "p_roomId req = roomId")
      case False
      with Some adm rm assms show ?thesis by (simp add: approve_deny_wrong_room)
    next
      case True
      note a = adm(1) rm Some True
      from Some have "(rid, req) \<in> set (pending s)"
        by (simp add: jsmap_get_def map_of_SomeD)
      with assms have own: "ws_readyState (sock s (p_ws req)) \<noteq> CONNECTING"
        by (auto simp add: inv_defs)
      have i1: "server_inv (s\<lparr>pending := jsmap_delete (pending s) rid\<rparr>)"
        by (rule inv_pending_subset [OF assms]) (simp add: set_jsmap_delete)
      let ?x = "broadcastToAdmins (s\<lparr>pending := jsmap_delete (pending s) rid\<rparr>) roomId
                  (JoinRequestClosed rid)"
      have i2: "server_inv ?x" using i1 by simp
      show ?thesis
      proof (cases d)
        case True
        with i2 show ?thesis by (simp add: deny_state [OF a] inv_ws_close)
      next
        case False
        have "server_inv ((set_roomId ?x (p_ws req) roomId)
                \<lparr>clientsByRoom := addTo (clientsByRoom ?x) roomId (p_ws req)\<rparr>)"
          by (rule inv_join [OF i2]) (use own in simp)
        with False show ?thesis by (simp add: approve_state [OF a])
      qed
    qed
  qed
qed

lemma inv_chat: "server_inv s \<Longrightarrow> server_inv (chat s ws t n0 n1 n2)"
  by (auto simp add: chat_eq Let_def addText_def inv_ws_close split: option.split)

lemma inv_on_message:
  "server_inv s \<Longrightarrow> ws_readyState (sock s ws) \<noteq> CONNECTING \<Longrightarrow>
   server_inv (on_message bc s ws msg mid n0 n1 n2)"
  by (cases msg)
    (simp_all add: on_message_def inv_admin_attach inv_request_join inv_approve_deny inv_chat)

lemma inv_on_close:
  assumes "server_inv s" and "ws_readyState (sock s ws) \<noteq> CONNECTING"
  shows "server_inv (on_close (set_readyState s ws CLOSED) ws)"
proof -
  let ?s' = "set_readyState s ws CLOSED"
  have c: "server_inv ?s'" using assms by (rule inv_closed)
  show ?thesis
  proof (cases "truthy (ws_roomId (sock s ws))")
    case False
    then show ?thesis
      using c by (auto simp add: on_close_def truthy_def inv_abandon_each split: option.split)
  next
    case True
    then obtain r where r: "ws_roomId (sock s ws) = Some r" "r \<noteq> []"
      by (auto simp add: truthy_def split: option.splits)
    have "server_inv (?s'\<lparr>clientsByRoom := removeFrom (clientsByRoom s) r ws,
           adminsByRoom := removeFrom (adminsByRoom s) r ws\<rparr>)"
      using assms by (rule inv_closed_removed)
    then show ?thesis using r by (simp add: on_close_def Let_def inv_abandon_each)
  qed
qed

lemma inv_setRoomEnabled [simp]: "server_inv (setRoomEnabled s r en) = server_inv s"
  by (rule inv_cong) simp_all

lemma inv_clearChat [simp]: "server_inv (clearChat s r) = server_inv s"
  by (rule inv_cong) simp_all

lemma inv_create_room: "server_inv s \<Longrightarrow> server_inv (fst (create_room bc s r a b))"
  by (simp add: create_room_eq)

lemma inv_admin_action: "server_inv s \<Longrightarrow> server_inv (fst (admin_action bc s r pw action))"
  by (auto simp add: admin_action_eq Let_def denyPendingForRoom_def inv_kickRoom inv_deny_each
      split: option.split)

lemma inv_upload: "server_inv s \<Longrightarrow> server_inv (fst (upload bc ex (multer_single s upf) upf r pw sender n0))"
  by (auto simp add: upload_eq multer_single_def Let_def addFile_def split: option.split)

lemma inv_step: "server_inv s \<Longrightarrow> server_inv (step bc ex s e)"
proof (cases e)
  case (Connect ws)
  assume "server_inv s"
  with Connect show ?thesis by (simp add: step_def inv_on_connection)
next
  case (Message ws msg mid n0 n1 n2)
  assume "server_inv s"
  with Message show ?thesis by (auto simp add: step_def inv_on_message)
next
  case (Close ws)
  assume "server_inv s"
  with Close show ?thesis by (auto simp add: step_def inv_on_close)
next
  case (CreateRoom r a b)
  assume "server_inv s"
  with CreateRoom show ?thesis by (simp add: step_def inv_create_room)
next
  case (AdminAction r pw action)
  assume "server_inv s"
  with AdminAction show ?thesis by (simp add: step_def inv_admin_action)
next
  case (Upload upf r pw sender n0)
  assume "server_inv s"
  with Upload show ?thesis by (simp add: step_def inv_upload)
qed

lemma reachable_inv: "reachable bc ex s \<Longrightarrow> server_inv s"
  by (induction rule: reachable.induct) (simp_all add: inv_initial inv_step)

lemma reachable_run: "reachable bc ex s \<Longrightarrow> reachable bc ex (run bc ex s es)"
  by (induction es arbitrary: s) (simp_all add: reachable_step)

lemma initial_boot: "initial boot"
  by (simp add: initial_def boot_def)

lemma reachable_demo_run: "reachable toy_bcrypt toy_extname demo_run"
  unfolding demo_run_def by (intro reachable_run reachable_initial initial_boot)

text \<open>The state \<open>demo\<close> is what the run leaves, wherever the examples look at it.\<close>

lemma demo_run_agrees:
  "messages demo_run = messages demo \<and> pending demo_run = pending demo
   \<and> uploads demo_run = uploads demo
   \<and> send_log demo_run = send_log demo \<and> wire demo_run = wire demo
   \<and> map (rooms demo_run) [''r1'', ''r2'', ''zz''] = map (rooms demo) [''r1'', ''r2'', ''zz'']
   \<and> map (clientsByRoom demo_run) [''r1'', ''r2'', ''zz''] = map (clientsByRoom demo) [''r1'', ''r2'', ''zz'']
   \<and> map (adminsByRoom demo_run) [''r1'', ''r2'', ''zz''] = map (adminsByRoom demo) [''r1'', ''r2'', ''zz'']
   \<and> map (sock demo_run) [0, 1, 2, 3, 4, 5, 6] = map (sock demo) [0, 1, 2, 3, 4, 5, 6]"
  by code_simp

section \<open>What the blocks of the handlers leave alone\<close>

lemmas block_defs = attach_checks_def attach_enter_def attach_history_def join_checks_def
  join_commit_def approve_begin_def approve_history_def chat_begin_def chat_checks_def
  chat_deliver_def action_finish_def action_write_def upload_store_def upload_deliver_def
  create_insert_def

lemma sock_on_close [simp]: "sock (on_close s ws) = sock s"
  by (simp add: on_close_def Let_def split: option.split)

lemma rooms_blocks [simp]:
  "rooms (fst (attach_checks bc s ws pw room0)) = rooms s"
  "rooms (fst (attach_enter s ws r sd room ok)) = rooms s"
  "rooms (attach_history s ws r sd h) = rooms s"
  "rooms (fst (join_checks bc s ws pw room0)) = rooms s"
  "rooms (join_commit s ws r sd ok mid n0 n1) = rooms s"
  "rooms (fst (approve_begin s ws d rid)) = rooms s"
  "rooms (approve_history s req h) = rooms s"
  "rooms (fst (chat_begin s ws)) = rooms s"
  "rooms (fst (chat_checks s ws t room0 n0)) = rooms s"
  "rooms (chat_deliver s ws t n1 n2) = rooms s"
  "rooms (fst (action_finish s r action)) = rooms s"
  "rooms (fst (upload_store ex s f r sd ok n0)) = rooms s"
  "rooms (fst (upload_deliver s r a b c e)) = rooms s"
  by (simp_all add: block_defs Let_def split: option.split)

lemma rooms_frame_begin [simp]: "rooms (fst (frame_begin s ws msg)) = rooms s"
  by (simp add: frame_begin_def Let_def case_prod_beta split: ws_msg.split option.split)

lemma rooms_arrive [simp]: "rooms (fst (arrive s a)) = rooms s"
  by (simp add: arrive_def Let_def case_prod_beta split: arrival.split sum.split)

lemma pending_blocks [simp]:
  "pending (fst (attach_checks bc s ws pw room0)) = pending s"
  "pending (fst (attach_enter s ws r sd room ok)) = pending s"
  "pending (attach_history s ws r sd h) = pending s"
  "pending (fst (join_checks bc s ws pw room0)) = pending s"
  "pending (approve_history s req h) = pending s"
  "pending (fst (chat_begin s ws)) = pending s"
  "pending (fst (chat_checks s ws t room0 n0)) = pending s"
  "pending (chat_deliver s ws t n1 n2) = pending s"
  "pending (fst (action_write s r action ok)) = pending s"
  "pending (fst (create_insert s r h1 h2)) = pending s"
  "pending (fst (upload_store ex s f r sd ok n0)) = pending s"
  "pending (fst (upload_deliver s r a b c e)) = pending s"
  by (simp_all add: block_defs Let_def split: option.split)

lemma pending_join_commit:
  "pending (join_commit s ws r sd ok mid n0 n1) =
     (if ok then jsmap_set (pending s) mid \<lparr>p_ws = ws, p_roomId = r, p_sender = sd, p_createdAt = n0\<rparr>
      else pending s)"
  by (simp add: join_commit_def Let_def)

lemma pending_approve_begin:
  "pending (fst (approve_begin s ws d rid)) = pending s
   \<or> pending (fst (approve_begin s ws d rid)) = jsmap_delete (pending s) rid"
  by (simp add: approve_begin_def Let_def split: option.split)

lemma set_pending_approve_begin:
  "set (pending (fst (approve_begin s ws d rid))) \<subseteq> set (pending s)"
  using pending_approve_begin [of s ws d rid] set_jsmap_delete [of "pending s" rid] by auto

lemma set_pending_action_finish:
  "set (pending (fst (action_finish s r action))) \<subseteq> set (pending s)"
  by (auto simp add: action_finish_def Let_def pending_denyPendingForRoom)

lemma set_pending_frame_begin:
  "set (pending (fst (frame_begin s ws msg))) \<subseteq> set (pending s)"
  using set_pending_approve_begin [of s ws]
  by (simp add: frame_begin_def Let_def case_prod_beta split: ws_msg.split option.split)

lemma set_pending_arrive: "set (pending (fst (arrive s a))) \<subseteq> set (pending s)"
  using set_pending_frame_begin [of s]
  by (auto simp add: arrive_def Let_def case_prod_beta pending_on_close
      split: arrival.split sum.split)

lemma keys_jsmap_set: "fst ` set (jsmap_set m k v) \<subseteq> insert k (fst ` set m)"
  using set_jsmap_set [of m k v] by force

lemma keys_pending_resume:
  "fst ` set (pending (fst (resume bc ex s t mid n0 n1))) \<subseteq> insert mid (fst ` set (pending s))"
proof (cases t)
  case (JoinPass ws r sd ok)
  then show ?thesis
    using keys_jsmap_set [of "pending s" mid]
    by (auto simp add: pending_join_commit)
next
  case (ActionWritten r action)
  then show ?thesis using set_pending_action_finish [of s r action] by auto
qed (auto simp add: case_prod_beta split: option.split sum.split)

section \<open>The interleaved server, event by event\<close>

lemma istep_halted: "\<not> running q \<Longrightarrow> istep bc ex q e = q"
  by (simp add: istep_def)

lemma istep_Arrive:
  "running q \<Longrightarrow> istep bc ex q (Arrive a) =
     q\<lparr>cur := fst (arrive (cur q) a), stopped := stopped q @ opt_list (snd (arrive (cur q) a))\<rparr>"
  by (simp add: istep_def case_prod_beta)

lemma istep_Resume:
  "running q \<Longrightarrow> k < length (stopped q) \<Longrightarrow> istep bc ex q (Resume k mid n0 n1) =
     q\<lparr>cur := fst (resume bc ex (cur q) (stopped q ! k) mid n0 n1),
       stopped := take k (stopped q) @ drop (Suc k) (stopped q)
                  @ opt_list (snd (resume bc ex (cur q) (stopped q ! k) mid n0 n1))\<rparr>"
  by (simp add: istep_def case_prod_beta)

lemma istep_Resume_none:
  "\<not> k < length (stopped q) \<Longrightarrow> istep bc ex q (Resume k mid n0 n1) = q"
  by (simp add: istep_def)

lemma cur_istep_Throw [simp]: "cur (istep bc ex q (Throw ws)) = cur q"
  by (simp add: istep_def)

lemma stopped_istep_Throw [simp]: "stopped (istep bc ex q (Throw ws)) = stopped q"
  by (simp add: istep_def)

lemma set_opt_list: "set (opt_list x) = (case x of None \<Rightarrow> {} | Some y \<Rightarrow> {y})"
  by (simp add: opt_list_def split: option.split)

lemma set_take_drop: "set (take k xs @ drop (Suc k) xs) \<subseteq> set xs"
  by (auto dest: in_set_takeD in_set_dropD)

text \<open>A request id that is not pending stays so unless a handler is given it.\<close>

lemma pending_key_istep:
  assumes "jsmap_get (pending (cur q)) rid = None" and "\<not> gives_id rid e"
  shows "jsmap_get (pending (cur (istep bc ex q e))) rid = None"
proof (cases "running q")
  case False
  then show ?thesis using assms by (simp add: istep_halted)
next
  case True
  show ?thesis
  proof (cases e)
    case (Arrive a)
    then show ?thesis
      using assms True set_pending_arrive [of "cur q" a]
      by (auto simp add: istep_Arrive jsmap_get_None_iff)
  next
    case (Resume k mid n0 n1)
    show ?thesis
    proof (cases "k < length (stopped q)")
      case True
      with \<open>running q\<close> Resume assms
        keys_pending_resume [of bc ex "cur q" "stopped q ! k" mid n0 n1]
      show ?thesis by (auto simp add: istep_Resume jsmap_get_None_iff)
    next
      case False
      with Resume assms show ?thesis by (simp add: istep_Resume_none)
    qed
  next
    case (Throw ws)
    then show ?thesis using assms by simp
  qed
qed

lemma pending_key_irun:
  "jsmap_get (pending (cur q)) rid = None \<Longrightarrow> \<forall>e \<in> set es. \<not> gives_id rid e \<Longrightarrow>
   jsmap_get (pending (cur (irun bc ex q es))) rid = None"
  by (induction es arbitrary: q) (simp_all add: pending_key_istep)

section \<open>A disabled room along the interleaved server\<close>

lemma room_disabled_rooms:
  "rooms s' r = rooms s r \<Longrightarrow> room_disabled s' r = room_disabled s r"
  by (simp add: room_disabled_def getRoom_def)

lemma room_disabled_arrive [simp]: "room_disabled (fst (arrive s a)) r = room_disabled s r"
  by (rule room_disabled_rooms) simp








lemma ireachable_irun: "ireachable bc ex q \<Longrightarrow> ireachable bc ex (irun bc ex q es)"
  by (induction es arbitrary: q) (simp_all add: ireachable_step)

section \<open>Uninterrupted handlers in the interleaved server\<close>

lemma proceed_None [simp]: "proceed bc ex mid n0 n1 (s, None) = (s, None)"
  by (simp add: proceed_def)

lemma proceed_Some [simp]: "proceed bc ex mid n0 n1 (s, Some t) = resume bc ex s t mid n0 n1"
  by (simp add: proceed_def)

lemma chat_blocks:
  "proceed bc ex mid n1 n2 (proceed bc ex mid n0 n0 (frame_begin s ws (Chat text0)))
     = (chat s ws text0 n0 n1 n2, None)"
  by (simp add: frame_begin_def chat_def split: prod.split option.split)

lemma join_blocks:
  "proceed bc ex mid n0 n1 (proceed bc ex mid n0 n1 (frame_begin s ws (RequestJoin a b c)))
     = (request_join bc s ws a b c mid n0 n1, None)"
  by (simp add: frame_begin_def request_join_def Let_def split: prod.split option.split)

lemma attach_blocks:
  "proceed bc ex mid n0 n1 (proceed bc ex mid n0 n1 (proceed bc ex mid n0 n1
      (frame_begin s ws (AdminAttach a b c))))
     = (admin_attach bc s ws a b c, None)"
  by (simp add: frame_begin_def admin_attach_def Let_def split: prod.split option.split)

lemma approve_blocks:
  "proceed bc ex mid n0 n1 (frame_begin s ws (Approve rid)) = (approve_deny s ws False rid, None)"
  "proceed bc ex mid n0 n1 (frame_begin s ws (Deny rid)) = (approve_deny s ws True rid, None)"
  by (simp_all add: frame_begin_def approve_deny_def split: prod.split option.split)

lemma create_blocks:
  "proceed bc ex mid n0 n1 (proceed bc ex mid n0 n1 (proceed bc ex mid n0 n1 (proceed bc ex mid n0 n1
      (arrive s (PostCreate r a b)))))
     = (fst (create_room bc s r a b), None)"
  by (simp add: arrive_def create_room_def Let_def split: prod.split option.split sum.split)

lemma action_blocks:
  "proceed bc ex mid n0 n1 (proceed bc ex mid n0 n1 (proceed bc ex mid n0 n1
      (arrive s (PostAction r pw action))))
     = (fst (admin_action bc s r pw action), None)"
  by (simp add: arrive_def admin_action_def Let_def split: prod.split option.split sum.split)

lemma upload_blocks:
  "proceed bc ex mid n0 n1 (proceed bc ex mid n0 n1 (proceed bc ex mid n0 n1
      (arrive s (PostUpload upf r pw sender))))
     = (fst (upload bc ex (multer_single s upf) upf r pw sender n0), None)"
  by (simp add: arrive_def upload_def Let_def split: prod.split option.split sum.split)

lemma istep_Arrive_hold: "running q \<Longrightarrow> istep bc ex q (Arrive a) = hold q (arrive (cur q) a)"
  by (simp add: istep_Arrive hold_def)

lemma istep_Resume_hold:
  "running q \<Longrightarrow> istep bc ex (hold q r) (Resume (length (stopped q)) mid n0 n1)
     = hold q (proceed bc ex mid n0 n1 r)"
proof (cases "snd r")
  case None
  then show ?thesis
    by (simp add: hold_def proceed_def opt_list_def istep_Resume_none)
next
  case (Some t)
  assume "running q"
  then show ?thesis
    using Some
    by (simp add: hold_def proceed_def opt_list_def istep_Resume nth_append)
qed

lemma hold_done: "hold q (s, None) = q\<lparr>cur := s\<rparr>"
  by (simp add: hold_def opt_list_def)

text \<open>
  An event of \<open>step\<close> is a run of the interleaved server in which the handler is not
  interrupted.
\<close>

lemma burst_step:
  assumes "running q"
  shows "irun bc ex q (burst (length (stopped q)) e) = q\<lparr>cur := step bc ex (cur q) e\<rparr>"
proof (cases e)
  case (Connect ws)
  then show ?thesis
    using assms by (simp add: istep_Arrive_hold arrive_def step_def hold_done)
next
  case (Close ws)
  then show ?thesis
    using assms by (simp add: istep_Arrive_hold arrive_def step_def hold_done)
next
  case (CreateRoom r a b)
  then show ?thesis
    using assms
    by (simp add: istep_Arrive_hold istep_Resume_hold create_blocks step_def hold_done)
next
  case (AdminAction r pw action)
  then show ?thesis
    using assms
    by (simp add: istep_Arrive_hold istep_Resume_hold action_blocks step_def hold_done)
next
  case (Upload upf r pw sender n0)
  then show ?thesis
    using assms
    by (simp add: istep_Arrive_hold istep_Resume_hold upload_blocks step_def hold_done)
next
  case (Message ws msg mid n0 n1 n2)
  show ?thesis
  proof (cases "ws_readyState (sock (cur q) ws) = OPEN \<or> ws_readyState (sock (cur q) ws) = CLOSING")
    case False
    then have a: "arrive (cur q) (SocketFrame ws msg) = (cur q, None)"
      by (simp add: arrive_def)
    have s: "step bc ex (cur q) e = cur q" using False Message by (simp add: step_def)
    show ?thesis
      using assms Message a s
      by (cases msg) (simp_all add: istep_Arrive_hold istep_Resume_none hold_done)
  next
    case True
    then have a: "arrive (cur q) (SocketFrame ws msg) = frame_begin (cur q) ws msg"
      by (simp add: arrive_def)
    have s: "step bc ex (cur q) e = on_message bc (cur q) ws msg mid n0 n1 n2"
      using True Message by (simp add: step_def)
    show ?thesis
    proof (cases msg)
      case (AdminAttach a1 a2 a3)
      then show ?thesis
        using assms Message a s
        by (simp add: istep_Arrive_hold istep_Resume_hold attach_blocks on_message_def hold_done)
    next
      case (RequestJoin a1 a2 a3)
      have "proceed bc ex mid n0 n1 (proceed bc ex mid n0 n1 (proceed bc ex mid n0 n1
              (frame_begin (cur q) ws (RequestJoin a1 a2 a3))))
            = (request_join bc (cur q) ws a1 a2 a3 mid n0 n1, None)"
        by (simp add: join_blocks)
      with RequestJoin show ?thesis
        using assms Message a s
        by (simp add: istep_Arrive_hold istep_Resume_hold on_message_def hold_done)
    next
      case (Approve rid)
      have "proceed bc ex mid n0 n1 (proceed bc ex mid n0 n1 (proceed bc ex mid n0 n1
              (frame_begin (cur q) ws (Approve rid))))
            = (approve_deny (cur q) ws False rid, None)"
        by (simp add: approve_blocks)
      with Approve show ?thesis
        using assms Message a s
        by (simp add: istep_Arrive_hold istep_Resume_hold on_message_def hold_done)
    next
      case (Deny rid)
      have "proceed bc ex mid n0 n1 (proceed bc ex mid n0 n1 (proceed bc ex mid n0 n1
              (frame_begin (cur q) ws (Deny rid))))
            = (approve_deny (cur q) ws True rid, None)"
        by (simp add: approve_blocks)
      with Deny show ?thesis
        using assms Message a s
        by (simp add: istep_Arrive_hold istep_Resume_hold on_message_def hold_done)
    next
      case (Chat text0)
      then show ?thesis
        using assms Message a s
        by (simp add: istep_Arrive_hold istep_Resume_hold chat_blocks on_message_def hold_done)
    next
      case Unparsed
      have "frame_begin (cur q) ws Unparsed = (cur q, None)" by (simp add: frame_begin_def)
      with Unparsed show ?thesis
        using assms Message a s
        by (simp add: istep_Arrive_hold istep_Resume_none on_message_def hold_done)
    qed
  qed
qed

lemma running_idle [simp]: "running (idle s)" "stopped (idle s) = []" "cur (idle s) = s"
  by (simp_all add: idle_def)

lemma idle_cur: "idle s\<lparr>cur := s'\<rparr> = idle s'"
  by (simp add: idle_def)

text \<open>Every state that \<open>step\<close> reaches is a state of the interleaved server, at rest.\<close>

lemma reachable_ireachable:
  "reachable bc ex s \<Longrightarrow> ireachable bc ex (idle s)"
proof (induction rule: reachable.induct)
  case (reachable_initial s)
  then show ?case by (rule ireachable_initial)
next
  case (reachable_step s e)
  have "irun bc ex (idle s) (burst 0 e) = idle (step bc ex s e)"
    using burst_step [of "idle s" bc ex e] by (simp add: idle_cur)
  with ireachable_irun [OF reachable_step.IH, of "burst 0 e"] show ?case by simp
qed

section \<open>The invariants in the interleaved server\<close>

lemma inv_attach_enter:
  assumes "server_inv s" and "ws_readyState (sock s ws) \<noteq> CONNECTING"
  shows "server_inv (fst (attach_enter s ws r sd room ok))"
proof (cases ok)
  case False
  with assms show ?thesis by (simp add: attach_enter_def)
next
  case True
  let ?t = "(set_sender (set_roomId (set_isAdmin s ws True) ws r) ws sd)
             \<lparr>adminsByRoom := addTo (adminsByRoom s) r ws,
              clientsByRoom := addTo (clientsByRoom s) r ws\<rparr>"
  let ?u = "(set_roomId s ws r)
             \<lparr>adminsByRoom := addTo (adminsByRoom s) r ws,
              clientsByRoom := addTo (clientsByRoom s) r ws\<rparr>"
  have "server_inv ?t = server_inv ?u" by (rule inv_cong_sock) simp_all
  moreover have "server_inv ?u" using assms by (rule inv_attach)
  ultimately show ?thesis using True by (simp add: attach_enter_def Let_def)
qed

lemma inv_join_commit:
  assumes "server_inv s" and "ws_readyState (sock s ws) \<noteq> CONNECTING"
  shows "server_inv (join_commit s ws r sd ok mid n0 n1)"
proof (cases ok)
  case False
  with assms show ?thesis by (simp add: join_commit_def)
next
  case True
  let ?req = "\<lparr>p_ws = ws, p_roomId = r, p_sender = sd, p_createdAt = n0\<rparr>"
  let ?s1 = "set_sender s ws sd"
  have i: "server_inv ?s1" using assms by simp
  have "server_inv (?s1\<lparr>pending := jsmap_set (pending s) mid ?req\<rparr>)"
    by (rule inv_pending_insert [OF i, where k = mid and req = ?req])
      (use assms set_jsmap_set [of "pending s" mid ?req] in simp_all)
  then show ?thesis using True by (simp add: join_commit_def Let_def)
qed

lemma inv_approve_history [simp]: "server_inv (approve_history s req h) = server_inv s"
  by (simp add: approve_history_def)

lemma inv_approve_begin:
  assumes "server_inv s"
  shows "server_inv (fst (approve_begin s ws d rid))"
proof -
  have "server_inv (approve_deny s ws d rid) = server_inv (fst (approve_begin s ws d rid))"
    by (simp add: approve_deny_def case_prod_beta split: option.split)
  then show ?thesis using inv_approve_deny [OF assms, of ws d rid] by simp
qed

lemma inv_action_finish: "server_inv s \<Longrightarrow> server_inv (fst (action_finish s r action))"
  by (simp add: action_finish_def Let_def denyPendingForRoom_def inv_kickRoom inv_deny_each)

lemma inv_frame_begin:
  "server_inv s \<Longrightarrow> server_inv (fst (frame_begin s ws msg))"
  by (cases msg)
    (simp_all add: frame_begin_def Let_def case_prod_beta inv_approve_begin chat_begin_def
      split: option.split)

lemma inv_arrive: "server_inv s \<Longrightarrow> server_inv (fst (arrive s a))"
proof (cases a)
  case (SocketOpen ws)
  assume "server_inv s"
  with SocketOpen show ?thesis by (simp add: arrive_def inv_on_connection)
next
  case (SocketFrame ws msg)
  assume "server_inv s"
  with SocketFrame show ?thesis by (simp add: arrive_def inv_frame_begin)
next
  case (SocketClose ws)
  assume "server_inv s"
  with SocketClose show ?thesis by (auto simp add: arrive_def inv_on_close)
next
  case (PostUpload upf r pw sender)
  assume "server_inv s"
  with PostUpload show ?thesis
    by (simp add: arrive_def multer_single_def Let_def case_prod_beta split: option.split sum.split)
qed (simp_all add: arrive_def split: sum.split)

lemma inv_resume:
  assumes "server_inv s" and "\<And>ws. task_sock t = Some ws \<Longrightarrow> ws_readyState (sock s ws) \<noteq> CONNECTING"
  shows "server_inv (fst (resume bc ex s t mid n0 n1))"
proof (cases t)
  case (AttachRoom ws r pw sd room0)
  with assms(1) show ?thesis by (simp add: case_prod_beta attach_checks_def split: option.split)
next
  case (AttachPass ws r sd room ok)
  with assms inv_attach_enter [of s ws r sd room ok] show ?thesis
    by (simp add: case_prod_beta split: option.split)
next
  case (AttachHistory ws r sd h)
  with assms(1) show ?thesis by (simp add: attach_history_def)
next
  case (JoinRoom ws r pw sd room0)
  with assms(1) show ?thesis by (simp add: case_prod_beta join_checks_def split: option.split)
next
  case (JoinPass ws r sd ok)
  with assms inv_join_commit [of s ws r sd ok mid n0 n1] show ?thesis by simp
next
  case (ApproveHistory req h)
  with assms(1) show ?thesis by simp
next
  case (ChatRoom ws text0 room0)
  with assms(1) show ?thesis
    by (simp add: case_prod_beta chat_checks_def addText_def inv_ws_close Let_def split: option.split)
next
  case (ChatStored ws body)
  with assms(1) show ?thesis by (simp add: chat_deliver_def Let_def split: option.split)
next
  case (CreateHashes r h1 h2)
  with assms(1) show ?thesis by (simp add: case_prod_beta create_insert_def)
next
  case (ActionPass r action ok)
  with assms(1) show ?thesis by (simp add: case_prod_beta action_write_def split: option.split)
next
  case (ActionWritten r action)
  with assms(1) show ?thesis by (simp add: inv_action_finish)
next
  case (UploadPass upf r sd ok)
  with assms(1) show ?thesis
    by (simp add: case_prod_beta upload_store_def addFile_def Let_def split: option.split sum.split)
next
  case (UploadStored r a b c d)
  with assms(1) show ?thesis by (simp add: upload_deliver_def Let_def)
qed (simp_all add: assms(1) split: sum.split)

text \<open>A socket that has had its \<^verbatim>\<open>connection\<close> event is never CONNECTING again.\<close>

lemma connected_blocks:
  "ws_readyState (sock s c) \<noteq> CONNECTING \<Longrightarrow>
   ws_readyState (sock (fst (approve_begin s ws d rid)) c) \<noteq> CONNECTING"
  "ws_readyState (sock s c) \<noteq> CONNECTING \<Longrightarrow>
   ws_readyState (sock (fst (chat_begin s ws)) c) \<noteq> CONNECTING"
  "ws_readyState (sock s c) \<noteq> CONNECTING \<Longrightarrow>
   ws_readyState (sock (fst (chat_checks s ws t room0 n0)) c) \<noteq> CONNECTING"
  "ws_readyState (sock s c) \<noteq> CONNECTING \<Longrightarrow>
   ws_readyState (sock (fst (attach_enter s ws r sd room ok)) c) \<noteq> CONNECTING"
  "ws_readyState (sock s c) \<noteq> CONNECTING \<Longrightarrow>
   ws_readyState (sock (join_commit s ws r sd ok mid n0 n1) c) \<noteq> CONNECTING"
  "ws_readyState (sock s c) \<noteq> CONNECTING \<Longrightarrow>
   ws_readyState (sock (fst (action_finish s r action)) c) \<noteq> CONNECTING"
  by (auto simp add: approve_begin_def chat_begin_def chat_checks_def attach_enter_def
      join_commit_def action_finish_def Let_def denyPendingForRoom_def
      readyState_kickRoom readyState_deny_each split: option.split if_splits)

lemma connected_frame_begin:
  "ws_readyState (sock s c) \<noteq> CONNECTING \<Longrightarrow>
   ws_readyState (sock (fst (frame_begin s ws msg)) c) \<noteq> CONNECTING"
  by (cases msg)
    (simp_all add: frame_begin_def Let_def case_prod_beta connected_blocks split: option.split)

lemma connected_arrive:
  "ws_readyState (sock s c) \<noteq> CONNECTING \<Longrightarrow>
   ws_readyState (sock (fst (arrive s a)) c) \<noteq> CONNECTING"
  by (cases a)
    (auto simp add: arrive_def Let_def case_prod_beta connected_frame_begin on_connection_def
      multer_single_def split: option.split sum.split)

lemma connected_resume:
  "ws_readyState (sock s c) \<noteq> CONNECTING \<Longrightarrow>
   ws_readyState (sock (fst (resume bc ex s t mid n0 n1)) c) \<noteq> CONNECTING"
  by (cases t)
    (simp_all add: case_prod_beta connected_blocks attach_checks_def join_checks_def
      attach_history_def approve_history_def chat_deliver_def create_insert_def action_write_def
      upload_store_def upload_deliver_def Let_def split: option.split sum.split)

lemma task_sock_arrive:
  "snd (arrive s a) = Some t \<Longrightarrow> task_sock t = Some ws \<Longrightarrow>
   ws_readyState (sock (fst (arrive s a)) ws) \<noteq> CONNECTING"
  by (cases a)
    (auto simp add: arrive_def frame_begin_def Let_def case_prod_beta
      split: ws_msg.splits option.splits sum.splits if_splits)

lemma task_sock_resume:
  "snd (resume bc ex s t mid n0 n1) = Some t' \<Longrightarrow> task_sock t' = Some ws \<Longrightarrow> task_sock t = Some ws"
  by (cases t) (auto simp add: case_prod_beta split: option.splits sum.splits)

lemma inv_istep:
  assumes "server_inv (cur q)" and "inv_stopped q"
  shows "server_inv (cur (istep bc ex q e)) \<and> inv_stopped (istep bc ex q e)"
proof (cases "running q")
  case False
  then show ?thesis using assms by (simp add: istep_halted)
next
  case True
  show ?thesis
  proof (cases e)
    case (Arrive a)
    have "inv_stopped (istep bc ex q e)"
      unfolding inv_stopped_def
    proof (intro ballI allI impI)
      fix t ws
      assume t: "t \<in> set (stopped (istep bc ex q e))" and w: "task_sock t = Some ws"
      from t True Arrive
      consider "t \<in> set (stopped q)" | "snd (arrive (cur q) a) = Some t"
        by (auto simp add: istep_Arrive set_opt_list split: option.splits)
      then show "ws_readyState (sock (cur (istep bc ex q e)) ws) \<noteq> CONNECTING"
      proof cases
        case 1
        with assms(2) w have "ws_readyState (sock (cur q) ws) \<noteq> CONNECTING"
          by (simp add: inv_stopped_def)
        then show ?thesis using True Arrive by (simp add: istep_Arrive connected_arrive)
      next
        case 2
        then show ?thesis using True Arrive w by (simp add: istep_Arrive task_sock_arrive)
      qed
    qed
    then show ?thesis using True Arrive assms(1) by (simp add: istep_Arrive inv_arrive)
  next
    case (Resume k mid n0 n1)
    show ?thesis
    proof (cases "k < length (stopped q)")
      case False
      with Resume assms show ?thesis by (simp add: istep_Resume_none)
    next
      case k: True
      let ?t = "stopped q ! k"
      have tk: "?t \<in> set (stopped q)" using k by simp
      have c: "ws_readyState (sock (cur q) ws) \<noteq> CONNECTING" if "task_sock ?t = Some ws" for ws
        using assms(2) tk that by (simp add: inv_stopped_def)
      have i: "server_inv (cur (istep bc ex q e))"
        using True k Resume inv_resume [OF assms(1) c] by (simp add: istep_Resume)
      have "inv_stopped (istep bc ex q e)"
        unfolding inv_stopped_def
      proof (intro ballI allI impI)
        fix t ws
        assume t: "t \<in> set (stopped (istep bc ex q e))" and w: "task_sock t = Some ws"
        from t True k Resume set_take_drop [of k "stopped q"]
        consider "t \<in> set (stopped q)" | "snd (resume bc ex (cur q) ?t mid n0 n1) = Some t"
          by (auto simp add: istep_Resume set_opt_list split: option.splits)
        then have "ws_readyState (sock (cur q) ws) \<noteq> CONNECTING"
        proof cases
          case 1
          with assms(2) w show ?thesis by (simp add: inv_stopped_def)
        next
          case 2
          from task_sock_resume [OF 2 w] show ?thesis by (rule c)
        qed
        then show "ws_readyState (sock (cur (istep bc ex q e)) ws) \<noteq> CONNECTING"
          using True k Resume by (simp add: istep_Resume connected_resume)
      qed
      with i show ?thesis by simp
    qed
  next
    case (Throw ws)
    then show ?thesis using assms by (simp add: inv_stopped_def)
  qed
qed

text \<open>
  The invariants hold in every state of the interleaved server.
\<close>

lemma ireachable_inv: "ireachable bc ex q \<Longrightarrow> server_inv (cur q) \<and> inv_stopped q"
proof (induction rule: ireachable.induct)
  case (ireachable_initial s)
  then show ?case by (simp add: inv_initial inv_stopped_def)
next
  case (ireachable_step q e)
  then show ?case using inv_istep by blast
qed

section \<open>The disable action in the interleaved server\<close>

lemma evict_state:
  "action_finish s roomId ''disable'' =
     (denyPendingForRoom
        (kickRoom (broadcastToAdmins s roomId (RoomStatus False)) roomId ''Room disabled by admin'')
        roomId ''Room disabled by admin'', (200, Ok))"
  by (simp add: action_finish_def Let_def)

lemma evict_effect:
  assumes "action_finish s roomId ''disable'' = (s', resp)"
  shows "resp = (200, Ok)"
    and "rooms s' = rooms s"
    and "send_log s' = send_log s
           @ map (\<lambda>a. (a, RoomStatus False)) (membersOf (adminsByRoom s) roomId)
           @ map (\<lambda>c. (c, Kicked ''Room disabled by admin'')) (membersOf (clientsByRoom s) roomId)
           @ map (\<lambda>e. (p_ws (snd e), Error ''Room disabled by admin''))
               (filter (\<lambda>e. p_roomId (snd e) = roomId) (pending s))"
    and "membersOf (clientsByRoom s') roomId = []"
    and "adminsByRoom s' = adminsByRoom s"
    and "messages s' = messages s"
    and "set (pending s') \<subseteq> set (pending s)"
    and "\<And>e. e \<in> set (pending s') \<Longrightarrow> p_roomId (snd e) \<noteq> roomId"
    and "\<And>c. c \<in> set (membersOf (clientsByRoom s) roomId) \<Longrightarrow> \<not> is_open s' c"
    and "\<And>c. c \<in> set (membersOf (clientsByRoom s) roomId) \<Longrightarrow> is_open s c \<Longrightarrow>
           (c, Kicked ''Room disabled by admin'') \<in> set (wire s')"
    and "\<And>e. e \<in> set (pending s) \<Longrightarrow> p_roomId (snd e) = roomId \<Longrightarrow>
           \<not> is_open s' (p_ws (snd e)) \<and> jsmap_get (pending s') (fst e) = None"
    and "\<And>e. e \<in> set (pending s) \<Longrightarrow> p_roomId (snd e) = roomId \<Longrightarrow> is_open s (p_ws (snd e)) \<Longrightarrow>
           p_ws (snd e) \<notin> set (membersOf (clientsByRoom s) roomId) \<Longrightarrow>
           (p_ws (snd e), Error ''Room disabled by admin'') \<in> set (wire s')"
proof -
  let ?s1 = "broadcastToAdmins s roomId (RoomStatus False)"
  let ?s2 = "kickRoom ?s1 roomId ''Room disabled by admin''"
  have s': "s' = denyPendingForRoom ?s2 roomId ''Room disabled by admin''" and r: "resp = (200, Ok)"
    using evict_state [of s roomId] assms by simp_all
  show "resp = (200, Ok)" by (rule r)
  show "rooms s' = rooms s" by (simp add: s')
  show "send_log s' = send_log s
           @ map (\<lambda>a. (a, RoomStatus False)) (membersOf (adminsByRoom s) roomId)
           @ map (\<lambda>c. (c, Kicked ''Room disabled by admin'')) (membersOf (clientsByRoom s) roomId)
           @ map (\<lambda>e. (p_ws (snd e), Error ''Room disabled by admin''))
               (filter (\<lambda>e. p_roomId (snd e) = roomId) (pending s))"
    by (simp add: s' denyPendingForRoom_def)
  show "membersOf (clientsByRoom s') roomId = []"
    by (simp add: s' denyPendingForRoom_def membersOf_def)
  show "adminsByRoom s' = adminsByRoom s" by (simp add: s' denyPendingForRoom_def)
  show "messages s' = messages s" by (simp add: s' denyPendingForRoom_def)
  have p: "pending s' = filter (\<lambda>e. fst e \<notin> fst ` {x \<in> set (pending s). p_roomId (snd x) = roomId}) (pending s)"
    by (simp add: s' pending_denyPendingForRoom)
  show "set (pending s') \<subseteq> set (pending s)" by (auto simp add: p)
  show "p_roomId (snd e) \<noteq> roomId" if "e \<in> set (pending s')" for e
    using that by (auto simp add: p)
  show "\<not> is_open s' c" if "c \<in> set (membersOf (clientsByRoom s) roomId)" for c
    using that by (simp add: s' denyPendingForRoom_def)
  show "(c, Kicked ''Room disabled by admin'') \<in> set (wire s')"
    if "c \<in> set (membersOf (clientsByRoom s) roomId)" "is_open s c" for c
  proof -
    from that have "(c, Kicked ''Room disabled by admin'') \<in> set (wire ?s2)"
      by (intro kicked_on_wire_kickRoom) simp_all
    with wire_mono_deny_each show ?thesis unfolding s' denyPendingForRoom_def by blast
  qed
  show "\<not> is_open s' (p_ws (snd e)) \<and> jsmap_get (pending s') (fst e) = None"
    if "e \<in> set (pending s)" "p_roomId (snd e) = roomId" for e
  proof
    from that show "\<not> is_open s' (p_ws (snd e))"
      by (auto simp add: s' denyPendingForRoom_def)
    from that have "fst e \<notin> fst ` set (pending s')" by (auto simp add: p)
    then show "jsmap_get (pending s') (fst e) = None"
      by (simp add: jsmap_get_def map_of_eq_None_iff)
  qed
  show "(p_ws (snd e), Error ''Room disabled by admin'') \<in> set (wire s')"
    if "e \<in> set (pending s)" "p_roomId (snd e) = roomId" "is_open s (p_ws (snd e))"
      "p_ws (snd e) \<notin> set (membersOf (clientsByRoom s) roomId)" for e
    unfolding s' denyPendingForRoom_def
    using that by (intro denied_on_wire) simp_all
qed










section \<open>Each pending request is resolved once\<close>

lemma approve_begin_not_found:
  "ws_isAdmin (sock s ws) \<Longrightarrow> truthy (ws_roomId (sock s ws)) \<Longrightarrow>
   jsmap_get (pending s) rid = None \<Longrightarrow>
   approve_begin s ws d rid = (send s ws (Error ''Request not found''), None)"
  by (simp add: approve_begin_def)

lemma deny_begin:
  assumes "ws_isAdmin (sock s ws)" and "ws_roomId (sock s ws) = Some roomId" and "roomId \<noteq> []"
    and "jsmap_get (pending s) rid = Some req" and "p_roomId req = roomId"
  shows "approve_begin s ws True rid =
     (ws_close
        (send (broadcastToAdmins (s\<lparr>pending := jsmap_delete (pending s) rid\<rparr>) roomId
                 (JoinRequestClosed rid))
           (p_ws req) JoinDenied)
        (p_ws req), None)"
  using assms by (simp add: approve_begin_def truthy_def Let_def)

lemma approve_begin_ok:
  assumes "ws_isAdmin (sock s ws)" and "ws_roomId (sock s ws) = Some roomId" and "roomId \<noteq> []"
    and "jsmap_get (pending s) rid = Some req" and "p_roomId req = roomId"
  shows "approve_begin s ws False rid =
     (send
        ((set_roomId (broadcastToAdmins (s\<lparr>pending := jsmap_delete (pending s) rid\<rparr>) roomId
             (JoinRequestClosed rid)) (p_ws req) roomId)
           \<lparr>clientsByRoom := addTo (clientsByRoom s) roomId (p_ws req)\<rparr>)
        (p_ws req) (Joined roomId),
      Some (req, getHistory s roomId 200))"
  using assms by (simp add: approve_begin_def truthy_def Let_def getHistory_def)

lemma close_arrives:
  "ws_readyState (sock s ws) = OPEN \<or> ws_readyState (sock s ws) = CLOSING \<Longrightarrow>
   arrive s (SocketClose ws) = (on_close (set_readyState s ws CLOSED) ws, None)"
  by (auto simp add: arrive_def)


text \<open>
  Claim C2, as stated, fails for a request whose owner disconnects while the
  \<^verbatim>\<open>request-join\<close> handler waits for \<^verbatim>\<open>bcrypt.compare\<close>: the \<^verbatim>\<open>close\<close> handler
  finds no request of the socket, and the handler stores the request afterwards without
  looking at \<^verbatim>\<open>ws.readyState\<close>. In \<open>orphan_end\<close> socket 6 is CLOSED, no handler is
  stopped, and the request \<open>id4\<close> of socket 6 is pending: it was announced to the admin,
  no \<^verbatim>\<open>join-request-closed\<close> was sent for it, and a further \<^verbatim>\<open>close\<close> event of the
  socket changes nothing. The admin can still approve it, which makes the closed socket a
  member of the room (\<open>orphan_approved\<close>).
\<close>

theorem request_stored_after_owner_closed:
  "ireachable toy_bcrypt toy_extname orphan_end
   \<and> stopped orphan_end = []
   \<and> ws_readyState (sock (cur orphan_end) 6) = CLOSED
   \<and> pending (cur orphan_end) =
       [(''id4'', \<lparr>p_ws = 6, p_roomId = ''r2'', p_sender = ''Fay'', p_createdAt = 60\<rparr>)]
   \<and> send_log (cur orphan_end) =
       [(4, AdminAttached ''r2'' True), (4, PendingList []), (4, History []),
        (4, System ''Dan (admin) joined.''), (6, Waiting ''id4''),
        (4, JoinRequest ''id4'' ''Fay'' 61)]
   \<and> arrive (cur orphan_end) (SocketClose 6) = (cur orphan_end, None)
   \<and> stopped orphan_approved = []
   \<and> pending (cur orphan_approved) = []
   \<and> membersOf (clientsByRoom (cur orphan_approved)) ''r2'' = [4, 6]"
proof -
  have r: "ireachable toy_bcrypt toy_extname orphan_end"
    unfolding orphan_end_def by (intro ireachable_irun ireachable_initial initial_boot)
  have c: "ws_readyState (sock (cur orphan_end) 6) = CLOSED" by code_simp
  have "stopped orphan_end = []" by code_simp
  moreover have "pending (cur orphan_end) =
       [(''id4'', \<lparr>p_ws = 6, p_roomId = ''r2'', p_sender = ''Fay'', p_createdAt = 60\<rparr>)]"
    by code_simp
  moreover have "send_log (cur orphan_end) =
       [(4, AdminAttached ''r2'' True), (4, PendingList []), (4, History []),
        (4, System ''Dan (admin) joined.''), (6, Waiting ''id4''),
        (4, JoinRequest ''id4'' ''Fay'' 61)]"
    by code_simp
  moreover have "arrive (cur orphan_end) (SocketClose 6) = (cur orphan_end, None)"
    using c by (simp add: arrive_def)
  moreover have "stopped orphan_approved = []" by code_simp
  moreover have "pending (cur orphan_approved) = []" by code_simp
  moreover have "membersOf (clientsByRoom (cur orphan_approved)) ''r2'' = [4, 6]" by code_simp
  ultimately show ?thesis using r c by blast
qed

text \<open>
  Claim C2, amended. A request leaves the pending map in the block that resolves it. When
  an admin of the request's room approves or denies it, the first block of the handler
  deletes it and then runs the side effects on the state without it (for a denial:
  \<^verbatim>\<open>join-request-closed\<close> to the admins, \<^verbatim>\<open>join-denied\<close> to the owner, whose socket
  is closed; for an approval the owner joins the room, and the block that follows
  \<^verbatim>\<open>await getHistory\<close> leaves the pending map alone). When a socket closes, the
  \<^verbatim>\<open>close\<close> handler, which has no \<^verbatim>\<open>await\<close>, deletes every request that the socket
  owns at that moment and sends \<^verbatim>\<open>join-request-closed\<close> for each to the admins of that
  request's room. A request id that is not in the pending map stays out of it along all
  events of the interleaved server in which no handler is given that id by
  \<^verbatim>\<open>makeId\<close>, and every \<^verbatim>\<open>approve\<close> or \<^verbatim>\<open>deny\<close> that an admin sends with such an
  id is answered \<open>Request not found\<close> and changes nothing else; so a resolved request is
  not resolved again.
\<close>

theorem pending_request_resolved_once:
  "(ws_isAdmin (sock s ws) \<and> ws_roomId (sock s ws) = Some roomId \<and> roomId \<noteq> []
      \<and> jsmap_get (pending s) rid = Some req \<and> p_roomId req = roomId \<longrightarrow>
        pending (fst (approve_begin s ws dny rid)) = jsmap_delete (pending s) rid
      \<and> jsmap_get (pending (fst (approve_begin s ws dny rid))) rid = None
      \<and> approve_begin s ws True rid =
          (ws_close
             (send (broadcastToAdmins (s\<lparr>pending := jsmap_delete (pending s) rid\<rparr>) roomId
                      (JoinRequestClosed rid))
                (p_ws req) JoinDenied)
             (p_ws req), None)
      \<and> approve_begin s ws False rid =
          (send
             ((set_roomId (broadcastToAdmins (s\<lparr>pending := jsmap_delete (pending s) rid\<rparr>) roomId
                  (JoinRequestClosed rid)) (p_ws req) roomId)
                \<lparr>clientsByRoom := addTo (clientsByRoom s) roomId (p_ws req)\<rparr>)
             (p_ws req) (Joined roomId),
           Some (req, getHistory s roomId 200))
      \<and> pending (approve_history s1 req history) = pending s1
      \<and> approve_deny s ws True rid = fst (approve_begin s ws True rid)
      \<and> approve_deny s ws False rid
          = approve_history (fst (approve_begin s ws False rid)) req (getHistory s roomId 200)
      \<and> (\<forall>q es ws' dny'.
            cur q = fst (approve_begin s ws dny rid)
            \<and> (\<forall>e \<in> set es. \<not> gives_id rid e)
            \<and> ws_isAdmin (sock (cur (irun bc extname q es)) ws')
            \<and> truthy (ws_roomId (sock (cur (irun bc extname q es)) ws')) \<longrightarrow>
            approve_begin (cur (irun bc extname q es)) ws' dny' rid
              = (send (cur (irun bc extname q es)) ws' (Error ''Request not found''), None)))
   \<and> (ws_readyState (sock s ws) = OPEN \<or> ws_readyState (sock s ws) = CLOSING \<longrightarrow>
        snd (arrive s (SocketClose ws)) = None
      \<and> ws_readyState (sock (fst (arrive s (SocketClose ws))) ws) = CLOSED
      \<and> (\<forall>e \<in> set (pending (fst (arrive s (SocketClose ws)))). e \<in> set (pending s) \<and> p_ws (snd e) \<noteq> ws)
      \<and> (\<forall>e \<in> set (pending s). p_ws (snd e) = ws \<longrightarrow>
            jsmap_get (pending (fst (arrive s (SocketClose ws)))) (fst e) = None)
      \<and> send_log (fst (arrive s (SocketClose ws))) = send_log s
          @ concat (map (\<lambda>e. map (\<lambda>a. (a, JoinRequestClosed (fst e)))
                               (membersOf (adminsByRoom (fst (arrive s (SocketClose ws)))) (p_roomId (snd e))))
                        (filter (\<lambda>e. p_ws (snd e) = ws) (pending s))))
   \<and> (ws_isAdmin (sock s ws) \<and> truthy (ws_roomId (sock s ws)) \<and> jsmap_get (pending s) rid = None \<longrightarrow>
        approve_begin s ws dny rid = (send s ws (Error ''Request not found''), None))
   \<and> (jsmap_get (pending (cur q)) rid = None \<and> (\<forall>e \<in> set es. \<not> gives_id rid e) \<longrightarrow>
        jsmap_get (pending (cur (irun bc extname q es))) rid = None)"
proof (intro conjI impI)
  assume "ws_isAdmin (sock s ws) \<and> ws_roomId (sock s ws) = Some roomId \<and> roomId \<noteq> []
      \<and> jsmap_get (pending s) rid = Some req \<and> p_roomId req = roomId"
  then have a: "ws_isAdmin (sock s ws)" "ws_roomId (sock s ws) = Some roomId" "roomId \<noteq> []"
    "jsmap_get (pending s) rid = Some req" "p_roomId req = roomId" by simp_all
  show d: "approve_begin s ws True rid =
          (ws_close
             (send (broadcastToAdmins (s\<lparr>pending := jsmap_delete (pending s) rid\<rparr>) roomId
                      (JoinRequestClosed rid))
                (p_ws req) JoinDenied)
             (p_ws req), None)"
    by (rule deny_begin [OF a])
  show ap: "approve_begin s ws False rid =
          (send
             ((set_roomId (broadcastToAdmins (s\<lparr>pending := jsmap_delete (pending s) rid\<rparr>) roomId
                  (JoinRequestClosed rid)) (p_ws req) roomId)
                \<lparr>clientsByRoom := addTo (clientsByRoom s) roomId (p_ws req)\<rparr>)
             (p_ws req) (Joined roomId),
           Some (req, getHistory s roomId 200))"
    by (rule approve_begin_ok [OF a])
  show p: "pending (fst (approve_begin s ws dny rid)) = jsmap_delete (pending s) rid"
    by (cases dny) (simp_all add: d ap)
  show n: "jsmap_get (pending (fst (approve_begin s ws dny rid))) rid = None"
    by (simp add: p)
  show "pending (approve_history s1 req history) = pending s1" by simp
  show "approve_deny s ws True rid = fst (approve_begin s ws True rid)"
    by (simp add: approve_deny_def d)
  show "approve_deny s ws False rid
          = approve_history (fst (approve_begin s ws False rid)) req (getHistory s roomId 200)"
    by (simp add: approve_deny_def ap)
  show "\<forall>q es ws' dny'.
            cur q = fst (approve_begin s ws dny rid)
            \<and> (\<forall>e \<in> set es. \<not> gives_id rid e)
            \<and> ws_isAdmin (sock (cur (irun bc extname q es)) ws')
            \<and> truthy (ws_roomId (sock (cur (irun bc extname q es)) ws')) \<longrightarrow>
            approve_begin (cur (irun bc extname q es)) ws' dny' rid
              = (send (cur (irun bc extname q es)) ws' (Error ''Request not found''), None)"
  proof (intro allI impI)
    fix q es ws' dny'
    assume h: "cur q = fst (approve_begin s ws dny rid)
            \<and> (\<forall>e \<in> set es. \<not> gives_id rid e)
            \<and> ws_isAdmin (sock (cur (irun bc extname q es)) ws')
            \<and> truthy (ws_roomId (sock (cur (irun bc extname q es)) ws'))"
    then have "jsmap_get (pending (cur q)) rid = None" using n by simp
    with h have "jsmap_get (pending (cur (irun bc extname q es))) rid = None"
      by (intro pending_key_irun) simp_all
    with h show "approve_begin (cur (irun bc extname q es)) ws' dny' rid
              = (send (cur (irun bc extname q es)) ws' (Error ''Request not found''), None)"
      by (intro approve_begin_not_found) simp_all
  qed
next
  assume o: "ws_readyState (sock s ws) = OPEN \<or> ws_readyState (sock s ws) = CLOSING"
  note st = close_arrives [OF o]
  have p: "pending (fst (arrive s (SocketClose ws))) =
     filter (\<lambda>e. fst e \<notin> fst ` {x \<in> set (pending s). p_ws (snd x) = ws}) (pending s)"
    by (simp add: st pending_on_close)
  show "snd (arrive s (SocketClose ws)) = None" by (simp add: st)
  show "ws_readyState (sock (fst (arrive s (SocketClose ws))) ws) = CLOSED"
    by (simp add: st set_readyState_def)
  show "\<forall>e \<in> set (pending (fst (arrive s (SocketClose ws)))). e \<in> set (pending s) \<and> p_ws (snd e) \<noteq> ws"
    by (force simp add: p)
  show "\<forall>e \<in> set (pending s). p_ws (snd e) = ws \<longrightarrow>
            jsmap_get (pending (fst (arrive s (SocketClose ws)))) (fst e) = None"
    unfolding p jsmap_get_None_iff
    by (intro ballI impI filtered_key_gone)
  show "send_log (fst (arrive s (SocketClose ws))) = send_log s
          @ concat (map (\<lambda>e. map (\<lambda>a. (a, JoinRequestClosed (fst e)))
                               (membersOf (adminsByRoom (fst (arrive s (SocketClose ws)))) (p_roomId (snd e))))
                        (filter (\<lambda>e. p_ws (snd e) = ws) (pending s)))"
    unfolding st
    using send_log_on_close [of "set_readyState s ws CLOSED" ws]
    by (simp add: set_readyState_def)
next
  assume "ws_isAdmin (sock s ws) \<and> truthy (ws_roomId (sock s ws)) \<and> jsmap_get (pending s) rid = None"
  then show "approve_begin s ws dny rid = (send s ws (Error ''Request not found''), None)"
    by (simp add: approve_begin_not_found)
next
  assume "jsmap_get (pending (cur q)) rid = None \<and> (\<forall>e \<in> set es. \<not> gives_id rid e)"
  then show "jsmap_get (pending (cur (irun bc extname q es))) rid = None"
    by (simp add: pending_key_irun)
qed

theorem pending_request_resolved_once_witness:
  "pending demo = [(''id1'', \<lparr>p_ws = 2, p_roomId = ''r1'', p_sender = ''Bob'', p_createdAt = 10\<rparr>),
                   (''id3'', \<lparr>p_ws = 5, p_roomId = ''r2'', p_sender = ''Eve'', p_createdAt = 50\<rparr>)]
   \<and> pending (fst (approve_begin demo 1 True ''id1'')) =
       [(''id3'', \<lparr>p_ws = 5, p_roomId = ''r2'', p_sender = ''Eve'', p_createdAt = 50\<rparr>)]
   \<and> approve_begin
        (cur (irun toy_bcrypt toy_extname (idle (fst (approve_begin demo 1 True ''id1'')))
                [Arrive (SocketOpen 6)])) 1 False ''id1''
       = (send (cur (irun toy_bcrypt toy_extname (idle (fst (approve_begin demo 1 True ''id1'')))
                       [Arrive (SocketOpen 6)])) 1
            (Error ''Request not found''), None)
   \<and> approve_begin
        (cur (irun toy_bcrypt toy_extname (idle (fst (approve_begin demo 1 False ''id1'')))
                [Arrive (SocketOpen 6)])) 1 True ''id1''
       = (send (cur (irun toy_bcrypt toy_extname (idle (fst (approve_begin demo 1 False ''id1'')))
                       [Arrive (SocketOpen 6)])) 1
            (Error ''Request not found''), None)
   \<and> jsmap_get (pending (fst (arrive demo (SocketClose 5)))) ''id3'' = None
   \<and> send_log (fst (arrive demo (SocketClose 5))) = send_log demo @ [(4, JoinRequestClosed ''id3'')]
   \<and> approve_begin demo 1 True ''zz'' = (send demo 1 (Error ''Request not found''), None)
   \<and> jsmap_get (pending (cur (irun toy_bcrypt toy_extname (idle demo) [Arrive (SocketOpen 6)]))) ''zz'' = None"
proof -
  let ?bob = "\<lparr>p_ws = 2, p_roomId = ''r1'', p_sender = ''Bob'', p_createdAt = 10\<rparr>"
  let ?eve = "\<lparr>p_ws = 5, p_roomId = ''r2'', p_sender = ''Eve'', p_createdAt = 50\<rparr>"
  let ?qd = "idle (fst (approve_begin demo 1 True ''id1''))"
  let ?qa = "idle (fst (approve_begin demo 1 False ''id1''))"
  let ?d = "cur (irun toy_bcrypt toy_extname ?qd [Arrive (SocketOpen 6)])"
  let ?a = "cur (irun toy_bcrypt toy_extname ?qa [Arrive (SocketOpen 6)])"
  let ?c = "fst (arrive demo (SocketClose 5))"
  note t = pending_request_resolved_once [where bc = toy_bcrypt and extname = toy_extname and s = demo]
  have p: "pending demo = [(''id1'', ?bob), (''id3'', ?eve)]" by (simp add: demo_simps)
  have a1: "ws_isAdmin (sock demo 1)" by (simp add: demo_simps)
  have r1: "ws_roomId (sock demo 1) = Some ''r1''" by (simp add: demo_simps)
  have t1: "truthy (ws_roomId (sock demo 1))" by (simp add: demo_simps)
  have id1: "jsmap_get (pending demo) ''id1'' = Some ?bob" by (simp add: demo_simps)
  have zz: "jsmap_get (pending demo) ''zz'' = None" by (simp add: demo_simps)
  have es: "\<forall>e \<in> set [Arrive (SocketOpen 6)]. \<not> gives_id x e" for x by simp
  have ad: "ws_isAdmin (sock ?d 1)" "truthy (ws_roomId (sock ?d 1))" by code_simp+
  have aa: "ws_isAdmin (sock ?a 1)" "truthy (ws_roomId (sock ?a 1))" by code_simp+
  have o5: "ws_readyState (sock demo 5) = OPEN" by (simp add: demo_simps)
  have e3: "(''id3'', ?eve) \<in> set (pending demo)" by (simp add: p)
  have ac: "membersOf (adminsByRoom ?c) ''r2'' = [4]" by code_simp
  have h: "ws_isAdmin (sock demo 1) \<and> ws_roomId (sock demo 1) = Some ''r1'' \<and> ''r1'' \<noteq> []
      \<and> jsmap_get (pending demo) ''id1'' = Some ?bob \<and> p_roomId ?bob = ''r1''"
    using a1 r1 id1 by simp
  note d = t [where ws = 1 and roomId = "''r1''" and rid = "''id1''" and req = ?bob and dny = True,
      THEN conjunct1, THEN mp, OF h]
  from d [THEN conjunct1] have w1: "pending (fst (approve_begin demo 1 True ''id1'')) = [(''id3'', ?eve)]"
    by (simp add: p jsmap_delete_def)
  have hd: "cur ?qd = fst (approve_begin demo 1 True ''id1'')
      \<and> (\<forall>e \<in> set [Arrive (SocketOpen 6)]. \<not> gives_id ''id1'' e) \<and> ws_isAdmin (sock ?d 1)
      \<and> truthy (ws_roomId (sock ?d 1))"
    using es ad by (simp add: idle_def)
  have w2: "approve_begin ?d 1 False ''id1'' = (send ?d 1 (Error ''Request not found''), None)"
    by (rule d [THEN conjunct2, THEN conjunct2, THEN conjunct2, THEN conjunct2, THEN conjunct2,
          THEN conjunct2, THEN conjunct2,
          THEN spec [where x = ?qd], THEN spec [where x = "[Arrive (SocketOpen 6)]"],
          THEN spec [where x = 1], THEN spec [where x = False], THEN mp, OF hd])
  note a = t [where ws = 1 and roomId = "''r1''" and rid = "''id1''" and req = ?bob and dny = False,
      THEN conjunct1, THEN mp, OF h]
  have ha: "cur ?qa = fst (approve_begin demo 1 False ''id1'')
      \<and> (\<forall>e \<in> set [Arrive (SocketOpen 6)]. \<not> gives_id ''id1'' e) \<and> ws_isAdmin (sock ?a 1)
      \<and> truthy (ws_roomId (sock ?a 1))"
    using es aa by (simp add: idle_def)
  have w3: "approve_begin ?a 1 True ''id1'' = (send ?a 1 (Error ''Request not found''), None)"
    by (rule a [THEN conjunct2, THEN conjunct2, THEN conjunct2, THEN conjunct2, THEN conjunct2,
          THEN conjunct2, THEN conjunct2,
          THEN spec [where x = ?qa], THEN spec [where x = "[Arrive (SocketOpen 6)]"],
          THEN spec [where x = 1], THEN spec [where x = True], THEN mp, OF ha])
  have o5': "ws_readyState (sock demo 5) = OPEN \<or> ws_readyState (sock demo 5) = CLOSING"
    using o5 by simp
  note c = t [where ws = 5, THEN conjunct2, THEN conjunct1, THEN mp, OF o5']
  have "p_ws (snd (''id3'', ?eve)) = 5 \<longrightarrow> jsmap_get (pending ?c) (fst (''id3'', ?eve)) = None"
    by (rule c [THEN conjunct2, THEN conjunct2, THEN conjunct2, THEN conjunct1, THEN bspec, OF e3])
  then have w4: "jsmap_get (pending ?c) ''id3'' = None" by simp
  from c [THEN conjunct2, THEN conjunct2, THEN conjunct2, THEN conjunct2]
  have w5: "send_log ?c = send_log demo @ [(4, JoinRequestClosed ''id3'')]"
    by (simp add: p ac)
  have hz: "ws_isAdmin (sock demo 1) \<and> truthy (ws_roomId (sock demo 1))
      \<and> jsmap_get (pending demo) ''zz'' = None"
    using a1 t1 zz by simp
  have w6: "approve_begin demo 1 True ''zz'' = (send demo 1 (Error ''Request not found''), None)"
    by (rule t [where ws = 1 and rid = "''zz''" and dny = True,
          THEN conjunct2, THEN conjunct2, THEN conjunct1, THEN mp, OF hz])
  have hr: "jsmap_get (pending (cur (idle demo))) ''zz'' = None
      \<and> (\<forall>e \<in> set [Arrive (SocketOpen 6)]. \<not> gives_id ''zz'' e)"
    using zz es by (simp add: idle_def)
  have w7: "jsmap_get (pending (cur (irun toy_bcrypt toy_extname (idle demo) [Arrive (SocketOpen 6)]))) ''zz'' = None"
    by (rule t [where rid = "''zz''" and es = "[Arrive (SocketOpen 6)]" and q = "idle demo",
          THEN conjunct2, THEN conjunct2, THEN conjunct2, THEN mp, OF hr])
  from p w1 w2 w3 w4 w5 w6 w7 show ?thesis by (intro conjI)
qed

section \<open>Attached admins are members\<close>

lemma admin_attach_sets:
  assumes "getRoom s (trim roomId0) = Some room"
    and "bc_compare bc adminPassword (adminPassHash room)"
  shows "adminsByRoom (admin_attach bc s ws roomId0 adminPassword sender0)
           = addTo (adminsByRoom s) (trim roomId0) ws"
    and "clientsByRoom (admin_attach bc s ws roomId0 adminPassword sender0)
           = addTo (clientsByRoom s) (trim roomId0) ws"
    and "ws \<in> set (membersOf (adminsByRoom (admin_attach bc s ws roomId0 adminPassword sender0))
                  (trim roomId0))"
    and "ws \<in> set (membersOf (clientsByRoom (admin_attach bc s ws roomId0 adminPassword sender0))
                  (trim roomId0))"
    and "ws_isAdmin (sock (admin_attach bc s ws roomId0 adminPassword sender0) ws)"
    and "ws_roomId (sock (admin_attach bc s ws roomId0 adminPassword sender0) ws) = Some (trim roomId0)"
  by (simp_all add: admin_attach_ok [OF assms] set_membersOf_addTo)

lemma admin_attach_fail_sets:
  "getRoom s (trim roomId0) = None
   \<or> (\<exists>room. getRoom s (trim roomId0) = Some room \<and> \<not> bc_compare bc adminPassword (adminPassHash room)) \<Longrightarrow>
   adminsByRoom (admin_attach bc s ws roomId0 adminPassword sender0) = adminsByRoom s
   \<and> clientsByRoom (admin_attach bc s ws roomId0 adminPassword sender0) = clientsByRoom s"
  by (auto simp add: admin_attach_eq Let_def)

lemma open_admin_is_member:
  "reachable bc ex s \<Longrightarrow> c \<in> set (membersOf (adminsByRoom s) r) \<Longrightarrow> is_open s c \<Longrightarrow>
   c \<in> set (membersOf (clientsByRoom s) r)"
  using reachable_inv [of bc ex s] by (auto simp add: server_inv_def inv_admin_member_def)

lemma attach_enter_sets:
  "adminsByRoom (fst (attach_enter s ws r sd room True)) = addTo (adminsByRoom s) r ws"
  "clientsByRoom (fst (attach_enter s ws r sd room True)) = addTo (clientsByRoom s) r ws"
  "adminsByRoom (fst (attach_enter s ws r sd room False)) = adminsByRoom s"
  "clientsByRoom (fst (attach_enter s ws r sd room False)) = clientsByRoom s"
  by (simp_all add: attach_enter_def Let_def)

lemma open_admin_is_member_interleaved:
  "ireachable bc ex q \<Longrightarrow> c \<in> set (membersOf (adminsByRoom (cur q)) r) \<Longrightarrow> is_open (cur q) c \<Longrightarrow>
   c \<in> set (membersOf (clientsByRoom (cur q)) r)"
  using ireachable_inv [of bc ex q] by (auto simp add: server_inv_def inv_admin_member_def)

lemma ireachable_race_written: "ireachable toy_bcrypt toy_extname race_written"
  unfolding race_written_def by (intro ireachable_irun ireachable_initial initial_boot)

text \<open>
  Claim C10. A successful \<^verbatim>\<open>admin-attach\<close> adds the socket to the admin set and to the
  member set of the room, and a failed one changes neither set. In every reachable state
  each admin of a room whose socket is OPEN is a member of that room; so when the room is
  disabled, \<^verbatim>\<open>send\<close> is called with \<^verbatim>\<open>kicked\<close> for each such admin by the member
  eviction, the frame is written to it, and its socket is closed. (A socket that was
  already kicked stays in the admin set, no longer OPEN, until its \<^verbatim>\<open>close\<close> event.)
  The same holds with the handlers interleaved: the block of \<^verbatim>\<open>admin-attach\<close> that
  follows the password check adds the socket to both sets at once, or to neither; in every
  state of the interleaved server each admin whose socket is OPEN is a member; and the
  block of \<^verbatim>\<open>disable\<close> that follows the database write kicks each such admin.
\<close>

theorem attached_admin_is_kicked:
  "(getRoom s (trim roomId0) = Some room0 \<and> bc_compare bc adminPassword0 (adminPassHash room0) \<longrightarrow>
      adminsByRoom (admin_attach bc s ws roomId0 adminPassword0 sender0)
        = addTo (adminsByRoom s) (trim roomId0) ws
    \<and> clientsByRoom (admin_attach bc s ws roomId0 adminPassword0 sender0)
        = addTo (clientsByRoom s) (trim roomId0) ws
    \<and> ws \<in> set (membersOf (adminsByRoom (admin_attach bc s ws roomId0 adminPassword0 sender0))
                 (trim roomId0))
    \<and> ws \<in> set (membersOf (clientsByRoom (admin_attach bc s ws roomId0 adminPassword0 sender0))
                 (trim roomId0)))
   \<and> (getRoom s (trim roomId0) = None \<longrightarrow>
      adminsByRoom (admin_attach bc s ws roomId0 adminPassword0 sender0) = adminsByRoom s
    \<and> clientsByRoom (admin_attach bc s ws roomId0 adminPassword0 sender0) = clientsByRoom s)
   \<and> (getRoom s (trim roomId0) = Some room0 \<and> \<not> bc_compare bc adminPassword0 (adminPassHash room0) \<longrightarrow>
      adminsByRoom (admin_attach bc s ws roomId0 adminPassword0 sender0) = adminsByRoom s
    \<and> clientsByRoom (admin_attach bc s ws roomId0 adminPassword0 sender0) = clientsByRoom s)
   \<and> (reachable bc extname s \<longrightarrow>
        (\<forall>r. \<forall>c \<in> set (membersOf (adminsByRoom s) r). is_open s c \<longrightarrow>
               c \<in> set (membersOf (clientsByRoom s) r)))
   \<and> (reachable bc extname s \<and> roomId \<noteq> [] \<and> adminPassword \<noteq> [] \<and> getRoom s roomId = Some room
       \<and> bc_compare bc adminPassword (adminPassHash room) \<longrightarrow>
        (\<forall>c \<in> set (membersOf (adminsByRoom s) roomId). is_open s c \<longrightarrow>
            (c, Kicked ''Room disabled by admin'')
               \<in> set (drop (length (send_log s))
                        (send_log (fst (admin_action bc s roomId adminPassword ''disable''))))
          \<and> (c, Kicked ''Room disabled by admin'')
               \<in> set (wire (fst (admin_action bc s roomId adminPassword ''disable'')))
          \<and> \<not> is_open (fst (admin_action bc s roomId adminPassword ''disable'')) c))
   \<and> adminsByRoom (fst (attach_enter s ws roomId1 sender1 room1 True))
        = addTo (adminsByRoom s) roomId1 ws
   \<and> clientsByRoom (fst (attach_enter s ws roomId1 sender1 room1 True))
        = addTo (clientsByRoom s) roomId1 ws
   \<and> adminsByRoom (fst (attach_enter s ws roomId1 sender1 room1 False)) = adminsByRoom s
   \<and> clientsByRoom (fst (attach_enter s ws roomId1 sender1 room1 False)) = clientsByRoom s
   \<and> (ireachable bc extname q \<longrightarrow>
        (\<forall>r. \<forall>c \<in> set (membersOf (adminsByRoom (cur q)) r). is_open (cur q) c \<longrightarrow>
               c \<in> set (membersOf (clientsByRoom (cur q)) r)))
   \<and> (ireachable bc extname q \<longrightarrow>
        (\<forall>c \<in> set (membersOf (adminsByRoom (cur q)) roomId). is_open (cur q) c \<longrightarrow>
            (c, Kicked ''Room disabled by admin'')
               \<in> set (drop (length (send_log (cur q)))
                        (send_log (fst (action_finish (cur q) roomId ''disable''))))
          \<and> (c, Kicked ''Room disabled by admin'')
               \<in> set (wire (fst (action_finish (cur q) roomId ''disable'')))
          \<and> \<not> is_open (fst (action_finish (cur q) roomId ''disable'')) c))"
proof (intro conjI impI ballI allI)
  fix c
  assume q: "ireachable bc extname q"
    and c: "c \<in> set (membersOf (adminsByRoom (cur q)) roomId)" and o: "is_open (cur q) c"
  from q c o have m: "c \<in> set (membersOf (clientsByRoom (cur q)) roomId)"
    by (rule open_admin_is_member_interleaved)
  have p: "action_finish (cur q) roomId ''disable''
      = (fst (action_finish (cur q) roomId ''disable''),
         snd (action_finish (cur q) roomId ''disable''))" by simp
  note e = evict_effect [OF p]
  show "(c, Kicked ''Room disabled by admin'')
               \<in> set (drop (length (send_log (cur q)))
                        (send_log (fst (action_finish (cur q) roomId ''disable''))))"
    using m by (simp add: e(3))
  show "(c, Kicked ''Room disabled by admin'')
               \<in> set (wire (fst (action_finish (cur q) roomId ''disable'')))"
    using m o by (rule e(10))
  show "\<not> is_open (fst (action_finish (cur q) roomId ''disable'')) c"
    using m by (rule e(9))
next
  fix r c
  assume "ireachable bc extname q" "c \<in> set (membersOf (adminsByRoom (cur q)) r)" "is_open (cur q) c"
  then show "c \<in> set (membersOf (clientsByRoom (cur q)) r)" by (rule open_admin_is_member_interleaved)
next
  fix c
  assume h: "reachable bc extname s \<and> roomId \<noteq> [] \<and> adminPassword \<noteq> [] \<and> getRoom s roomId = Some room
       \<and> bc_compare bc adminPassword (adminPassHash room)"
    and c: "c \<in> set (membersOf (adminsByRoom s) roomId)" and o: "is_open s c"
  from h c o have m: "c \<in> set (membersOf (clientsByRoom s) roomId)"
    by (auto intro: open_admin_is_member)
  from h have a: "roomId \<noteq> []" "adminPassword \<noteq> []" "getRoom s roomId = Some room"
    "bc_compare bc adminPassword (adminPassHash room)" by simp_all
  have p: "admin_action bc s roomId adminPassword ''disable''
      = (fst (admin_action bc s roomId adminPassword ''disable''),
         snd (admin_action bc s roomId adminPassword ''disable''))" by simp
  note e = disable_effect [OF a p]
  show "(c, Kicked ''Room disabled by admin'')
               \<in> set (drop (length (send_log s))
                        (send_log (fst (admin_action bc s roomId adminPassword ''disable''))))"
    using m by (simp add: e(4))
  show "(c, Kicked ''Room disabled by admin'')
               \<in> set (wire (fst (admin_action bc s roomId adminPassword ''disable'')))"
    using m o by (rule e(11))
  show "\<not> is_open (fst (admin_action bc s roomId adminPassword ''disable'')) c"
    using m by (rule e(10))
next
  fix r c
  assume "reachable bc extname s" "c \<in> set (membersOf (adminsByRoom s) r)" "is_open s c"
  then show "c \<in> set (membersOf (clientsByRoom s) r)" by (rule open_admin_is_member)
qed (simp_all add: admin_attach_sets admin_attach_fail_sets set_membersOf_addTo attach_enter_sets)


theorem attached_admin_is_kicked_witness:
  "membersOf (adminsByRoom (admin_attach toy_bcrypt demo_run 5 '' r1'' ''a'' ''Eve'')) ''r1'' = [1, 5]
   \<and> membersOf (clientsByRoom (admin_attach toy_bcrypt demo_run 5 '' r1'' ''a'' ''Eve'')) ''r1'' = [1, 3, 5]
   \<and> adminsByRoom (admin_attach toy_bcrypt demo_run 5 ''zz'' ''a'' ''Eve'') = adminsByRoom demo_run
   \<and> clientsByRoom (admin_attach toy_bcrypt demo_run 5 ''r1'' ''wrong'' ''Eve'') = clientsByRoom demo_run
   \<and> reachable toy_bcrypt toy_extname demo_run
   \<and> membersOf (adminsByRoom demo_run) ''r2'' = [4] \<and> is_open demo_run 4
   \<and> 4 \<in> set (membersOf (clientsByRoom demo_run) ''r2'')
   \<and> (4, Kicked ''Room disabled by admin'')
        \<in> set (drop (length (send_log demo_run))
                 (send_log (fst (admin_action toy_bcrypt demo_run ''r2'' ''b'' ''disable''))))
   \<and> (4, Kicked ''Room disabled by admin'')
        \<in> set (wire (fst (admin_action toy_bcrypt demo_run ''r2'' ''b'' ''disable'')))
   \<and> \<not> is_open (fst (admin_action toy_bcrypt demo_run ''r2'' ''b'' ''disable'')) 4
   \<and> ireachable toy_bcrypt toy_extname race_written
   \<and> membersOf (adminsByRoom (cur race_written)) ''r2'' = [4] \<and> is_open (cur race_written) 4
   \<and> 4 \<in> set (membersOf (clientsByRoom (cur race_written)) ''r2'')
   \<and> (4, Kicked ''Room disabled by admin'')
        \<in> set (drop (length (send_log (cur race_written)))
                 (send_log (fst (action_finish (cur race_written) ''r2'' ''disable''))))
   \<and> (4, Kicked ''Room disabled by admin'')
        \<in> set (wire (fst (action_finish (cur race_written) ''r2'' ''disable'')))
   \<and> \<not> is_open (fst (action_finish (cur race_written) ''r2'' ''disable'')) 4"
proof -
  let ?r1 = "\<lparr>roomPassHash = ''$2a$p'', adminPassHash = ''$2a$a'', enabled = True\<rparr>"
  let ?r2 = "\<lparr>roomPassHash = ''$2a$q'', adminPassHash = ''$2a$b'', enabled = True\<rparr>"
  note t = attached_admin_is_kicked [where bc = toy_bcrypt and extname = toy_extname and s = demo_run]
  have g1: "getRoom demo_run (trim '' r1'') = Some ?r1" by code_simp
  have g1': "getRoom demo_run (trim ''r1'') = Some ?r1" by code_simp
  have gz: "getRoom demo_run (trim ''zz'') = None" by code_simp
  have ok: "bc_compare toy_bcrypt ''a'' (adminPassHash ?r1)" by (simp add: demo_simps)
  have bad: "\<not> bc_compare toy_bcrypt ''wrong'' (adminPassHash ?r1)" by (simp add: demo_simps)
  have tr: "trim '' r1'' = ''r1''" by code_simp
  have ad1: "membersOf (adminsByRoom demo_run) ''r1'' = [1]" by code_simp
  have cl1: "membersOf (clientsByRoom demo_run) ''r1'' = [1, 3]" by code_simp
  have h1: "getRoom demo_run (trim '' r1'') = Some ?r1 \<and> bc_compare toy_bcrypt ''a'' (adminPassHash ?r1)"
    using g1 ok by simp
  note a = t [where ?roomId0.0 = "'' r1''" and ?room0.0 = ?r1 and ?adminPassword0.0 = "''a''"
      and ws = 5 and ?sender0.0 = "''Eve''", THEN conjunct1, THEN mp, OF h1]
  from a have w1: "membersOf (adminsByRoom (admin_attach toy_bcrypt demo_run 5 '' r1'' ''a'' ''Eve'')) ''r1'' = [1, 5]"
    by (simp add: tr membersOf_addTo ad1 set_add_def)
  from a have w2: "membersOf (clientsByRoom (admin_attach toy_bcrypt demo_run 5 '' r1'' ''a'' ''Eve'')) ''r1'' = [1, 3, 5]"
    by (simp add: tr membersOf_addTo cl1 set_add_def)
  have w3: "adminsByRoom (admin_attach toy_bcrypt demo_run 5 ''zz'' ''a'' ''Eve'') = adminsByRoom demo_run"
    by (rule t [where ?roomId0.0 = "''zz''" and ?adminPassword0.0 = "''a''" and ws = 5
          and ?sender0.0 = "''Eve''", THEN conjunct2, THEN conjunct1, THEN mp, OF gz, THEN conjunct1])
  have h4: "getRoom demo_run (trim ''r1'') = Some ?r1 \<and> \<not> bc_compare toy_bcrypt ''wrong'' (adminPassHash ?r1)"
    using g1' bad by simp
  have w4: "clientsByRoom (admin_attach toy_bcrypt demo_run 5 ''r1'' ''wrong'' ''Eve'') = clientsByRoom demo_run"
    by (rule t [where ?roomId0.0 = "''r1''" and ?room0.0 = ?r1 and ?adminPassword0.0 = "''wrong''"
          and ws = 5 and ?sender0.0 = "''Eve''", THEN conjunct2, THEN conjunct2, THEN conjunct1,
          THEN mp, OF h4, THEN conjunct2])
  have re: "reachable toy_bcrypt toy_extname demo_run" by (rule reachable_demo_run)
  have ad2: "membersOf (adminsByRoom demo_run) ''r2'' = [4]" by code_simp
  have o4: "is_open demo_run 4" by code_simp
  have in4: "4 \<in> set (membersOf (adminsByRoom demo_run) ''r2'')" by (simp add: ad2)
  have w5: "4 \<in> set (membersOf (clientsByRoom demo_run) ''r2'')"
    by (rule t [THEN conjunct2, THEN conjunct2, THEN conjunct2, THEN conjunct1, THEN mp, OF re,
          THEN spec [where x = "''r2''"], THEN bspec, OF in4, THEN mp, OF o4])
  have g2: "getRoom demo_run ''r2'' = Some ?r2" by code_simp
  have ok2: "bc_compare toy_bcrypt ''b'' (adminPassHash ?r2)" by (simp add: demo_simps)
  have h6: "reachable toy_bcrypt toy_extname demo_run \<and> ''r2'' \<noteq> [] \<and> ''b'' \<noteq> []
      \<and> getRoom demo_run ''r2'' = Some ?r2 \<and> bc_compare toy_bcrypt ''b'' (adminPassHash ?r2)"
    using re g2 ok2 by simp
  note w6 = t [where roomId = "''r2''" and adminPassword = "''b''" and room = ?r2,
      THEN conjunct2, THEN conjunct2, THEN conjunct2, THEN conjunct2, THEN conjunct1, THEN mp, OF h6,
      THEN bspec, OF in4, THEN mp, OF o4]
  note u = attached_admin_is_kicked [where bc = toy_bcrypt and extname = toy_extname
      and q = race_written and roomId = "''r2''", THEN conjunct2, THEN conjunct2, THEN conjunct2,
      THEN conjunct2, THEN conjunct2, THEN conjunct2, THEN conjunct2, THEN conjunct2, THEN conjunct2]
  have iq: "ireachable toy_bcrypt toy_extname race_written" by (rule ireachable_race_written)
  have ad3: "membersOf (adminsByRoom (cur race_written)) ''r2'' = [4]" by code_simp
  have o5: "is_open (cur race_written) 4" by code_simp
  have in5: "4 \<in> set (membersOf (adminsByRoom (cur race_written)) ''r2'')" by (simp add: ad3)
  have w7: "4 \<in> set (membersOf (clientsByRoom (cur race_written)) ''r2'')"
    by (rule u [THEN conjunct1, THEN mp, OF iq, THEN spec [where x = "''r2''"], THEN bspec, OF in5,
          THEN mp, OF o5])
  note w8 = u [THEN conjunct2, THEN mp, OF iq, THEN bspec, OF in5, THEN mp, OF o5]
  from w1 w2 w3 w4 re ad2 o4 w5 w6 iq ad3 o5 w7 w8 show ?thesis by (intro conjI) blast+
qed

section \<open>Pending requests and membership\<close>

lemma unaffiliated_in_no_set:
  "reachable bc ex s \<Longrightarrow> ws_roomId (sock s c) = None \<Longrightarrow>
   c \<notin> set (membersOf (clientsByRoom s) r) \<and> c \<notin> set (membersOf (adminsByRoom s) r)"
  using reachable_inv [of bc ex s] unfolding server_inv_def inv_known_def by force

lemma reachable_demo_self: "reachable toy_bcrypt toy_extname demo_self"
  unfolding demo_self_def by (intro reachable_run reachable_initial initial_boot)

lemma unaffiliated_in_no_set_interleaved:
  "ireachable bc ex q \<Longrightarrow> ws_roomId (sock (cur q) c) = None \<Longrightarrow>
   c \<notin> set (membersOf (clientsByRoom (cur q)) r) \<and> c \<notin> set (membersOf (adminsByRoom (cur q)) r)"
  using ireachable_inv [of bc ex q] unfolding server_inv_def inv_known_def by force

lemma ireachable_orphan_end: "ireachable toy_bcrypt toy_extname orphan_end"
  unfolding orphan_end_def by (intro ireachable_irun ireachable_initial initial_boot)

text \<open>
  Claim C5, as stated, fails: \<^verbatim>\<open>request-join\<close> does not look at the requester's room.
  In the run \<open>demo_self\<close>, which starts from the empty server, the admin Ann is a member
  of \<open>r1\<close> and owns the pending request \<open>idA\<close>; Bob, whose first request was approved,
  is a member of \<open>r1\<close> and owns the pending request \<open>idC\<close>.
\<close>

theorem member_owns_pending_request:
  "reachable toy_bcrypt toy_extname demo_self
   \<and> pending demo_self =
       [(''idA'', \<lparr>p_ws = 1, p_roomId = ''r1'', p_sender = ''Ann'', p_createdAt = 10\<rparr>),
        (''idC'', \<lparr>p_ws = 2, p_roomId = ''r1'', p_sender = ''Bob'', p_createdAt = 30\<rparr>)]
   \<and> membersOf (clientsByRoom demo_self) ''r1'' = [1, 2]
   \<and> ws_roomId (sock demo_self 1) = Some ''r1''
   \<and> ws_roomId (sock demo_self 2) = Some ''r1''"
proof -
  have "pending demo_self =
       [(''idA'', \<lparr>p_ws = 1, p_roomId = ''r1'', p_sender = ''Ann'', p_createdAt = 10\<rparr>),
        (''idC'', \<lparr>p_ws = 2, p_roomId = ''r1'', p_sender = ''Bob'', p_createdAt = 30\<rparr>)]"
    by code_simp
  moreover have "membersOf (clientsByRoom demo_self) ''r1'' = [1, 2]" by code_simp
  moreover have "ws_roomId (sock demo_self 1) = Some ''r1''" by code_simp
  moreover have "ws_roomId (sock demo_self 2) = Some ''r1''" by code_simp
  ultimately show ?thesis using reachable_demo_self by blast
qed

text \<open>
  Claim C5, amended. In every reachable state a socket without a room affiliation is in
  no member set and in no admin set; so the owner of a pending request is a member of no
  room as long as it has no room affiliation. \<^verbatim>\<open>request-join\<close> accepts a request from
  any socket, whatever its affiliation, and changes neither the affiliation nor the room
  sets; an approval deletes the approved request in the handler run that makes its owner
  a member. The same holds with the handlers interleaved: the invariant holds in every
  state of the interleaved server, the block of \<^verbatim>\<open>request-join\<close> that stores the
  request changes no affiliation and no room set, and one block of \<^verbatim>\<open>approve\<close>
  deletes the request and makes its owner a member.
\<close>

theorem unaffiliated_owner_is_no_member:
  "(reachable bc extname s \<longrightarrow>
      (\<forall>c r. ws_roomId (sock s c) = None \<longrightarrow>
          c \<notin> set (membersOf (clientsByRoom s) r) \<and> c \<notin> set (membersOf (adminsByRoom s) r))
    \<and> (\<forall>e \<in> set (pending s). ws_roomId (sock s (p_ws (snd e))) = None \<longrightarrow>
          (\<forall>r. p_ws (snd e) \<notin> set (membersOf (clientsByRoom s) r))))
   \<and> ws_roomId (sock (request_join bc s ws roomId0 pw sender0 mid now0 now1) ws) = ws_roomId (sock s ws)
   \<and> clientsByRoom (request_join bc s ws roomId0 pw sender0 mid now0 now1) = clientsByRoom s
   \<and> adminsByRoom (request_join bc s ws roomId0 pw sender0 mid now0 now1) = adminsByRoom s
   \<and> (getRoom s (trim roomId0) = Some room \<and> enabled room \<and> bc_compare bc pw (roomPassHash room) \<longrightarrow>
        jsmap_get (pending (request_join bc s ws roomId0 pw sender0 mid now0 now1)) mid
          = Some \<lparr>p_ws = ws, p_roomId = trim roomId0, p_sender = take 20 (js_or sender0 ''User''),
                  p_createdAt = now0\<rparr>)
   \<and> (ws_isAdmin (sock s ws) \<and> ws_roomId (sock s ws) = Some roomId \<and> roomId \<noteq> []
       \<and> jsmap_get (pending s) rid = Some req \<and> p_roomId req = roomId \<longrightarrow>
        jsmap_get (pending (approve_deny s ws False rid)) rid = None
      \<and> p_ws req \<in> set (membersOf (clientsByRoom (approve_deny s ws False rid)) roomId))
   \<and> ws_roomId (sock (join_commit s ws roomId1 sender1 okPass mid now0 now1) c1) = ws_roomId (sock s c1)
   \<and> clientsByRoom (join_commit s ws roomId1 sender1 okPass mid now0 now1) = clientsByRoom s
   \<and> adminsByRoom (join_commit s ws roomId1 sender1 okPass mid now0 now1) = adminsByRoom s
   \<and> (ws_isAdmin (sock s ws) \<and> ws_roomId (sock s ws) = Some roomId \<and> roomId \<noteq> []
       \<and> jsmap_get (pending s) rid = Some req \<and> p_roomId req = roomId \<longrightarrow>
        jsmap_get (pending (fst (approve_begin s ws False rid))) rid = None
      \<and> p_ws req \<in> set (membersOf (clientsByRoom (fst (approve_begin s ws False rid))) roomId))
   \<and> (ireachable bc extname q \<longrightarrow>
      (\<forall>c r. ws_roomId (sock (cur q) c) = None \<longrightarrow>
          c \<notin> set (membersOf (clientsByRoom (cur q)) r) \<and> c \<notin> set (membersOf (adminsByRoom (cur q)) r))
    \<and> (\<forall>e \<in> set (pending (cur q)). ws_roomId (sock (cur q) (p_ws (snd e))) = None \<longrightarrow>
          (\<forall>r. p_ws (snd e) \<notin> set (membersOf (clientsByRoom (cur q)) r))))"
proof (intro conjI impI allI ballI)
  assume "ws_isAdmin (sock s ws) \<and> ws_roomId (sock s ws) = Some roomId \<and> roomId \<noteq> []
       \<and> jsmap_get (pending s) rid = Some req \<and> p_roomId req = roomId"
  then have a: "ws_isAdmin (sock s ws)" "ws_roomId (sock s ws) = Some roomId" "roomId \<noteq> []"
    "jsmap_get (pending s) rid = Some req" "p_roomId req = roomId" by simp_all
  show "jsmap_get (pending (fst (approve_begin s ws False rid))) rid = None"
    by (simp add: approve_begin_ok [OF a])
  show "p_ws req \<in> set (membersOf (clientsByRoom (fst (approve_begin s ws False rid))) roomId)"
    by (simp add: approve_begin_ok [OF a] set_membersOf_addTo)
next
  show "ws_roomId (sock (join_commit s ws roomId1 sender1 okPass mid now0 now1) c1) = ws_roomId (sock s c1)"
    by (simp add: join_commit_def Let_def)
  show "clientsByRoom (join_commit s ws roomId1 sender1 okPass mid now0 now1) = clientsByRoom s"
    by (simp add: join_commit_def Let_def)
  show "adminsByRoom (join_commit s ws roomId1 sender1 okPass mid now0 now1) = adminsByRoom s"
    by (simp add: join_commit_def Let_def)
next
  assume "getRoom s (trim roomId0) = Some room \<and> enabled room \<and> bc_compare bc pw (roomPassHash room)"
  then have a: "getRoom s (trim roomId0) = Some room" "enabled room" "bc_compare bc pw (roomPassHash room)"
    by simp_all
  show "jsmap_get (pending (request_join bc s ws roomId0 pw sender0 mid now0 now1)) mid
          = Some \<lparr>p_ws = ws, p_roomId = trim roomId0, p_sender = take 20 (js_or sender0 ''User''),
                  p_createdAt = now0\<rparr>"
    by (simp add: request_join_ok [OF a])
next
  assume "ws_isAdmin (sock s ws) \<and> ws_roomId (sock s ws) = Some roomId \<and> roomId \<noteq> []
       \<and> jsmap_get (pending s) rid = Some req \<and> p_roomId req = roomId"
  then have a: "ws_isAdmin (sock s ws)" "ws_roomId (sock s ws) = Some roomId" "roomId \<noteq> []"
    "jsmap_get (pending s) rid = Some req" "p_roomId req = roomId" by simp_all
  show "jsmap_get (pending (approve_deny s ws False rid)) rid = None"
    by (rule approve_effect(2) [OF a refl])
  show "p_ws req \<in> set (membersOf (clientsByRoom (approve_deny s ws False rid)) roomId)"
    by (rule approve_effect(6) [OF a refl])
next
  show "ws_roomId (sock (request_join bc s ws roomId0 pw sender0 mid now0 now1) ws) = ws_roomId (sock s ws)"
    by (simp add: request_join_eq Let_def split: option.split)
  show "clientsByRoom (request_join bc s ws roomId0 pw sender0 mid now0 now1) = clientsByRoom s"
    by (simp add: request_join_eq Let_def split: option.split)
  show "adminsByRoom (request_join bc s ws roomId0 pw sender0 mid now0 now1) = adminsByRoom s"
    by (simp add: request_join_eq Let_def split: option.split)
qed (auto dest: unaffiliated_in_no_set unaffiliated_in_no_set_interleaved)

theorem unaffiliated_owner_is_no_member_witness:
  "reachable toy_bcrypt toy_extname demo_run
   \<and> (''id1'', \<lparr>p_ws = 2, p_roomId = ''r1'', p_sender = ''Bob'', p_createdAt = 10\<rparr>) \<in> set (pending demo_run)
   \<and> ws_roomId (sock demo_run 2) = None
   \<and> 2 \<notin> set (membersOf (clientsByRoom demo_run) ''r1'')
   \<and> 2 \<notin> set (membersOf (adminsByRoom demo_run) ''r1'')
   \<and> jsmap_get (pending (request_join toy_bcrypt demo_run 3 ''r1'' ''p'' ''Cy'' ''id5'' 90 91)) ''id5''
       = Some \<lparr>p_ws = 3, p_roomId = ''r1'', p_sender = ''Cy'', p_createdAt = 90\<rparr>
   \<and> ws_roomId (sock (request_join toy_bcrypt demo_run 3 ''r1'' ''p'' ''Cy'' ''id5'' 90 91) 3) = Some ''r1''
   \<and> jsmap_get (pending (approve_deny demo_run 1 False ''id1'')) ''id1'' = None
   \<and> 2 \<in> set (membersOf (clientsByRoom (approve_deny demo_run 1 False ''id1'')) ''r1'')
   \<and> jsmap_get (pending (fst (approve_begin demo_run 1 False ''id1''))) ''id1'' = None
   \<and> 2 \<in> set (membersOf (clientsByRoom (fst (approve_begin demo_run 1 False ''id1''))) ''r1'')
   \<and> ireachable toy_bcrypt toy_extname orphan_end
   \<and> (''id4'', \<lparr>p_ws = 6, p_roomId = ''r2'', p_sender = ''Fay'', p_createdAt = 60\<rparr>)
        \<in> set (pending (cur orphan_end))
   \<and> ws_roomId (sock (cur orphan_end) 6) = None
   \<and> 6 \<notin> set (membersOf (clientsByRoom (cur orphan_end)) ''r2'')
   \<and> 6 \<notin> set (membersOf (adminsByRoom (cur orphan_end)) ''r2'')"
proof -
  let ?bob = "\<lparr>p_ws = 2, p_roomId = ''r1'', p_sender = ''Bob'', p_createdAt = 10\<rparr>"
  let ?r1 = "\<lparr>roomPassHash = ''$2a$p'', adminPassHash = ''$2a$a'', enabled = True\<rparr>"
  note t = unaffiliated_owner_is_no_member [where bc = toy_bcrypt and extname = toy_extname and s = demo_run]
  have re: "reachable toy_bcrypt toy_extname demo_run" by (rule reachable_demo_run)
  have p: "(''id1'', ?bob) \<in> set (pending demo_run)" by code_simp
  have n2: "ws_roomId (sock demo_run 2) = None" by code_simp
  note i = t [THEN conjunct1, THEN mp, OF re, THEN conjunct1, THEN spec [where x = 2],
      THEN spec [where x = "''r1''"], THEN mp, OF n2]
  have "ws_roomId (sock demo_run (p_ws (snd (''id1'', ?bob)))) = None \<longrightarrow>
          (\<forall>r. p_ws (snd (''id1'', ?bob)) \<notin> set (membersOf (clientsByRoom demo_run) r))"
    by (rule t [THEN conjunct1, THEN mp, OF re, THEN conjunct2, THEN bspec, OF p])
  with n2 have w2: "2 \<notin> set (membersOf (clientsByRoom demo_run) ''r1'')" by simp
  have g: "getRoom demo_run (trim ''r1'') = Some ?r1" by code_simp
  have ok: "bc_compare toy_bcrypt ''p'' (roomPassHash ?r1)" by (simp add: demo_simps)
  have tr: "trim ''r1'' = ''r1''" by code_simp
  have r3: "ws_roomId (sock demo_run 3) = Some ''r1''" by code_simp
  note rj = t [where ws = 3 and ?roomId0.0 = "''r1''" and pw = "''p''" and ?sender0.0 = "''Cy''"
      and mid = "''id5''" and ?now0.0 = 90 and ?now1.0 = 91 and room = ?r1]
  from rj g ok have w3: "jsmap_get (pending (request_join toy_bcrypt demo_run 3 ''r1'' ''p'' ''Cy'' ''id5'' 90 91)) ''id5''
       = Some \<lparr>p_ws = 3, p_roomId = ''r1'', p_sender = ''Cy'', p_createdAt = 90\<rparr>"
    by (simp add: tr js_or_def)
  from rj r3 have w4: "ws_roomId (sock (request_join toy_bcrypt demo_run 3 ''r1'' ''p'' ''Cy'' ''id5'' 90 91) 3) = Some ''r1''"
    by simp
  have a1: "ws_isAdmin (sock demo_run 1)" by code_simp
  have r1: "ws_roomId (sock demo_run 1) = Some ''r1''" by code_simp
  have id1: "jsmap_get (pending demo_run) ''id1'' = Some ?bob" by code_simp
  have h: "ws_isAdmin (sock demo_run 1) \<and> ws_roomId (sock demo_run 1) = Some ''r1'' \<and> ''r1'' \<noteq> []
       \<and> jsmap_get (pending demo_run) ''id1'' = Some ?bob \<and> p_roomId ?bob = ''r1''"
    using a1 r1 id1 by simp
  note ap = t [where ws = 1 and roomId = "''r1''" and rid = "''id1''" and req = ?bob,
      THEN conjunct2, THEN conjunct2, THEN conjunct2, THEN conjunct2, THEN conjunct2, THEN conjunct1,
      THEN mp, OF h]
  from ap have w5: "jsmap_get (pending (approve_deny demo_run 1 False ''id1'')) ''id1'' = None
      \<and> 2 \<in> set (membersOf (clientsByRoom (approve_deny demo_run 1 False ''id1'')) ''r1'')"
    by simp
  note u = unaffiliated_owner_is_no_member [where bc = toy_bcrypt and extname = toy_extname
      and s = demo_run and q = orphan_end and ws = 1 and roomId = "''r1''" and rid = "''id1''"
      and req = ?bob, THEN conjunct2, THEN conjunct2, THEN conjunct2, THEN conjunct2, THEN conjunct2,
      THEN conjunct2, THEN conjunct2, THEN conjunct2, THEN conjunct2]
  from u [THEN conjunct1, THEN mp, OF h]
  have w6: "jsmap_get (pending (fst (approve_begin demo_run 1 False ''id1''))) ''id1'' = None
      \<and> 2 \<in> set (membersOf (clientsByRoom (fst (approve_begin demo_run 1 False ''id1''))) ''r1'')"
    by simp
  let ?fay = "\<lparr>p_ws = 6, p_roomId = ''r2'', p_sender = ''Fay'', p_createdAt = 60\<rparr>"
  have iq: "ireachable toy_bcrypt toy_extname orphan_end" by (rule ireachable_orphan_end)
  have p6: "(''id4'', ?fay) \<in> set (pending (cur orphan_end))" by code_simp
  have n6: "ws_roomId (sock (cur orphan_end) 6) = None" by code_simp
  note j = u [THEN conjunct2, THEN mp, OF iq, THEN conjunct1, THEN spec [where x = 6],
      THEN spec [where x = "''r2''"], THEN mp, OF n6]
  have "ws_roomId (sock (cur orphan_end) (p_ws (snd (''id4'', ?fay)))) = None \<longrightarrow>
          (\<forall>r. p_ws (snd (''id4'', ?fay)) \<notin> set (membersOf (clientsByRoom (cur orphan_end)) r))"
    by (rule u [THEN conjunct2, THEN mp, OF iq, THEN conjunct2, THEN bspec, OF p6])
  with n6 have w7: "6 \<notin> set (membersOf (clientsByRoom (cur orphan_end)) ''r2'')" by simp
  from re p n2 i w2 w3 w4 w5 w6 iq p6 n6 w7 j show ?thesis by (intro conjI) blast+
qed

section \<open>The message table along a run\<close>

lemma messages_admin_attach [simp]: "messages (admin_attach bc s ws a b c) = messages s"
  by (simp add: admin_attach_eq Let_def split: option.split)

lemma messages_request_join [simp]: "messages (request_join bc s ws a b c mid n0 n1) = messages s"
  by (simp add: request_join_eq Let_def split: option.split)

lemma messages_approve_deny [simp]: "messages (approve_deny s ws d rid) = messages s"
  by (simp add: approve_deny_eq Let_def split: option.split)

lemma messages_on_close [simp]: "messages (on_close s ws) = messages s"
  by (simp add: on_close_def Let_def split: option.split)

lemma messages_on_connection [simp]: "messages (on_connection s ws) = messages s"
  by (simp add: on_connection_def)

lemma messages_create_room [simp]: "messages (fst (create_room bc s r a b)) = messages s"
  by (simp add: create_room_eq)

lemma messages_multer_single [simp]: "messages (multer_single s upf) = messages s"
  by (simp add: multer_single_def split: option.split)

lemma getRoom_multer_single [simp]: "getRoom (multer_single s upf) r = getRoom s r"
  by (simp add: getRoom_def)

lemma messages_apply_ops_cong:
  "messages s = messages t \<Longrightarrow> messages (apply_ops s xs) = messages (apply_ops t xs)"
proof (induction xs arbitrary: s t)
  case Nil
  then show ?case by simp
next
  case (Cons x xs)
  from Cons.prems have "messages (apply_op s x) = messages (apply_op t x)"
    by (cases x) (simp_all add: addText_def addFile_def clearChat_def)
  then have "messages (apply_ops (apply_op s x) xs) = messages (apply_ops (apply_op t x) xs)"
    by (rule Cons.IH)
  then show ?case by simp
qed

lemma apply_ops_append: "apply_ops s (xs @ ys) = apply_ops (apply_ops s xs) ys"
  by (induction xs arbitrary: s) simp_all

lemma messages_kickRoom_deny [simp]:
  "messages (denyPendingForRoom s r reason) = messages s"
  by (simp add: denyPendingForRoom_def)

lemma messages_chat: "messages (chat s ws t n0 n1 n2) = messages (apply_ops s (chat_ops s ws t n0))"
proof (cases "ws_roomId (sock s ws)")
  case None
  then show ?thesis by (simp add: chat_eq chat_ops_def)
next
  case (Some r)
  show ?thesis
  proof (cases "r = [] \<or> (case getRoom s r of None \<Rightarrow> True | Some room \<Rightarrow> \<not> enabled room)")
    case True
    with Some show ?thesis by (auto simp add: chat_eq chat_ops_def)
  next
    case False
    with Some show ?thesis by (simp add: chat_eq chat_ops_def Let_def)
  qed
qed

lemma messages_admin_action:
  "messages (fst (admin_action bc s r pw action)) = messages (apply_ops s (admin_ops bc s r pw action))"
proof (cases "r = [] \<or> pw = [] \<or> action = []")
  case True
  then show ?thesis by (simp add: admin_action_eq admin_ops_def)
next
  case False
  note f = this
  show ?thesis
  proof (cases "getRoom s r")
    case None
    with f show ?thesis by (simp add: admin_action_eq admin_ops_def)
  next
    case (Some room)
    show ?thesis
    proof (cases "bc_compare bc pw (adminPassHash room)")
      case False
      with f Some show ?thesis by (simp add: admin_action_eq admin_ops_def)
    next
      case True
      with f Some show ?thesis by (simp add: admin_action_eq admin_ops_def Let_def)
    qed
  qed
qed

lemma messages_upload:
  "messages (fst (upload bc ex (multer_single s upf) upf r pw sender n0))
     = messages (apply_ops s (upload_ops bc ex s upf r pw sender n0))"
proof (cases upf)
  case None
  then show ?thesis by (simp add: upload_eq upload_ops_def)
next
  case (Some f)
  show ?thesis
  proof (cases "r = [] \<or> pw = []")
    case True
    with Some show ?thesis by (simp add: upload_eq upload_ops_def)
  next
    case False
    note nf = this
    show ?thesis
    proof (cases "getRoom s r")
      case None
      with Some nf show ?thesis by (simp add: upload_eq upload_ops_def)
    next
      case (Some room)
      note rm = this
      show ?thesis
      proof (cases "enabled room \<and> bc_compare bc pw (roomPassHash room)")
        case False
        with \<open>upf = Some f\<close> nf rm show ?thesis by (auto simp add: upload_eq upload_ops_def)
      next
        case True
        then have g: "enabled room" "bc_compare bc pw (roomPassHash room)" by simp_all
        from nf have n: "r \<noteq> []" "pw \<noteq> []" by simp_all
        have rm': "getRoom (multer_single s (Some f)) r = Some room" using rm by simp
        show ?thesis
        proof (cases "isOk (f_mimetype f)")
          case True
          show ?thesis
            unfolding \<open>upf = Some f\<close> upload_ok [OF n rm' g True]
            using n rm g True by (simp add: upload_ops_def addFile_def)
        next
          case False
          show ?thesis
            unfolding \<open>upf = Some f\<close> upload_bad_type [OF n rm' g False]
            using n rm g False by (simp add: upload_ops_def)
        qed
      qed
    qed
  qed
qed

lemma messages_step:
  "messages (step bc ex s e) = messages (apply_ops s (db_ops_of bc ex s e))"
proof (cases e)
  case (Message ws msg mid n0 n1 n2)
  then show ?thesis
    by (cases msg) (simp_all add: step_def db_ops_of_def on_message_def messages_chat)
next
  case (Close ws)
  then show ?thesis by (simp add: step_def db_ops_of_def)
next
  case (AdminAction r pw action)
  then show ?thesis by (simp add: step_def db_ops_of_def messages_admin_action)
next
  case (Upload upf r pw sender n0)
  then show ?thesis by (simp add: step_def db_ops_of_def messages_upload)
qed (simp_all add: step_def db_ops_of_def)

lemma messages_run:
  "messages (run bc ex s es) = messages (apply_ops s (db_trace bc ex s es))"
proof (induction es arbitrary: s)
  case Nil
  then show ?case by simp
next
  case (Cons e es)
  have "messages (run bc ex (step bc ex s e) es)
      = messages (apply_ops (step bc ex s e) (db_trace bc ex (step bc ex s e) es))"
    by (rule Cons.IH)
  also have "\<dots> = messages (apply_ops (apply_ops s (db_ops_of bc ex s e))
                        (db_trace bc ex (step bc ex s e) es))"
    by (rule messages_apply_ops_cong) (rule messages_step)
  finally show ?case by (simp add: apply_ops_append)
qed

lemma getHistory_messages_cong:
  "messages s = messages t \<Longrightarrow> getHistory s r n = getHistory t r n"
  by (simp add: getHistory_def)

lemma getHistory_run:
  assumes "messages s = []"
  shows "getHistory (run bc ex s es) r n = take n (spec_history r (db_trace bc ex s es))"
proof -
  have "getHistory (run bc ex s es) r n = getHistory (apply_ops s (db_trace bc ex s es)) r n"
    by (rule getHistory_messages_cong) (rule messages_run)
  with assms show ?thesis by (simp add: getHistory_apply_ops)
qed


text \<open>
  Claim C6. \<^verbatim>\<open>getHistory\<close> returns the first \<open>limit\<close> rows of the room in insertion
  order. Over any sequence of the three statements that write table \<^verbatim>\<open>messages\<close>,
  started on an empty table, these are the first \<open>limit\<close> messages of the
  specification's history: the messages recorded for the room after its last clear,
  oldest first. The same holds along every run of the server that starts with an empty
  table, for the statements its handlers execute (\<open>db_trace\<close>). The handlers of \<^verbatim>\<open>approve\<close> and \<^verbatim>\<open>admin-attach\<close> send exactly
  \<open>getHistory\<close> with limit 200 of the current table, which has at most 200 rows: when a
  room holds more, the history is its 200 oldest messages.
\<close>

theorem history_is_recorded_sequence:
  "(messages s0 = [] \<longrightarrow> getHistory (apply_ops s0 ops) r n = take n (spec_history r ops))
   \<and> (messages s0 = [] \<longrightarrow>
        getHistory (run bc extname s0 es) r n = take n (spec_history r (db_trace bc extname s0 es)))
   \<and> getHistory s r n = take n (map snd (filter (\<lambda>m. fst m = r) (messages s)))
   \<and> length (getHistory s r 200) \<le> 200
   \<and> (ws_isAdmin (sock s ws) \<and> ws_roomId (sock s ws) = Some roomId \<and> roomId \<noteq> []
       \<and> jsmap_get (pending s) rid = Some req \<and> p_roomId req = roomId \<longrightarrow>
      send_log (approve_deny s ws False rid) = send_log s
        @ map (\<lambda>a. (a, JoinRequestClosed rid)) (membersOf (adminsByRoom s) roomId)
        @ [(p_ws req, Joined roomId), (p_ws req, History (getHistory s roomId 200))]
        @ map (\<lambda>c. (c, System (p_sender req @ '' joined.'')))
            (set_add (membersOf (clientsByRoom s) roomId) (p_ws req)))
   \<and> (getRoom s (trim roomId0) = Some room \<and> bc_compare bc adminPassword (adminPassHash room) \<longrightarrow>
      send_log (admin_attach bc s ws roomId0 adminPassword sender0) = send_log s
        @ [(ws, AdminAttached (trim roomId0) (enabled room)),
           (ws, PendingList (pending_list (pending s) (trim roomId0))),
           (ws, History (getHistory s (trim roomId0) 200))]
        @ map (\<lambda>c. (c, System (take 20 (js_or sender0 ''Admin'') @ '' (admin) joined.'')))
            (set_add (membersOf (clientsByRoom s) (trim roomId0)) ws))"
proof (intro conjI impI)
  assume "messages s0 = []"
  then show "getHistory (apply_ops s0 ops) r n = take n (spec_history r ops)"
    by (rule getHistory_apply_ops)
next
  assume "messages s0 = []"
  then show "getHistory (run bc extname s0 es) r n = take n (spec_history r (db_trace bc extname s0 es))"
    by (rule getHistory_run)
next
  show "getHistory s r n = take n (map snd (filter (\<lambda>m. fst m = r) (messages s)))"
    by (simp add: getHistory_def)
next
  show "length (getHistory s r 200) \<le> 200" by (rule length_getHistory)
next
  assume "ws_isAdmin (sock s ws) \<and> ws_roomId (sock s ws) = Some roomId \<and> roomId \<noteq> []
       \<and> jsmap_get (pending s) rid = Some req \<and> p_roomId req = roomId"
  then have a: "ws_isAdmin (sock s ws)" "ws_roomId (sock s ws) = Some roomId" "roomId \<noteq> []"
    "jsmap_get (pending s) rid = Some req" "p_roomId req = roomId" by simp_all
  show "send_log (approve_deny s ws False rid) = send_log s
        @ map (\<lambda>a. (a, JoinRequestClosed rid)) (membersOf (adminsByRoom s) roomId)
        @ [(p_ws req, Joined roomId), (p_ws req, History (getHistory s roomId 200))]
        @ map (\<lambda>c. (c, System (p_sender req @ '' joined.'')))
            (set_add (membersOf (clientsByRoom s) roomId) (p_ws req))"
    by (rule approve_effect(10) [OF a refl])
next
  assume "getRoom s (trim roomId0) = Some room \<and> bc_compare bc adminPassword (adminPassHash room)"
  then show "send_log (admin_attach bc s ws roomId0 adminPassword sender0) = send_log s
        @ [(ws, AdminAttached (trim roomId0) (enabled room)),
           (ws, PendingList (pending_list (pending s) (trim roomId0))),
           (ws, History (getHistory s (trim roomId0) 200))]
        @ map (\<lambda>c. (c, System (take 20 (js_or sender0 ''Admin'') @ '' (admin) joined.'')))
            (set_add (membersOf (clientsByRoom s) (trim roomId0)) ws)"
    by (simp add: admin_attach_send_log)
qed

theorem history_is_recorded_sequence_witness:
  "messages boot = []
   \<and> db_trace toy_bcrypt toy_extname boot demo_events =
       [OpAddText ''r1'' ''Cy'' ''hi'' 30, OpAddText ''r2'' ''Dan'' ''yo'' 40]
   \<and> getHistory (run toy_bcrypt toy_extname boot demo_events) ''r1'' 200 =
       [\<lparr>h_sender = ''Cy'', h_kind = KText, h_text = Some ''hi'', h_fileUrl = None,
         h_fileMime = None, h_fileName = None, h_ts = 30\<rparr>]
   \<and> getHistory (apply_ops boot demo_ops) ''r1'' 200 =
       [\<lparr>h_sender = ''Cy'', h_kind = KFile, h_text = None, h_fileUrl = Some ''/uploads/f.png'',
         h_fileMime = Some ''image/png'', h_fileName = Some ''cat.png'', h_ts = 3\<rparr>,
        \<lparr>h_sender = ''Ann'', h_kind = KText, h_text = Some ''four'', h_fileUrl = None,
         h_fileMime = None, h_fileName = None, h_ts = 5\<rparr>]
   \<and> getHistory (apply_ops boot demo_ops) ''r1'' 1 =
       [\<lparr>h_sender = ''Cy'', h_kind = KFile, h_text = None, h_fileUrl = Some ''/uploads/f.png'',
         h_fileMime = Some ''image/png'', h_fileName = Some ''cat.png'', h_ts = 3\<rparr>]
   \<and> send_log (approve_deny demo 1 False ''id1'') = send_log demo @
        [(1, JoinRequestClosed ''id1''), (2, Joined ''r1''),
         (2, History [\<lparr>h_sender = ''Cy'', h_kind = KText, h_text = Some ''hi'', h_fileUrl = None,
                       h_fileMime = None, h_fileName = None, h_ts = 30\<rparr>]),
         (1, System ''Bob joined.''), (3, System ''Bob joined.''), (2, System ''Bob joined.'')]
   \<and> send_log (admin_attach toy_bcrypt demo 5 '' r1 '' ''a'' []) = send_log demo @
        [(5, AdminAttached ''r1'' True), (5, PendingList [(''id1'', ''Bob'', 10)]),
         (5, History [\<lparr>h_sender = ''Cy'', h_kind = KText, h_text = Some ''hi'', h_fileUrl = None,
                       h_fileMime = None, h_fileName = None, h_ts = 30\<rparr>]),
         (1, System ''Admin (admin) joined.''), (3, System ''Admin (admin) joined.''),
         (5, System ''Admin (admin) joined.'')]"
proof -
  let ?bob = "\<lparr>p_ws = 2, p_roomId = ''r1'', p_sender = ''Bob'', p_createdAt = 10\<rparr>"
  let ?room = "\<lparr>roomPassHash = ''$2a$p'', adminPassHash = ''$2a$a'', enabled = True\<rparr>"
  note t = history_is_recorded_sequence
  have b: "messages boot = []" by (simp add: boot_def)
  have s200: "take 200 (spec_history ''r1'' demo_ops) =
       [\<lparr>h_sender = ''Cy'', h_kind = KFile, h_text = None, h_fileUrl = Some ''/uploads/f.png'',
         h_fileMime = Some ''image/png'', h_fileName = Some ''cat.png'', h_ts = 3\<rparr>,
        \<lparr>h_sender = ''Ann'', h_kind = KText, h_text = Some ''four'', h_fileUrl = None,
         h_fileMime = None, h_fileName = None, h_ts = 5\<rparr>]" by code_simp
  have s1: "take 1 (spec_history ''r1'' demo_ops) =
       [\<lparr>h_sender = ''Cy'', h_kind = KFile, h_text = None, h_fileUrl = Some ''/uploads/f.png'',
         h_fileMime = Some ''image/png'', h_fileName = Some ''cat.png'', h_ts = 3\<rparr>]" by code_simp
  have tr0: "db_trace toy_bcrypt toy_extname boot demo_events =
       [OpAddText ''r1'' ''Cy'' ''hi'' 30, OpAddText ''r2'' ''Dan'' ''yo'' 40]" by code_simp
  have sp0: "take 200 (spec_history ''r1'' [OpAddText ''r1'' ''Cy'' ''hi'' 30, OpAddText ''r2'' ''Dan'' ''yo'' 40])
     = [\<lparr>h_sender = ''Cy'', h_kind = KText, h_text = Some ''hi'', h_fileUrl = None,
         h_fileMime = None, h_fileName = None, h_ts = 30\<rparr>]" by code_simp
  have w0: "getHistory (run toy_bcrypt toy_extname boot demo_events) ''r1'' 200 =
       [\<lparr>h_sender = ''Cy'', h_kind = KText, h_text = Some ''hi'', h_fileUrl = None,
         h_fileMime = None, h_fileName = None, h_ts = 30\<rparr>]"
    using t [where ?s0.0 = boot and bc = toy_bcrypt and extname = toy_extname and es = demo_events
        and r = "''r1''" and n = 200, THEN conjunct2, THEN conjunct1, THEN mp, OF b]
    by (simp add: tr0 sp0)
  have w1: "getHistory (apply_ops boot demo_ops) ''r1'' 200 = take 200 (spec_history ''r1'' demo_ops)"
    using t [where ?s0.0 = boot and ops = demo_ops and r = "''r1''" and n = 200] b by blast
  have w2: "getHistory (apply_ops boot demo_ops) ''r1'' 1 = take 1 (spec_history ''r1'' demo_ops)"
    using t [where ?s0.0 = boot and ops = demo_ops and r = "''r1''" and n = 1] b by blast
  have a1: "ws_isAdmin (sock demo 1)" by (simp add: demo_simps)
  have r1: "ws_roomId (sock demo 1) = Some ''r1''" by (simp add: demo_simps)
  have id1: "jsmap_get (pending demo) ''id1'' = Some ?bob" by (simp add: demo_simps)
  have ad: "membersOf (adminsByRoom demo) ''r1'' = [1]" by (simp add: demo_simps)
  have cl: "membersOf (clientsByRoom demo) ''r1'' = [1, 3]" by (simp add: demo_simps)
  have h: "getHistory demo ''r1'' 200 = [\<lparr>h_sender = ''Cy'', h_kind = KText, h_text = Some ''hi'',
      h_fileUrl = None, h_fileMime = None, h_fileName = None, h_ts = 30\<rparr>]" by (simp add: demo_simps)
  have tr: "trim '' r1 '' = ''r1''" by code_simp
  have gr: "getRoom demo ''r1'' = Some ?room" by (simp add: demo_simps)
  have cmp: "bc_compare toy_bcrypt ''a'' (adminPassHash ?room)" by (simp add: demo_simps)
  have pl: "pending_list (pending demo) ''r1'' = [(''id1'', ''Bob'', 10)]" by (simp add: demo_simps)
  have w3: "send_log (approve_deny demo 1 False ''id1'') = send_log demo @
        [(1, JoinRequestClosed ''id1''), (2, Joined ''r1''),
         (2, History [\<lparr>h_sender = ''Cy'', h_kind = KText, h_text = Some ''hi'', h_fileUrl = None,
                       h_fileMime = None, h_fileName = None, h_ts = 30\<rparr>]),
         (1, System ''Bob joined.''), (3, System ''Bob joined.''), (2, System ''Bob joined.'')]"
    using t [where s = demo and ws = 1 and roomId = "''r1''" and rid = "''id1''" and req = ?bob] a1 r1 id1 ad cl h
    by (simp add: set_add_def)
  have w4: "send_log (admin_attach toy_bcrypt demo 5 '' r1 '' ''a'' []) = send_log demo @
        [(5, AdminAttached ''r1'' True), (5, PendingList [(''id1'', ''Bob'', 10)]),
         (5, History [\<lparr>h_sender = ''Cy'', h_kind = KText, h_text = Some ''hi'', h_fileUrl = None,
                       h_fileMime = None, h_fileName = None, h_ts = 30\<rparr>]),
         (1, System ''Admin (admin) joined.''), (3, System ''Admin (admin) joined.''),
         (5, System ''Admin (admin) joined.'')]"
    using t [where s = demo and ws = 5 and ?roomId0.0 = "'' r1 ''" and room = ?room
        and bc = toy_bcrypt and adminPassword = "''a''" and ?sender0.0 = "[]"] tr gr cmp pl cl h
    by (simp add: set_add_def js_or_def)
  from b tr0 w0 w1 w2 s200 s1 w3 w4 show ?thesis by simp
qed

end
